theory Spec2Isabelle
  imports Main "HOL-Library.Multiset"
begin

section \<open>JavaScript strings\<close>

text \<open>
  A JavaScript string is a sequence of UTF-16 code units and \<open>length\<close> counts code units,
  so a string is modelled as a list of code-unit numbers. String literals of the source are
  written \<open>js ''...''\<close>; code units beyond ASCII are written as numbers.
\<close>

type_synonym jchar = nat
type_synonym jstring = "nat list"

abbreviation js :: "string \<Rightarrow> jstring" where
  "js s \<equiv> map of_char s"

text \<open>The regular-expression class \<open>\w\<close>: \<open>[A-Za-z0-9_]\<close>.\<close>

definition isWordChar :: "jchar \<Rightarrow> bool" where
  "isWordChar c \<longleftrightarrow>
     (48 \<le> c \<and> c \<le> 57) \<or> (65 \<le> c \<and> c \<le> 90) \<or> c = 95 \<or> (97 \<le> c \<and> c \<le> 122)"

text \<open>
  The class \<open>\s\<close>, which is also what \<open>trim\<close> removes: TAB, LF, VT, FF, CR, SP, NBSP,
  U+1680, U+2000..U+200A, U+2028, U+2029, U+202F, U+205F, U+3000 and U+FEFF.
\<close>

definition isSpaceChar :: "jchar \<Rightarrow> bool" where
  "isSpaceChar c \<longleftrightarrow>
     (9 \<le> c \<and> c \<le> 13) \<or> c = 32 \<or> c = 160 \<or> c = 5760 \<or> (8192 \<le> c \<and> c \<le> 8202) \<or>
     c = 8232 \<or> c = 8233 \<or> c = 8239 \<or> c = 8287 \<or> c = 12288 \<or> c = 65279"

text \<open>
  \<open>String.prototype.toLowerCase\<close>, as far as topic extraction and content-type detection
  depend on it. The ASCII capitals go to their small letters; U+0130 goes to \<open>i\<close>
  followed by U+0307 and U+212A (the Kelvin sign) to \<open>k\<close>. These are the only code units
  whose lower-case form contains an ASCII code unit that they do not contain themselves.
  Every other code unit is left as it is here: JavaScript maps some of them to other code
  units beyond ASCII. Topic extraction turns every code unit beyond ASCII into a separator
  and the detection looks for ASCII keywords only, so neither sees the difference. The
  compliance check, which compares arbitrary words, does not use this function: there the
  lower-casing is a parameter.
\<close>

definition lowerUnit :: "jchar \<Rightarrow> jstring" where
  "lowerUnit c =
     (if 65 \<le> c \<and> c \<le> 90 then [c + 32]
      else if c = 304 then [105, 775]
      else if c = 8490 then [107]
      else [c])"

definition toLowerCase :: "jstring \<Rightarrow> jstring" where
  "toLowerCase s = concat (map lowerUnit s)"

text \<open>
  \<open>toUpperCase\<close> is only ever applied by the source to text matched by \<open>\w\<close> (a topic
  word or a hashtag), where it changes the ASCII small letters and nothing else.
\<close>

definition upperUnit :: "jchar \<Rightarrow> jchar" where
  "upperUnit c = (if 97 \<le> c \<and> c \<le> 122 then c - 32 else c)"

text \<open>\<open>s.trim()\<close>\<close>

definition trim :: "jstring \<Rightarrow> jstring" where
  "trim s = rev (dropWhile isSpaceChar (rev (dropWhile isSpaceChar s)))"

text \<open>\<open>s.startsWith(p)\<close>, \<open>s.endsWith(p)\<close> and \<open>s.includes(p)\<close>\<close>

definition startsWith :: "jstring \<Rightarrow> jstring \<Rightarrow> bool" where
  "startsWith s p \<longleftrightarrow> take (length p) s = p"

definition endsWith :: "jstring \<Rightarrow> jstring \<Rightarrow> bool" where
  "endsWith s p \<longleftrightarrow> length p \<le> length s \<and> drop (length s - length p) s = p"

fun includesStr :: "jstring \<Rightarrow> jstring \<Rightarrow> bool" where
  "includesStr [] p = (p = [])"
| "includesStr (c # cs) p = (startsWith (c # cs) p \<or> includesStr cs p)"

text \<open>\<open>xs.join(sep)\<close>\<close>

fun join :: "jstring \<Rightarrow> jstring list \<Rightarrow> jstring" where
  "join sep [] = []"
| "join sep [x] = x"
| "join sep (x # y # ys) = x @ sep @ join sep (y # ys)"

text \<open>\<open>xs[i]\<close>: \<open>undefined\<close> (here \<open>None\<close>) out of range.\<close>

definition at :: "'a list \<Rightarrow> nat \<Rightarrow> 'a option" where
  "at xs i = (if i < length xs then Some (xs ! i) else None)"

text \<open>
  \<open>xs.slice(0, n)\<close> for an integer \<open>n\<close>: a negative \<open>n\<close> counts from the end.
\<close>

definition sliceTo :: "int \<Rightarrow> 'a list \<Rightarrow> 'a list" where
  "sliceTo n xs = (if n < 0 then take (nat (int (length xs) + n)) xs else take (nat n) xs)"

section \<open>Topic extraction\<close>

text \<open>\<open>.replace(/[^\w\s]/g, ' ')\<close>\<close>

definition stripPunctuation :: "jstring \<Rightarrow> jstring" where
  "stripPunctuation s = map (\<lambda>c. if isWordChar c \<or> isSpaceChar c then c else 32) s"

text \<open>\<open>.replace(/\s+/g, ' ')\<close>: every maximal run of white space becomes one space.\<close>

function collapseSpaces :: "jstring \<Rightarrow> jstring" where
  "collapseSpaces [] = []"
| "collapseSpaces (c # cs) =
     (if isSpaceChar c then 32 # collapseSpaces (dropWhile isSpaceChar cs)
      else c # collapseSpaces cs)"
  by pat_completeness auto
termination
  by (relation "measure length") (auto simp: length_dropWhile_le less_Suc_eq_le)

text \<open>
  \<open>.split(/\s+/)\<close>: the pieces between the maximal runs of white space; a run at the
  start or at the end leaves an empty piece there, and the empty string gives one empty piece.
\<close>

function pieces :: "jstring \<Rightarrow> jstring \<Rightarrow> jstring list" where
  "pieces cur [] = [cur]"
| "pieces cur (c # cs) =
     (if isSpaceChar c then cur # pieces [] (dropWhile isSpaceChar cs)
      else pieces (cur @ [c]) cs)"
  by pat_completeness auto
termination
  by (relation "measure (\<lambda>(cur, s). length s)") (auto simp: length_dropWhile_le less_Suc_eq_le)

definition splitSpaces :: "jstring \<Rightarrow> jstring list" where
  "splitSpaces s = pieces [] s"

definition commonWords :: "jstring list" where
  "commonWords = map js [''the'', ''and'', ''for'', ''with'', ''that'', ''this'', ''have'',
     ''will'', ''from'', ''they'', ''know'', ''want'', ''been'', ''good'', ''much'', ''some'',
     ''time'', ''very'', ''when'', ''come'', ''just'', ''into'', ''than'', ''more'', ''other'',
     ''about'', ''many'', ''then'', ''them'', ''these'', ''so'', ''people'', ''can'', ''said'',
     ''each'', ''which'', ''she'', ''do'', ''how'', ''their'', ''if'', ''up'', ''out'', ''many'',
     ''then'', ''them'', ''would'', ''write'', ''go'', ''see'', ''number'', ''no'', ''way'',
     ''could'', ''my'', ''than'', ''first'', ''water'', ''been'', ''call'', ''who'', ''oil'',
     ''sit'', ''now'', ''find'', ''down'', ''day'', ''did'', ''get'', ''come'', ''made'', ''may'',
     ''part'', ''billion'', ''million'', ''dollars'', ''year'', ''years'', ''continue'',
     ''continues'', ''continuing'', ''remains'', ''remain'', ''reflecting'', ''reflects'',
     ''impact'', ''strong'', ''financial'', ''markets'', ''individuals'', ''corporations'',
     ''generosity'', ''economy'', ''force'', ''major'', ''key'', ''part'']"

text \<open>
  The property names every object literal inherits from \<open>Object.prototype\<close>. Reading one
  of them from an object that has no own property of that name gives the inherited function
  (for \<open>__proto__\<close> the prototype object), which is truthy.
\<close>

definition inheritedKeys :: "jstring list" where
  "inheritedKeys = map js [''constructor'', ''__defineGetter__'', ''__defineSetter__'',
     ''hasOwnProperty'', ''__lookupGetter__'', ''__lookupSetter__'', ''isPrototypeOf'',
     ''propertyIsEnumerable'', ''toString'', ''valueOf'', ''__proto__'', ''toLocaleString'']"

text \<open>
  The values the counting loop stores in \<open>wordCount\<close>: a number, or the string that
  \<open>(wordCount[word] || 0) + 1\<close> yields when \<open>wordCount[word]\<close> is an inherited function
  or already such a string.
\<close>

datatype jsval = Num nat | Str

fun plusOne :: "jsval \<Rightarrow> jsval" where
  "plusOne (Num n) = Num (n + 1)"
| "plusOne Str = Str"

text \<open>
  \<open>wordCount[word] = (wordCount[word] || 0) + 1\<close> on an object kept as the list of its own
  properties in creation order. An assignment to \<open>__proto__\<close> of a value that is not an
  object changes nothing.
\<close>

definition countWord :: "(jstring \<times> jsval) list \<Rightarrow> jstring \<Rightarrow> (jstring \<times> jsval) list" where
  "countWord obj w =
     (if w = js ''__proto__'' then obj
      else case map_of obj w of
        Some v \<Rightarrow> map (\<lambda>(k, x). if k = w then (k, plusOne x) else (k, x)) obj
      | None \<Rightarrow> obj @ [(w, if w \<in> set inheritedKeys then Str else Num 1)])"

text \<open>
  \<open>Object.entries\<close>: the own properties whose names are array indices (canonical decimal
  numerals below \<open>2^32 - 1\<close>) in ascending numeric order, then the others in creation order.
\<close>

definition digitsValue :: "jstring \<Rightarrow> nat" where
  "digitsValue k = foldl (\<lambda>n c. 10 * n + (c - 48)) 0 k"

definition isArrayIndex :: "jstring \<Rightarrow> bool" where
  "isArrayIndex k \<longleftrightarrow>
     k \<noteq> [] \<and> list_all (\<lambda>c. 48 \<le> c \<and> c \<le> 57) k \<and> (k = [48] \<or> hd k \<noteq> 48) \<and>
     digitsValue k < 4294967295"

definition entries :: "(jstring \<times> 'v) list \<Rightarrow> (jstring \<times> 'v) list" where
  "entries obj =
     sort_key (\<lambda>e. digitsValue (fst e)) (filter (\<lambda>e. isArrayIndex (fst e)) obj) @
     filter (\<lambda>e. \<not> isArrayIndex (fst e)) obj"

text \<open>
  \<open>.sort(([,a], [,b]) => b - a)\<close>. \<open>comesBefore b a\<close> says that the comparator, called on
  \<open>(a, b)\<close>, is positive: \<open>b\<close> has to come before \<open>a\<close>. With a string operand \<open>b - a\<close> is
  \<open>NaN\<close>, which the sort reads as zero. The sort is stable; it is written as an insertion
  sort. While every count is a number the comparator is consistent and every stable sort
  gives this order. When a count is a string (the text contains the word
  \<open>constructor\<close>) the comparator is not consistent, the language leaves the order to the
  engine, and an engine may order the entries, and so cut them at \<open>maxTopics\<close>,
  differently from this definition. Everything proved below about the result of
  \<open>extractKeyTopics\<close> uses only that its entries are kept words or padding words and how
  many there are at least, which holds for every order.
\<close>

fun comesBefore :: "jsval \<Rightarrow> jsval \<Rightarrow> bool" where
  "comesBefore (Num b) (Num a) = (a < b)"
| "comesBefore _ _ = False"

fun insertEntry :: "(jstring \<times> jsval) \<Rightarrow> (jstring \<times> jsval) list \<Rightarrow> (jstring \<times> jsval) list" where
  "insertEntry x [] = [x]"
| "insertEntry x (y # ys) =
     (if comesBefore (snd x) (snd y) then x # y # ys else y # insertEntry x ys)"

definition sortByCount :: "(jstring \<times> jsval) list \<Rightarrow> (jstring \<times> jsval) list" where
  "sortByCount xs = foldl (\<lambda>acc x. insertEntry x acc) [] xs"

definition cleanContent :: "jstring \<Rightarrow> jstring" where
  "cleanContent content = trim (collapseSpaces (stripPunctuation (toLowerCase content)))"

definition keptWords :: "jstring list \<Rightarrow> jstring \<Rightarrow> jstring list" where
  "keptWords stop content =
     filter (\<lambda>word. 3 < length word \<and> word \<notin> set stop) (splitSpaces (cleanContent content))"

definition padTopics :: "jstring list \<Rightarrow> jstring list" where
  "padTopics topics =
     (if length topics = 0 then [js ''content'', js ''information'', js ''strategies'']
      else if length topics = 1 then topics @ [js ''strategies'', js ''success'']
      else if length topics = 2 then topics @ [js ''success'']
      else topics)"

definition extractTopicsWith :: "jstring list \<Rightarrow> jstring \<Rightarrow> int \<Rightarrow> jstring list" where
  "extractTopicsWith stop content maxTopics =
     (let words = keptWords stop content;
          wordCount = foldl countWord [] words;
          topics = map fst (sliceTo maxTopics (sortByCount (entries wordCount)))
      in padTopics topics)"

definition extractKeyTopics :: "jstring \<Rightarrow> int \<Rightarrow> jstring list" where
  "extractKeyTopics content maxTopics = extractTopicsWith commonWords content maxTopics"

text \<open>
  The second listing of the server has the same function with a shorter stop-word list:
  the first 73 words of the list above.
\<close>

definition extractKeyTopicsOld :: "jstring \<Rightarrow> int \<Rightarrow> jstring list" where
  "extractKeyTopicsOld content maxTopics = extractTopicsWith (take 73 commonWords) content maxTopics"

text \<open>Helper function to ensure complete words; \<open>None\<close> is \<open>undefined\<close>.\<close>

definition replaceFinalFor :: "jstring \<Rightarrow> jstring" where
  "replaceFinalFor word = take (length word - 3) word @ js ''marketing''"

definition takesFallback :: "jstring option \<Rightarrow> bool" where
  "takesFallback word = (case word of None \<Rightarrow> True | Some w \<Rightarrow> w = [] \<or> length w < 3)"

definition ensureCompleteWord :: "jstring option \<Rightarrow> jstring" where
  "ensureCompleteWord word =
     (if takesFallback word then js ''content''
      else if endsWith (the word) (js ''for'') then replaceFinalFor (the word)
      else the word)"

text \<open>\<open>a || b\<close> on strings: the empty string is falsy.\<close>

definition orElse :: "jstring \<Rightarrow> jstring \<Rightarrow> jstring" where
  "orElse a b = (if a = [] then b else a)"

text \<open>\<open>word.charAt(0).toUpperCase() + word.slice(1)\<close>\<close>

definition capitalize :: "jstring \<Rightarrow> jstring" where
  "capitalize word = (case word of [] \<Rightarrow> [] | c # cs \<Rightarrow> upperUnit c # cs)"

section \<open>Content-type detection\<close>

definition typeKeywords :: "(jstring \<times> jstring list) list" where
  "typeKeywords =
     [(js ''charitable'', map js [''charitable'', ''donation'', ''donations'', ''giving'',
         ''philanthropy'', ''nonprofit'', ''charity'', ''fundraising'']),
      (js ''financial'', map js [''financial'', ''investment'', ''investing'', ''money'',
         ''finance'', ''economic'', ''economy'', ''market'', ''markets'']),
      (js ''business'', map js [''business'', ''company'', ''corporate'', ''enterprise'',
         ''startup'', ''entrepreneur'']),
      (js ''technology'', map js [''technology'', ''tech'', ''software'', ''app'', ''digital'',
         ''online'', ''web'', ''internet'']),
      (js ''health'', map js [''health'', ''medical'', ''wellness'', ''fitness'', ''nutrition'',
         ''healthcare'']),
      (js ''education'', map js [''education'', ''learning'', ''teaching'', ''school'',
         ''university'', ''course'', ''training''])]"

text \<open>
  \<open>scores[type] = keywords[type].filter(keyword => lowerContent.includes(keyword)).length\<close>
  for every key of the keyword table, in the order of the keys.
\<close>

definition scores :: "jstring \<Rightarrow> (jstring \<times> nat) list" where
  "scores lowerContent =
     map (\<lambda>(type, kws). (type, length (filter (\<lambda>keyword. includesStr lowerContent keyword) kws)))
       typeKeywords"

text \<open>\<open>scores[a]\<close>; the reduction below only reads keys of \<open>scores\<close>.\<close>

definition scoreOf :: "(jstring \<times> nat) list \<Rightarrow> jstring \<Rightarrow> nat" where
  "scoreOf sc a = (case map_of sc a of Some n \<Rightarrow> n | None \<Rightarrow> 0)"

text \<open>
  \<open>xs.reduce(f)\<close> without an initial value, on a non-empty array: the first element
  starts the accumulation. (\<open>Object.keys(scores)\<close> is never empty.)
\<close>

fun reduce :: "('a \<Rightarrow> 'a \<Rightarrow> 'a) \<Rightarrow> 'a list \<Rightarrow> 'a option" where
  "reduce f [] = None"
| "reduce f (x # xs) = Some (foldl f x xs)"

definition keepHigher :: "(jstring \<times> nat) list \<Rightarrow> jstring \<Rightarrow> jstring \<Rightarrow> jstring" where
  "keepHigher sc a b = (if scoreOf sc a > scoreOf sc b then a else b)"

definition detectedType :: "jstring \<Rightarrow> jstring" where
  "detectedType content =
     (let sc = scores (toLowerCase content)
      in case reduce (keepHigher sc) (map fst sc) of Some t \<Rightarrow> t | None \<Rightarrow> [])"

definition detectContentType :: "jstring \<Rightarrow> jstring \<Rightarrow> jstring" where
  "detectContentType content userSelectedType =
     (if scoreOf (scores (toLowerCase content)) (detectedType content) \<ge> 2
      then detectedType content
      else userSelectedType)"

section \<open>Compliance check\<close>

text \<open>
  The word lists are read from \<open>../data/prohibited-words.json\<close>, which is not part of the
  sources at hand: they are a parameter.
\<close>

record prohibitedWords =
  red_words :: "jstring list"
  yellow_words :: "jstring list"
  us_specific_terms :: "jstring list"

text \<open>
  \<open>String.prototype.toLowerCase\<close> is the engine's function over all of Unicode. The
  word lists and the text are arbitrary strings here, so the lower-casing function is a
  parameter \<open>lc\<close> of the check: what is proved about the check holds whatever \<open>lc\<close>
  does to a letter.

  \<open>words.filter(word => content.toLowerCase().includes(word.toLowerCase()))\<close>
\<close>

definition wordsFound :: "(jstring \<Rightarrow> jstring) \<Rightarrow> jstring \<Rightarrow> jstring list \<Rightarrow> jstring list" where
  "wordsFound lc content ws = filter (\<lambda>word. includesStr (lc content) (lc word)) ws"

text \<open>
  \<open>if (found.length > 0) warnings.push(`label ${found.join(', ')}`)\<close>: the warnings
  this step adds.
\<close>

definition warningFor :: "jstring \<Rightarrow> jstring list \<Rightarrow> jstring list" where
  "warningFor label found = (if length found > 0 then [label @ join (js '', '') found] else [])"

definition complianceCheck :: "(jstring \<Rightarrow> jstring) \<Rightarrow> prohibitedWords \<Rightarrow> jstring \<Rightarrow> jstring list" where
  "complianceCheck lc pw content =
     (let redWordsFound = wordsFound lc content (red_words pw);
          yellowWordsFound = wordsFound lc content (yellow_words pw);
          usTermsFound = wordsFound lc content (us_specific_terms pw)
      in warningFor (js ''Red words found: '') redWordsFound @
         warningFor (js ''Yellow words found: '') yellowWordsFound @
         warningFor (js ''US-specific terms found: '') usTermsFound)"

section \<open>Tone rules and hashtags\<close>

text \<open>
  Every regular expression of the tone rules is an alternation of literal texts with the
  flag \<open>g\<close> or \<open>gi\<close>. A rule is the flag \<open>i\<close>, the alternatives in their order and the
  replacement text (no replacement contains \<open>$\<close>). With \<open>i\<close>, two code units match when
  their ASCII capitals agree: every pattern under \<open>i\<close> is made of ASCII letters, which
  match no code unit beyond ASCII.
\<close>

type_synonym rule = "bool \<times> jstring list \<times> jstring"

definition unitEq :: "bool \<Rightarrow> jchar \<Rightarrow> jchar \<Rightarrow> bool" where
  "unitEq ignoreCase a b = (if ignoreCase then upperUnit a = upperUnit b else a = b)"

fun matchesAt :: "bool \<Rightarrow> jstring \<Rightarrow> jstring \<Rightarrow> bool" where
  "matchesAt ic [] s = True"
| "matchesAt ic (p # ps) [] = False"
| "matchesAt ic (p # ps) (c # cs) = (unitEq ic p c \<and> matchesAt ic ps cs)"

text \<open>
  \<open>s.replace(/alt1|alt2|.../g, rep)\<close>: from left to right; at each position the first
  alternative that matches is replaced and the scan goes on behind the match. (Every
  alternative of the source is non-empty, so \<open>drop (length p - 1) cs\<close> is what follows
  the match.)
\<close>

function replaceAll :: "bool \<Rightarrow> jstring list \<Rightarrow> jstring \<Rightarrow> jstring \<Rightarrow> jstring" where
  "replaceAll ic alts rep [] = []"
| "replaceAll ic alts rep (c # cs) =
     (case find (\<lambda>p. matchesAt ic p (c # cs)) alts of
        Some p \<Rightarrow> rep @ replaceAll ic alts rep (drop (length p - 1) cs)
      | None \<Rightarrow> c # replaceAll ic alts rep cs)"
  by pat_completeness auto
termination
  by (relation "measure (\<lambda>(ic, alts, rep, s). length s)") auto

definition applyRule :: "jstring \<Rightarrow> rule \<Rightarrow> jstring" where
  "applyRule s r = (case r of (ic, alts, rep) \<Rightarrow> replaceAll ic alts rep s)"

text \<open>A chain \<open>s.replace(...).replace(...)...\<close>: the rules in their order.\<close>

definition applyRules :: "rule list \<Rightarrow> jstring \<Rightarrow> jstring" where
  "applyRules rs s = foldl applyRule s rs"

text \<open>Helper function to format hashtags properly.\<close>

definition isUpper :: "jchar \<Rightarrow> bool" where
  "isUpper c \<longleftrightarrow> 65 \<le> c \<and> c \<le> 90"

text \<open>\<open>hashtag.replace(/([A-Z])/g, ' $1')\<close>\<close>

definition spaceBeforeCapitals :: "jstring \<Rightarrow> jstring" where
  "spaceBeforeCapitals h = concat (map (\<lambda>c. if isUpper c then [32, c] else [c]) h)"

text \<open>\<open>s.split(' ')\<close>\<close>

fun splitOn :: "jchar \<Rightarrow> jstring \<Rightarrow> jstring \<Rightarrow> jstring list" where
  "splitOn sep cur [] = [cur]"
| "splitOn sep cur (c # cs) =
     (if c = sep then cur # splitOn sep [] cs else splitOn sep (cur @ [c]) cs)"

text \<open>\<open>word.charAt(0).toUpperCase() + word.slice(1).toLowerCase()\<close>\<close>

definition titleWord :: "jstring \<Rightarrow> jstring" where
  "titleWord word = (case word of [] \<Rightarrow> [] | c # cs \<Rightarrow> upperUnit c # toLowerCase cs)"

text \<open>The callback of \<open>formatHashtags\<close>, on the text matched by \<open>(\w+)\<close>.\<close>

definition formatTag :: "jstring \<Rightarrow> jstring" where
  "formatTag hashtag =
     (if 95 \<notin> set hashtag \<and> \<not> list_ex isUpper hashtag
      then 35 # capitalize hashtag
      else 35 # concat (map titleWord (splitOn 32 [] (trim (spaceBeforeCapitals hashtag)))))"

text \<open>\<open>text.replace(/#(\w+)/g, ...)\<close>\<close>

function formatHashtags :: "jstring \<Rightarrow> jstring" where
  "formatHashtags [] = []"
| "formatHashtags (c # cs) =
     (if c = 35 \<and> takeWhile isWordChar cs \<noteq> []
      then formatTag (takeWhile isWordChar cs) @ formatHashtags (dropWhile isWordChar cs)
      else c # formatHashtags cs)"
  by pat_completeness auto
termination
  by (relation "measure length") (auto simp: length_dropWhile_le less_Suc_eq_le)

section \<open>Template selection\<close>

text \<open>
  \<open>templates.sort(() => 0.5 - Math.random())\<close> rearranges the array in some order that
  depends on the random numbers drawn. The outcome of the draw is a parameter \<open>ks\<close>: the
  rearranged array takes, one position after the other, the element at index
  \<open>k mod n\<close> of the \<open>n\<close> elements still left; when \<open>ks\<close> is used up, the rest
  keeps its order. The result is always a rearrangement of the array, and every
  rearrangement is the result for some \<open>ks\<close> (lemmas \<open>mset_shuffle\<close> and
  \<open>shuffle_reaches\<close> below).
\<close>

function shuffle :: "nat list \<Rightarrow> 'a list \<Rightarrow> 'a list" where
  "shuffle ks [] = []"
| "shuffle [] (x # xs) = x # xs"
| "shuffle (k # ks) (x # xs) =
     (x # xs) ! (k mod Suc (length xs)) #
     shuffle ks (take (k mod Suc (length xs)) (x # xs) @ drop (Suc (k mod Suc (length xs))) (x # xs))"
  by pat_completeness auto
termination
  by (relation "measure (\<lambda>(ks, xs). length ks)") auto

text \<open>
  Reading a property of an object literal: an own property, a property inherited from
  \<open>Object.prototype\<close>, or \<open>undefined\<close>.
\<close>

datatype 'a property = Own 'a | Inherited | Absent

definition getProp :: "(jstring \<times> 'a) list \<Rightarrow> jstring \<Rightarrow> 'a property" where
  "getProp obj k =
     (case map_of obj k of
        Some v \<Rightarrow> Own v
      | None \<Rightarrow> if k \<in> set inheritedKeys then Inherited else Absent)"

datatype error = TypeError

text \<open>
  \<open>allTemplates[detectedType] || allTemplates[contentType] || allTemplates['article']\<close>,
  followed by \<open>templates.sort(...)\<close>. An array is truthy; so is an inherited function or
  the prototype object, and calling its \<open>sort\<close>, which it does not have, throws a
  \<open>TypeError\<close>.
\<close>

definition selectTemplates ::
    "(jstring \<times> jstring list) list \<Rightarrow> jstring \<Rightarrow> jstring \<Rightarrow> error + jstring list" where
  "selectTemplates allTemplates detected contentType =
     (case getProp allTemplates detected of
        Own ts \<Rightarrow> Inr ts
      | Inherited \<Rightarrow> Inl TypeError
      | Absent \<Rightarrow>
          (case getProp allTemplates contentType of
             Own ts \<Rightarrow> Inr ts
           | Inherited \<Rightarrow> Inl TypeError
           | Absent \<Rightarrow>
               (case getProp allTemplates (js ''article'') of
                  Own ts \<Rightarrow> Inr ts
                | _ \<Rightarrow> Inl TypeError)))"

text \<open>
  \<open>targetAudience && targetAudience.trim() ? targetAudience.trim() : 'professionals'\<close>
\<close>

definition validAudienceOf :: "jstring \<Rightarrow> jstring" where
  "validAudienceOf targetAudience =
     (if targetAudience \<noteq> [] \<and> trim targetAudience \<noteq> [] then trim targetAudience
      else js ''professionals'')"

section \<open>Title templates\<close>

definition titles_article :: "jstring \<Rightarrow> jstring \<Rightarrow> jstring \<Rightarrow> jstring list" where
  "titles_article mainTopic secondaryTopic targetAudience =
    [
      js ''The Complete Guide to '' @ capitalize mainTopic,
      js ''The Ultimate '' @ capitalize mainTopic @ js '' Guide for '' @ targetAudience,
      capitalize mainTopic @ js '': What Every '' @ targetAudience @ js '' Needs to Know'',
      js ''How to Master '' @ capitalize mainTopic @ js '' in 2024'',
      js ''The Definitive Guide to '' @ capitalize mainTopic,
      js ''Solving '' @ capitalize mainTopic @ js '' Challenges: A '' @ targetAudience @ js '' Guide'',
      js ''Common '' @ capitalize mainTopic @ js '' Mistakes and How to Avoid Them'',
      js ''The '' @ capitalize mainTopic @ js '' Roadmap: From Beginner to Expert'',
      js ''Unlock the Power of '' @ capitalize mainTopic,
      capitalize mainTopic @ js '' Strategies That Actually Work'',
      js ''Transform Your '' @ secondaryTopic @ js '' with '' @ capitalize mainTopic,
      capitalize mainTopic @ js '' Best Practices for '' @ targetAudience,
      js ''The Future of '' @ capitalize mainTopic @ js '': Trends and Insights'',
      capitalize mainTopic @ js '' Fundamentals Every '' @ targetAudience @ js '' Should Master'']"

definition titles_blog :: "jstring \<Rightarrow> jstring \<Rightarrow> jstring \<Rightarrow> jstring list" where
  "titles_blog mainTopic secondaryTopic targetAudience =
    [
      js ''Why '' @ capitalize mainTopic @ js '' Matters More Than Ever'',
      js ''The Hidden Truth About '' @ capitalize mainTopic,
      capitalize mainTopic @ js '': Tips and Tricks You'll Love'',
      js ''Discover the Power of '' @ capitalize mainTopic,
      capitalize mainTopic @ js '': Everything You've Been Missing'',
      js ''How '' @ capitalize mainTopic @ js '' Changed My Business'',
      js ''The Real Story Behind '' @ capitalize mainTopic @ js '' Success'',
      js ''What I Learned About '' @ capitalize mainTopic @ js '' the Hard Way'',
      js ''The '' @ capitalize mainTopic @ js '' Secret Nobody Talks About'',
      js ''Is '' @ capitalize mainTopic @ js '' Worth Your Time? Here's the Truth'',
      capitalize mainTopic @ js '': The Good, the Bad, and the Ugly'',
      js ''Ready to Level Up Your '' @ capitalize mainTopic @ js ''?'',
      capitalize mainTopic @ js '': Your Action Plan for Success'',
      js ''Stop Struggling with '' @ capitalize mainTopic @ js '' - Try This Instead'']"

definition titles_product :: "jstring \<Rightarrow> jstring \<Rightarrow> jstring \<Rightarrow> jstring list" where
  "titles_product mainTopic secondaryTopic targetAudience =
    [
      js ''Transform Your '' @ capitalize mainTopic @ js '' Experience'',
      js ''The Future of '' @ capitalize mainTopic @ js '' is Here'',
      js ''Revolutionary '' @ capitalize mainTopic @ js '' Solutions'',
      js ''Upgrade Your '' @ capitalize mainTopic @ js '' Today'',
      js ''Premium '' @ capitalize mainTopic @ js '' for Modern Needs'',
      js ''Introducing the Next Generation of '' @ capitalize mainTopic,
      capitalize mainTopic @ js '' Made Simple: Powerful Features, Easy Use'',
      js ''The '' @ capitalize mainTopic @ js '' Tool You've Been Waiting For'',
      js ''Save Time and Money with Smart '' @ capitalize mainTopic,
      js ''Boost Your '' @ secondaryTopic @ js '' with Advanced '' @ capitalize mainTopic,
      js ''Professional '' @ capitalize mainTopic @ js '' at an Affordable Price'',
      js ''Why Choose Our '' @ capitalize mainTopic @ js '' Over the Competition'',
      js ''The '' @ capitalize mainTopic @ js '' Difference: Quality You Can Trust'',
      js ''Built for '' @ targetAudience @ js '': The '' @ capitalize mainTopic @ js '' Solution'']"

definition titles_service :: "jstring \<Rightarrow> jstring \<Rightarrow> jstring \<Rightarrow> jstring list" where
  "titles_service mainTopic secondaryTopic targetAudience =
    [
      js ''Professional '' @ capitalize mainTopic @ js '' Services'',
      js ''Expert '' @ capitalize mainTopic @ js '' Solutions'',
      js ''Trusted '' @ capitalize mainTopic @ js '' Partners'',
      js ''Quality '' @ capitalize mainTopic @ js '' Guaranteed'',
      js ''Your '' @ capitalize mainTopic @ js '' Success Partner'',
      js ''Custom '' @ capitalize mainTopic @ js '' Solutions for '' @ targetAudience,
      js ''Full-Service '' @ capitalize mainTopic @ js '' Support'',
      js ''Dedicated '' @ capitalize mainTopic @ js '' Team at Your Service'',
      js ''Get More Value from Your '' @ capitalize mainTopic @ js '' Investment'',
      js ''Streamline Your '' @ secondaryTopic @ js '' with Professional '' @ capitalize mainTopic,
      js ''Expert '' @ capitalize mainTopic @ js '' Consultation and Implementation'',
      capitalize mainTopic @ js '' Services Tailored for '' @ targetAudience,
      js ''Proven '' @ capitalize mainTopic @ js '' Methods for Business Growth'',
      js ''Reliable '' @ capitalize mainTopic @ js '' Support When You Need It Most'']"

definition titles_video :: "jstring \<Rightarrow> jstring \<Rightarrow> jstring \<Rightarrow> jstring list" where
  "titles_video mainTopic secondaryTopic targetAudience =
    [
      js ''The Ultimate '' @ capitalize mainTopic @ js '' Video Guide'',
      js ''Watch: Complete '' @ capitalize mainTopic @ js '' Tutorial'',
      capitalize mainTopic @ js '': Everything You Need to Know (Video)'',
      js ''Master '' @ capitalize mainTopic @ js '' in This Comprehensive Video'',
      js ''Video Guide: '' @ capitalize mainTopic @ js '' Best Practices'',
      js ''Learn '' @ capitalize mainTopic @ js '' Step-by-Step (Video Tutorial)'',
      js ''Video Tutorial: '' @ capitalize mainTopic @ js '' for '' @ targetAudience,
      js ''Complete '' @ capitalize mainTopic @ js '' Video Course'',
      js ''Must-Watch: '' @ capitalize mainTopic @ js '' Video Guide'',
      js ''Video: The Truth About '' @ capitalize mainTopic,
      capitalize mainTopic @ js '' Secrets Revealed (Video)'',
      js ''Transform Your '' @ capitalize mainTopic @ js '' with This Video'',
      js ''Video: '' @ capitalize mainTopic @ js '' Strategies That Work'',
      js ''Watch and Learn: '' @ capitalize mainTopic @ js '' Masterclass'']"

definition titles_email :: "jstring \<Rightarrow> jstring \<Rightarrow> jstring \<Rightarrow> jstring list" where
  "titles_email mainTopic secondaryTopic targetAudience =
    [
      js ''Email Marketing: '' @ capitalize mainTopic @ js '' Best Practices'',
      js ''The Complete '' @ capitalize mainTopic @ js '' Email Guide'',
      js ''Email Strategy: '' @ capitalize mainTopic @ js '' for '' @ targetAudience,
      js ''Master Email '' @ capitalize mainTopic @ js '' in 2024'',
      js ''Email Marketing '' @ capitalize mainTopic @ js '' That Converts'',
      js ''Email Campaign: '' @ capitalize mainTopic @ js '' Success Strategies'',
      js ''Email Templates for '' @ capitalize mainTopic,
      js ''Email Automation: '' @ capitalize mainTopic @ js '' Workflows'',
      js ''Boost Email Engagement with '' @ capitalize mainTopic,
      js ''Email Subject Lines: '' @ capitalize mainTopic @ js '' That Get Opens'',
      js ''Email Content: '' @ capitalize mainTopic @ js '' Best Practices'',
      js ''Email ROI: '' @ capitalize mainTopic @ js '' Strategies That Work'',
      js ''Email Marketing ROI: '' @ capitalize mainTopic @ js '' for Growth'',
      js ''Email Success: '' @ capitalize mainTopic @ js '' Case Studies'']"

definition titles_social :: "jstring \<Rightarrow> jstring \<Rightarrow> jstring \<Rightarrow> jstring list" where
  "titles_social mainTopic secondaryTopic targetAudience =
    [
      js ''Social Media '' @ capitalize mainTopic @ js '' Strategy'',
      js ''The Complete '' @ capitalize mainTopic @ js '' Social Media Guide'',
      js ''Social Media Marketing: '' @ capitalize mainTopic @ js '' Best Practices'',
      js ''Master Social Media '' @ capitalize mainTopic @ js '' in 2024'',
      js ''Social Media '' @ capitalize mainTopic @ js '' for '' @ targetAudience,
      js ''Instagram '' @ capitalize mainTopic @ js '' Strategy'',
      js ''Facebook '' @ capitalize mainTopic @ js '' Guide'',
      js ''LinkedIn '' @ capitalize mainTopic @ js '' Best Practices'',
      js ''Boost Social Media Engagement with '' @ capitalize mainTopic,
      js ''Social Media Content: '' @ capitalize mainTopic @ js '' That Gets Shares'',
      js ''Social Media Growth: '' @ capitalize mainTopic @ js '' Strategies'',
      js ''Social Media ROI: '' @ capitalize mainTopic @ js '' That Converts'',
      js ''Social Media Success: '' @ capitalize mainTopic @ js '' Case Studies'',
      js ''Social Media Marketing: '' @ capitalize mainTopic @ js '' for Business Growth'']"

definition titles_landing :: "jstring \<Rightarrow> jstring \<Rightarrow> jstring \<Rightarrow> jstring list" where
  "titles_landing mainTopic secondaryTopic targetAudience =
    [
      js ''Landing Page '' @ capitalize mainTopic @ js '' Optimization'',
      js ''The Complete '' @ capitalize mainTopic @ js '' Landing Page Guide'',
      js ''Landing Page Design: '' @ capitalize mainTopic @ js '' Best Practices'',
      js ''Master Landing Page '' @ capitalize mainTopic @ js '' in 2024'',
      js ''Landing Page '' @ capitalize mainTopic @ js '' for '' @ targetAudience,
      js ''Landing Page Conversion: '' @ capitalize mainTopic @ js '' Strategies'',
      js ''High-Converting Landing Page '' @ capitalize mainTopic,
      js ''Landing Page Optimization: '' @ capitalize mainTopic @ js '' Techniques'',
      js ''Landing Page Design: '' @ capitalize mainTopic @ js '' Principles'',
      js ''Landing Page UX: '' @ capitalize mainTopic @ js '' Best Practices'',
      js ''Landing Page Copy: '' @ capitalize mainTopic @ js '' That Converts'',
      js ''Landing Page Performance: '' @ capitalize mainTopic @ js '' Optimization'',
      js ''Landing Page ROI: '' @ capitalize mainTopic @ js '' Strategies'',
      js ''Landing Page Success: '' @ capitalize mainTopic @ js '' Case Studies'']"

definition titles_charitable :: "jstring \<Rightarrow> jstring \<Rightarrow> jstring \<Rightarrow> jstring list" where
  "titles_charitable mainTopic secondaryTopic targetAudience =
    [
      js ''The Impact of '' @ capitalize mainTopic @ js '': A Complete Guide'',
      js ''Understanding '' @ capitalize mainTopic @ js '' in 2024'',
      capitalize mainTopic @ js '': Trends and Insights for '' @ targetAudience,
      js ''The Future of '' @ capitalize mainTopic @ js '': What You Need to Know'',
      capitalize mainTopic @ js '' Statistics and Analysis'',
      js ''How '' @ capitalize mainTopic @ js '' is Changing the World'',
      js ''The Power of '' @ capitalize mainTopic @ js '': Real Impact Stories'',
      capitalize mainTopic @ js '': Making a Difference in 2024'',
      js ''Everything You Need to Know About '' @ capitalize mainTopic,
      capitalize mainTopic @ js '': A Comprehensive Overview'',
      js ''The Complete Guide to '' @ capitalize mainTopic,
      capitalize mainTopic @ js '' Trends in 2024: What's New'',
      js ''The State of '' @ capitalize mainTopic @ js '': Current Landscape'',
      capitalize mainTopic @ js '': Key Insights and Opportunities'']"

definition titles_financial :: "jstring \<Rightarrow> jstring \<Rightarrow> jstring \<Rightarrow> jstring list" where
  "titles_financial mainTopic secondaryTopic targetAudience =
    [
      capitalize mainTopic @ js '': Financial Insights and Analysis'',
      js ''The Economics of '' @ capitalize mainTopic,
      capitalize mainTopic @ js '': Market Trends and Opportunities'',
      js ''Financial Impact of '' @ capitalize mainTopic @ js '' in 2024'',
      capitalize mainTopic @ js '': Investment and Growth Strategies'',
      capitalize mainTopic @ js '' Market Analysis: What You Need to Know'',
      js ''The Financial Landscape of '' @ capitalize mainTopic,
      capitalize mainTopic @ js '': Economic Trends and Forecasts'',
      capitalize mainTopic @ js '': Strategic Financial Planning'',
      js ''Maximizing Returns in '' @ capitalize mainTopic,
      capitalize mainTopic @ js '': Financial Best Practices'',
      capitalize mainTopic @ js '': Growth Opportunities and Strategies'',
      js ''The Financial Future of '' @ capitalize mainTopic,
      capitalize mainTopic @ js '': Investment Insights for '' @ targetAudience]"

definition titleTemplates :: "jstring \<Rightarrow> jstring \<Rightarrow> jstring \<Rightarrow> (jstring \<times> jstring list) list" where
  "titleTemplates mainTopic secondaryTopic targetAudience =
    [
      (js ''article'', titles_article mainTopic secondaryTopic targetAudience),
      (js ''blog'', titles_blog mainTopic secondaryTopic targetAudience),
      (js ''product'', titles_product mainTopic secondaryTopic targetAudience),
      (js ''service'', titles_service mainTopic secondaryTopic targetAudience),
      (js ''video'', titles_video mainTopic secondaryTopic targetAudience),
      (js ''email'', titles_email mainTopic secondaryTopic targetAudience),
      (js ''social'', titles_social mainTopic secondaryTopic targetAudience),
      (js ''landing'', titles_landing mainTopic secondaryTopic targetAudience),
      (js ''charitable'', titles_charitable mainTopic secondaryTopic targetAudience),
      (js ''financial'', titles_financial mainTopic secondaryTopic targetAudience)]"

definition titleRules_professional :: "rule list" where
  "titleRules_professional =
    [
      (False, [js ''!''], js ''.''),
      (False, [[287, 376, 8221, 165], [287, 376, 353, 8364], [226, 339, 168], [287, 376, 8217, 161], [287, 376, 175]], []),
      (False, [js ''Complete Guide''], js ''Comprehensive Guide''),
      (False, [js ''Ultimate''], js ''Definitive''),
      (False, [js ''Master''], js ''Excel in''),
      (False, [js ''Tips and Tricks''], js ''Proven Strategies''),
      (False, [js ''Awesome'', js ''Amazing''], js ''Exceptional''),
      (False, [js ''Level Up''], js ''Optimize'')]"

definition titleRules_casual :: "rule list" where
  "titleRules_casual =
    [
      (False, [js ''Professional'', js ''Expert'', js ''Trusted'', js ''Quality''], js ''Awesome''),
      (False, [js ''Revolutionary'', js ''Premium''], js ''Amazing''),
      (False, [js ''Transform'', js ''Upgrade''], js ''Level Up''),
      (False, [js ''Complete Guide''], js ''Complete Guide''),
      (False, [js ''Ultimate''], js ''Best''),
      (False, [js ''Master''], js ''Get Good at''),
      (False, [js ''Comprehensive''], js ''Complete''),
      (False, [js ''Essential''], js ''Important''),
      (False, [js ''Definitive''], js ''Best''),
      (False, [js ''Excel in''], js ''Get Good at'')]"

definition titleRules_friendly :: "rule list" where
  "titleRules_friendly =
    [
      (False, [js ''Professional'', js ''Expert''], js ''Friendly''),
      (False, [js ''Revolutionary''], js ''Game-Changing''),
      (False, [js ''Transform''], js ''Improve''),
      (False, [js ''Complete Guide''], js ''Friendly Guide to''),
      (False, [js ''Ultimate''], js ''Best''),
      (False, [js ''Master''], js ''Learn''),
      (False, [js ''Comprehensive''], js ''Complete''),
      (False, [js ''Definitive''], js ''Best''),
      (False, [js ''Excel in''], js ''Learn'')]"

definition titleRules_authoritative :: "rule list" where
  "titleRules_authoritative =
    [
      (False, [js ''Tips and Tricks''], js ''Proven Strategies''),
      (False, [js ''Everything You've Been Missing''], js ''Critical Insights''),
      (False, [js ''What You Need to Know''], js ''Essential Knowledge''),
      (False, [js ''Complete Guide''], js ''Expert Guide to''),
      (False, [js ''Ultimate''], js ''Definitive''),
      (False, [js ''Master''], js ''Master''),
      (False, [js ''Comprehensive''], js ''Comprehensive''),
      (False, [js ''Essential''], js ''Essential''),
      (False, [js ''Get Good at''], js ''Master''),
      (False, [js ''Learn''], js ''Master'')]"

definition titleRules :: "jstring \<Rightarrow> rule list" where
  "titleRules tone =
     (if tone = js ''professional'' then titleRules_professional
      else if tone = js ''casual'' then titleRules_casual
      else if tone = js ''friendly'' then titleRules_friendly
      else if tone = js ''authoritative'' then titleRules_authoritative
      else [])"


section \<open>Description templates\<close>

definition descriptions_article :: "jstring \<Rightarrow> jstring \<Rightarrow> jstring \<Rightarrow> jstring \<Rightarrow> jstring list" where
  "descriptions_article mainTopic secondaryTopic targetAudience validAudience =
    [
      js ''Discover everything you need to know about '' @ mainTopic @ js '' and '' @ secondaryTopic @ js ''. Expert insights, practical tips, and actionable strategies to help you succeed.'',
      js ''Learn the essential strategies for mastering '' @ mainTopic @ js ''. From beginner basics to advanced techniques, this comprehensive guide covers it all.'',
      js ''Explore the latest trends and best practices in '' @ mainTopic @ js ''. Get expert advice and real-world examples to improve your results.'',
      js ''Struggling with '' @ mainTopic @ js ''? This comprehensive guide breaks down complex concepts into simple, actionable steps for '' @ validAudience @ js ''.'',
      js ''Master '' @ mainTopic @ js '' with proven methodologies and industry best practices. Perfect for '' @ validAudience @ js '' looking to enhance their skills.'',
      js ''Transform your understanding of '' @ mainTopic @ js '' with expert analysis, case studies, and practical implementation strategies.'',
      js ''Unlock the full potential of '' @ mainTopic @ js '' with our detailed guide. Learn proven techniques that deliver measurable results for '' @ validAudience @ js ''.'',
      js ''Navigate the complexities of '' @ mainTopic @ js '' with confidence. This resource provides the knowledge and tools you need to excel.'',
      js ''Elevate your '' @ mainTopic @ js '' expertise with comprehensive coverage of fundamentals, advanced techniques, and emerging trends.'']"

definition descriptions_blog :: "jstring \<Rightarrow> jstring \<Rightarrow> jstring \<Rightarrow> jstring \<Rightarrow> jstring list" where
  "descriptions_blog mainTopic secondaryTopic targetAudience validAudience =
    [
      js ''Uncover the secrets of '' @ mainTopic @ js '' that most people miss. Practical advice, real stories, and actionable tips to transform your approach.'',
      js ''Dive deep into '' @ mainTopic @ js '' with insights that will change how you think about '' @ secondaryTopic @ js ''. Expert analysis and practical takeaways.'',
      js ''Discover why '' @ mainTopic @ js '' is crucial for success and how to implement it effectively. Real-world examples and proven strategies.'',
      js ''Follow the journey of '' @ mainTopic @ js '' success through real stories and lessons learned. Practical insights for '' @ validAudience @ js '' at every level.'',
      js ''Get behind-the-scenes access to '' @ mainTopic @ js '' strategies that actually work. No fluff, just proven methods and honest advice.'',
      js ''Learn from the mistakes and triumphs of '' @ mainTopic @ js '' implementation. Real experiences shared to help you avoid common pitfalls.'',
      js ''Challenge everything you thought you knew about '' @ mainTopic @ js ''. Fresh perspectives and unconventional approaches for modern '' @ validAudience @ js ''.'',
      js ''Explore the controversial side of '' @ mainTopic @ js '' and discover what really works versus what's just hype.'',
      js ''Question traditional '' @ mainTopic @ js '' methods and discover innovative approaches that deliver better results.'']"

definition descriptions_product :: "jstring \<Rightarrow> jstring \<Rightarrow> jstring \<Rightarrow> jstring \<Rightarrow> jstring list" where
  "descriptions_product mainTopic secondaryTopic targetAudience validAudience =
    [
      js ''Experience the next generation of '' @ mainTopic @ js '' technology. Innovative features, superior performance, and unmatched reliability for modern needs.'',
      js ''Transform your workflow with our advanced '' @ mainTopic @ js '' solution. Designed for professionals who demand excellence and efficiency.'',
      js ''Upgrade to premium '' @ mainTopic @ js '' quality with cutting-edge features and intuitive design. Built for performance and user satisfaction.'',
      js ''Streamline your '' @ mainTopic @ js '' processes with intelligent automation and powerful analytics. Built specifically for '' @ validAudience @ js ''.'',
      js ''Maximize your '' @ mainTopic @ js '' ROI with our comprehensive suite of tools and features. Everything you need in one integrated platform.'',
      js ''Accelerate your '' @ mainTopic @ js '' success with proven technology that scales with your business.'',
      js ''Reduce costs and increase efficiency with our smart '' @ mainTopic @ js '' solution. Designed to deliver measurable results for '' @ validAudience @ js ''.'',
      js ''Get more done with less effort using our intuitive '' @ mainTopic @ js '' platform. Powerful features wrapped in a user-friendly interface.'',
      js ''Invest in your future with our reliable '' @ mainTopic @ js '' technology. Built to grow with your business and adapt to changing needs.'']"

definition descriptions_service :: "jstring \<Rightarrow> jstring \<Rightarrow> jstring \<Rightarrow> jstring \<Rightarrow> jstring list" where
  "descriptions_service mainTopic secondaryTopic targetAudience validAudience =
    [
      js ''Professional '' @ mainTopic @ js '' services tailored to your specific needs. Expert consultation, reliable delivery, and ongoing support for your success.'',
      js ''Trust our experienced team for all your '' @ mainTopic @ js '' requirements. Quality service, competitive pricing, and guaranteed satisfaction.'',
      js ''Partner with industry leaders in '' @ mainTopic @ js '' solutions. Comprehensive services, expert guidance, and proven results for your business.'',
      js ''Custom '' @ mainTopic @ js '' solutions designed specifically for '' @ targetAudience @ js ''. Personalized approach, expert execution, and measurable outcomes.'',
      js ''Full-service '' @ mainTopic @ js '' support from strategy to implementation. Our dedicated team handles every aspect of your project.'',
      js ''End-to-end '' @ mainTopic @ js '' services that take you from concept to completion. Professional expertise at every step of the process.'',
      js ''Maximize your '' @ mainTopic @ js '' investment with our proven methodologies and experienced team. Results-driven approach for '' @ targetAudience @ js ''.'',
      js ''Optimize your '' @ mainTopic @ js '' performance with data-driven insights and strategic guidance. Expert analysis and actionable recommendations.'',
      js ''Scale your '' @ mainTopic @ js '' capabilities with our comprehensive support services. From consultation to ongoing optimization.'']"

definition descriptions_video :: "jstring \<Rightarrow> jstring \<Rightarrow> jstring \<Rightarrow> jstring \<Rightarrow> jstring list" where
  "descriptions_video mainTopic secondaryTopic targetAudience validAudience =
    [
      js ''Watch our comprehensive '' @ mainTopic @ js '' video guide. Learn step-by-step techniques and best practices for '' @ validAudience @ js ''.'',
      js ''Master '' @ mainTopic @ js '' through our detailed video tutorial. Perfect for '' @ validAudience @ js '' looking to enhance their skills visually.'',
      js ''Discover '' @ mainTopic @ js '' strategies through engaging video content. Real examples and practical demonstrations for immediate application.'',
      js ''Learn '' @ mainTopic @ js '' fundamentals through our video course. From basics to advanced techniques, all explained with clear visual examples.'',
      js ''Visual learning at its best: our '' @ mainTopic @ js '' video series breaks down complex concepts into easy-to-follow tutorials.'',
      js ''Transform your understanding of '' @ mainTopic @ js '' with our comprehensive video library. Expert instruction for '' @ validAudience @ js ''.'']"

definition descriptions_email :: "jstring \<Rightarrow> jstring \<Rightarrow> jstring \<Rightarrow> jstring \<Rightarrow> jstring list" where
  "descriptions_email mainTopic secondaryTopic targetAudience validAudience =
    [
      js ''Master email marketing '' @ mainTopic @ js '' with our comprehensive guide. Learn proven strategies that drive engagement and conversions for '' @ validAudience @ js ''.'',
      js ''Discover email '' @ mainTopic @ js '' best practices that actually work. From subject lines to content optimization, everything you need to know.'',
      js ''Transform your email campaigns with '' @ mainTopic @ js '' strategies. Expert guidance for '' @ validAudience @ js '' looking to improve email performance.'',
      js ''Learn email '' @ mainTopic @ js '' techniques that boost open rates and click-through rates. Practical strategies for '' @ validAudience @ js ''.'',
      js ''Master email automation '' @ mainTopic @ js '' workflows. Streamline your email marketing and improve results with proven methodologies.'',
      js ''Optimize your email '' @ mainTopic @ js '' for maximum ROI. Data-driven strategies and best practices for modern email marketing.'']"

definition descriptions_social :: "jstring \<Rightarrow> jstring \<Rightarrow> jstring \<Rightarrow> jstring \<Rightarrow> jstring list" where
  "descriptions_social mainTopic secondaryTopic targetAudience validAudience =
    [
      js ''Master social media '' @ mainTopic @ js '' strategies that drive engagement and growth. Expert guidance for '' @ validAudience @ js '' in the digital age.'',
      js ''Discover social media '' @ mainTopic @ js '' best practices that actually work. From content creation to audience engagement, everything you need to know.'',
      js ''Transform your social media presence with '' @ mainTopic @ js '' techniques. Proven strategies for '' @ validAudience @ js '' looking to grow their online reach.'',
      js ''Learn platform-specific '' @ mainTopic @ js '' strategies for Instagram, Facebook, LinkedIn, and more. Tailored approaches for '' @ validAudience @ js ''.'',
      js ''Master social media '' @ mainTopic @ js '' across all major platforms. Comprehensive strategies that work for every social media channel.'',
      js ''Optimize your social media '' @ mainTopic @ js '' for maximum engagement and conversions. Data-driven approaches for modern social media marketing.'']"

definition descriptions_landing :: "jstring \<Rightarrow> jstring \<Rightarrow> jstring \<Rightarrow> jstring \<Rightarrow> jstring list" where
  "descriptions_landing mainTopic secondaryTopic targetAudience validAudience =
    [
      js ''Master landing page '' @ mainTopic @ js '' optimization techniques. Learn proven strategies that convert visitors into customers for '' @ validAudience @ js ''.'',
      js ''Discover landing page '' @ mainTopic @ js '' best practices that drive conversions. From design to copy optimization, everything you need to know.'',
      js ''Transform your landing page performance with '' @ mainTopic @ js '' strategies. Expert guidance for '' @ validAudience @ js '' looking to improve conversion rates.'',
      js ''Learn landing page '' @ mainTopic @ js '' techniques that boost conversion rates. Practical strategies for '' @ validAudience @ js '' in competitive markets.'',
      js ''Master landing page '' @ mainTopic @ js '' for maximum ROI. Data-driven optimization strategies and best practices for modern landing pages.'',
      js ''Optimize your landing page '' @ mainTopic @ js '' for better user experience and higher conversions. Proven methodologies for '' @ validAudience @ js ''.'']"

definition descriptions_charitable :: "jstring \<Rightarrow> jstring \<Rightarrow> jstring \<Rightarrow> jstring \<Rightarrow> jstring list" where
  "descriptions_charitable mainTopic secondaryTopic targetAudience validAudience =
    [
      js ''Discover the latest trends and insights in '' @ mainTopic @ js ''. Learn about the impact of charitable giving and how it's shaping our communities.'',
      js ''Explore the world of '' @ mainTopic @ js '' and understand its significance in today's society. Expert analysis and real-world impact stories.'',
      js ''Learn about the power of '' @ mainTopic @ js '' and how it's making a difference. Comprehensive coverage of trends, statistics, and success stories.'',
      js ''Understand the real impact of '' @ mainTopic @ js '' on communities and individuals. Data-driven insights and compelling stories of change.'',
      js ''Discover how '' @ mainTopic @ js '' is transforming lives and communities. Expert analysis of trends, challenges, and opportunities.'',
      js ''Explore the significance of '' @ mainTopic @ js '' in modern society. Learn about its economic and social impact on our world.'',
      js ''Get comprehensive insights into '' @ mainTopic @ js '' and its role in society. Expert analysis, statistics, and real-world examples.'',
      js ''Master the fundamentals of '' @ mainTopic @ js '' with our detailed guide. From basic concepts to advanced strategies and impact measurement.'',
      js ''Transform your understanding of '' @ mainTopic @ js '' with expert analysis, case studies, and practical insights for '' @ validAudience @ js ''.'']"

definition descriptions_financial :: "jstring \<Rightarrow> jstring \<Rightarrow> jstring \<Rightarrow> jstring \<Rightarrow> jstring list" where
  "descriptions_financial mainTopic secondaryTopic targetAudience validAudience =
    [
      js ''Discover the financial implications of '' @ mainTopic @ js '' and its impact on the economy. Expert analysis and market insights for '' @ validAudience @ js ''.'',
      js ''Learn about the economic aspects of '' @ mainTopic @ js '' and how it affects financial markets and investment opportunities.'',
      js ''Explore the financial landscape of '' @ mainTopic @ js '' with comprehensive analysis of trends, opportunities, and market dynamics.'',
      js ''Understand the market dynamics of '' @ mainTopic @ js '' and its financial impact. Expert insights for investors and financial professionals.'',
      js ''Get detailed analysis of '' @ mainTopic @ js '' from a financial perspective. Market trends, investment opportunities, and economic impact.'',
      js ''Master the financial aspects of '' @ mainTopic @ js '' with expert guidance and comprehensive market analysis for '' @ validAudience @ js ''.'']"

definition descriptionTemplates :: "jstring \<Rightarrow> jstring \<Rightarrow> jstring \<Rightarrow> jstring \<Rightarrow> (jstring \<times> jstring list) list" where
  "descriptionTemplates mainTopic secondaryTopic targetAudience validAudience =
    [
      (js ''article'', descriptions_article mainTopic secondaryTopic targetAudience validAudience),
      (js ''blog'', descriptions_blog mainTopic secondaryTopic targetAudience validAudience),
      (js ''product'', descriptions_product mainTopic secondaryTopic targetAudience validAudience),
      (js ''service'', descriptions_service mainTopic secondaryTopic targetAudience validAudience),
      (js ''video'', descriptions_video mainTopic secondaryTopic targetAudience validAudience),
      (js ''email'', descriptions_email mainTopic secondaryTopic targetAudience validAudience),
      (js ''social'', descriptions_social mainTopic secondaryTopic targetAudience validAudience),
      (js ''landing'', descriptions_landing mainTopic secondaryTopic targetAudience validAudience),
      (js ''charitable'', descriptions_charitable mainTopic secondaryTopic targetAudience validAudience),
      (js ''financial'', descriptions_financial mainTopic secondaryTopic targetAudience validAudience)]"

definition descriptionRules_professional :: "rule list" where
  "descriptionRules_professional =
    [
      (True, [js ''awesome'', js ''amazing'', js ''incredible''], js ''exceptional''),
      (True, [js ''transform''], js ''optimize''),
      (True, [js ''secrets''], js ''insights''),
      (True, [js ''struggling''], js ''facing challenges with''),
      (True, [js ''unlock''], js ''access'')]"

definition descriptionRules_casual :: "rule list" where
  "descriptionRules_casual =
    [
      (True, [js ''Professional''], js ''Awesome''),
      (True, [js ''Expert''], js ''Pro''),
      (True, [js ''comprehensive''], js ''complete''),
      (True, [js ''strategies''], js ''tips''),
      (True, [js ''optimize''], js ''level up''),
      (True, [js ''exceptional''], js ''amazing''),
      (True, [js ''insights''], js ''secrets'')]"

definition descriptionRules_friendly :: "rule list" where
  "descriptionRules_friendly =
    [
      (True, [js ''Professional''], js ''Friendly''),
      (True, [js ''Expert''], js ''Helpful''),
      (True, [js ''secrets''], js ''tips''),
      (True, [js ''transform''], js ''improve''),
      (True, [js ''struggling''], js ''having trouble with''),
      (True, [js ''unlock''], js ''discover'')]"

definition descriptionRules_authoritative :: "rule list" where
  "descriptionRules_authoritative =
    [
      (True, [js ''tips''], js ''proven strategies''),
      (True, [js ''helpful''], js ''expert''),
      (True, [js ''improve''], js ''optimize''),
      (True, [js ''secrets''], js ''critical insights''),
      (True, [js ''having trouble''], js ''facing challenges''),
      (True, [js ''discover''], js ''access'')]"

definition descriptionRules :: "jstring \<Rightarrow> rule list" where
  "descriptionRules tone =
     (if tone = js ''professional'' then descriptionRules_professional
      else if tone = js ''casual'' then descriptionRules_casual
      else if tone = js ''friendly'' then descriptionRules_friendly
      else if tone = js ''authoritative'' then descriptionRules_authoritative
      else [])"


section \<open>Social copy templates\<close>

definition social_article :: "jstring \<Rightarrow> jstring \<Rightarrow> jstring \<Rightarrow> jstring list" where
  "social_article mainTopic targetAudience validAudience =
    [
      [287, 376, 8220, 353] @ js '' Just published: The ultimate guide to '' @ mainTopic @ js ''! Whether you're a beginner or expert, this comprehensive article has something for everyone. #'' @ mainTopic @ js '' #ContentMarketing'',
      [287, 376, 175] @ js '' Want to master '' @ mainTopic @ js ''? Our latest article breaks down everything you need to know, from basics to advanced strategies. Check it out! #'' @ mainTopic,
      [287, 376, 8217, 161] @ js '' New insights on '' @ mainTopic @ js ''! Discover proven strategies and expert tips that will transform your approach. Don't miss this! #'' @ mainTopic @ js '' #Tips'',
      [287, 376, 8221] @ js '' Struggling with '' @ mainTopic @ js ''? Our new article reveals the most common mistakes and how to avoid them. Essential reading for '' @ validAudience @ js ''! #'' @ mainTopic @ js '' #Tips'',
      [287, 376, 8220, 8211] @ js '' Just released: The complete '' @ mainTopic @ js '' roadmap from beginner to expert. Perfect for '' @ validAudience @ js '' looking to level up their skills! #'' @ mainTopic @ js '' #Learning'',
      [287, 376, 8220] @ js '' New article alert! Master '' @ mainTopic @ js '' with our step-by-step guide. From fundamentals to advanced techniques, we've got you covered. #'' @ mainTopic @ js '' #Education'',
      [287, 376, 353, 8364] @ js '' Transform your '' @ mainTopic @ js '' results with our latest article! Real strategies that actually work, backed by expert analysis. #'' @ mainTopic @ js '' #Results'',
      [287, 376, 8217, 170] @ js '' Ready to excel in '' @ mainTopic @ js ''? Our comprehensive guide shows you exactly how to implement proven strategies for success. #'' @ mainTopic @ js '' #Success'',
      [287, 376, 8220, 710] @ js '' Boost your '' @ mainTopic @ js '' performance with our expert insights. Learn from industry leaders and avoid common pitfalls. #'' @ mainTopic @ js '' #Performance'']"

definition social_blog :: "jstring \<Rightarrow> jstring \<Rightarrow> jstring \<Rightarrow> jstring list" where
  "social_blog mainTopic targetAudience validAudience =
    [
      [287, 376, 8221, 165] @ js '' Hot off the press: The truth about '' @ mainTopic @ js '' that nobody talks about! Real insights, practical advice, and actionable takeaways. #'' @ mainTopic @ js '' #Blog'',
      [287, 376, 353, 8364] @ js '' Just dropped: Everything you need to know about '' @ mainTopic @ js ''! From beginner tips to expert strategies, we've got you covered. #'' @ mainTopic @ js '' #Learning'',
      [226, 339, 168] @ js '' New blog alert! Discover the secrets of '' @ mainTopic @ js '' and how to implement them effectively. Your success starts here! #'' @ mainTopic @ js '' #Success'',
      [287, 376, 8220, 8211] @ js '' The real story behind '' @ mainTopic @ js '' success! Learn from real experiences and avoid the mistakes others have made. #'' @ mainTopic @ js '' #Stories'',
      [287, 376, 173] @ js '' What I learned about '' @ mainTopic @ js '' the hard way - and how you can avoid the same pitfalls. Honest insights from the trenches! #'' @ mainTopic @ js '' #Lessons'',
      [287, 376, 8221] @ js '' Behind the scenes: How '' @ mainTopic @ js '' changed my business and what you can learn from it. Real results, real stories. #'' @ mainTopic @ js '' #BehindTheScenes'',
      [287, 376, 164, 8221] @ js '' Is '' @ mainTopic @ js '' worth your time? Here's the honest truth that most people won't tell you. #'' @ mainTopic @ js '' #Truth'',
      [287, 376, 8217, 173] @ js '' The '' @ mainTopic @ js '' secret nobody talks about - and why it matters for '' @ validAudience @ js ''. You won't believe what we discovered! #'' @ mainTopic @ js '' #Secrets'',
      [226, 8220] @ js '' Question everything you thought you knew about '' @ mainTopic @ js ''. Fresh perspectives that challenge conventional wisdom. #'' @ mainTopic @ js '' #Perspectives'']"

definition social_product :: "jstring \<Rightarrow> jstring \<Rightarrow> jstring \<Rightarrow> jstring list" where
  "social_product mainTopic targetAudience validAudience =
    [
      [287, 376, 8224, 8226] @ js '' Introducing our revolutionary '' @ mainTopic @ js '' solution! Experience the future of technology with cutting-edge features and unmatched performance. #'' @ mainTopic @ js '' #Innovation'',
      [226, 353, 161] @ js '' Transform your workflow with our advanced '' @ mainTopic @ js '' platform! Designed for professionals who demand excellence. #'' @ mainTopic @ js '' #Productivity'',
      [287, 376, 8240] @ js '' Game-changing '' @ mainTopic @ js '' technology is here! Upgrade your experience with premium features and intuitive design. #'' @ mainTopic @ js '' #Technology'',
      [287, 376, 8221, 167] @ js '' The '' @ mainTopic @ js '' tool you've been waiting for is finally here! Powerful features, easy use, designed for '' @ targetAudience @ js ''. #'' @ mainTopic @ js '' #Tools'',
      [226, 353, 8482, 239, 184] @ js '' Streamline your '' @ mainTopic @ js '' processes with intelligent automation. Built specifically for modern business needs. #'' @ mainTopic @ js '' #Automation'',
      [287, 376, 8220, 352] @ js '' Maximize your '' @ mainTopic @ js '' ROI with our comprehensive suite. Everything you need in one integrated platform. #'' @ mainTopic @ js '' #ROI'',
      [287, 376, 8217, 176] @ js '' Save time and money with smart '' @ mainTopic @ js '' solutions. Designed to deliver measurable results for '' @ targetAudience @ js ''. #'' @ mainTopic @ js '' #Savings'',
      [287, 376, 175] @ js '' Get more done with less effort using our intuitive '' @ mainTopic @ js '' platform. Powerful features wrapped in a user-friendly interface. #'' @ mainTopic @ js '' #Efficiency'',
      [287, 376, 8224] @ js '' Why choose our '' @ mainTopic @ js '' over the competition? Quality you can trust, backed by proven results. #'' @ mainTopic @ js '' #Quality'']"

definition social_service :: "jstring \<Rightarrow> jstring \<Rightarrow> jstring \<Rightarrow> jstring list" where
  "social_service mainTopic targetAudience validAudience =
    [
      [287, 376, 8250, 160, 239, 184] @ js '' Professional '' @ mainTopic @ js '' services that deliver results! Expert consultation, reliable delivery, and ongoing support. #'' @ mainTopic @ js '' #Services'',
      [287, 376, 164] @ js '' Trust our experienced team for all your '' @ mainTopic @ js '' needs! Quality service, competitive pricing, guaranteed satisfaction. #'' @ mainTopic @ js '' #Professional'',
      [287, 376, 8217, 188] @ js '' Partner with industry leaders in '' @ mainTopic @ js '' solutions! Comprehensive services and proven results for your business. #'' @ mainTopic @ js '' #Partnership'',
      [287, 376, 175] @ js '' Custom '' @ mainTopic @ js '' solutions designed specifically for '' @ targetAudience @ js ''. Personalized approach, expert execution, measurable outcomes. #'' @ mainTopic @ js '' #Custom'',
      [287, 376, 8221, 167] @ js '' Full-service '' @ mainTopic @ js '' support from strategy to implementation. Our dedicated team handles every aspect of your project. #'' @ mainTopic @ js '' #FullService'',
      [287, 376, 8220, 8249] @ js '' End-to-end '' @ mainTopic @ js '' services that take you from concept to completion. Professional expertise at every step. #'' @ mainTopic @ js '' #EndToEnd'',
      [287, 376, 8220, 710] @ js '' Maximize your '' @ mainTopic @ js '' investment with our proven methodologies. Results-driven approach for '' @ targetAudience @ js ''. #'' @ mainTopic @ js '' #Investment'',
      [287, 376, 8220, 352] @ js '' Optimize your '' @ mainTopic @ js '' performance with data-driven insights. Expert analysis and actionable recommendations. #'' @ mainTopic @ js '' #Optimization'',
      [287, 376, 353, 8364] @ js '' Scale your '' @ mainTopic @ js '' capabilities with our comprehensive support. From consultation to ongoing optimization. #'' @ mainTopic @ js '' #Scaling'']"

definition social_video :: "jstring \<Rightarrow> jstring \<Rightarrow> jstring \<Rightarrow> jstring list" where
  "social_video mainTopic targetAudience validAudience =
    [
      [287, 376, 165] @ js '' New video alert! Master '' @ mainTopic @ js '' with our comprehensive tutorial. Step-by-step guidance for '' @ validAudience @ js ''! #'' @ mainTopic @ js '' #Video'',
      [287, 376, 8220, 185] @ js '' Just uploaded: The complete '' @ mainTopic @ js '' video guide! Learn everything you need to know with clear visual examples. #'' @ mainTopic @ js '' #Tutorial'',
      [287, 376, 172] @ js '' Watch and learn: '' @ mainTopic @ js '' strategies that actually work! Real examples and practical demonstrations. #'' @ mainTopic @ js '' #Learning'',
      [287, 376, 8220, 353] @ js '' Visual learning at its best! Our '' @ mainTopic @ js '' video series breaks down complex concepts into easy-to-follow tutorials. #'' @ mainTopic @ js '' #Education'',
      [287, 376, 8220] @ js '' From beginner to expert: Master '' @ mainTopic @ js '' through our comprehensive video course. Perfect for '' @ validAudience @ js ''! #'' @ mainTopic @ js '' #Course'',
      [287, 376, 8217, 161] @ js '' Transform your understanding of '' @ mainTopic @ js '' with our video library. Expert instruction with visual examples. #'' @ mainTopic @ js '' #Expertise'',
      [287, 376, 8221, 165] @ js '' Must-watch: The truth about '' @ mainTopic @ js '' revealed in our latest video! Real insights you won't find anywhere else. #'' @ mainTopic @ js '' #Insights'',
      [226, 339, 168] @ js '' Video tutorial: '' @ mainTopic @ js '' secrets that will change how you approach everything! Don't miss this one. #'' @ mainTopic @ js '' #Secrets'',
      [287, 376, 353, 8364] @ js '' Level up your '' @ mainTopic @ js '' skills with our video masterclass! Professional techniques made simple. #'' @ mainTopic @ js '' #Masterclass'']"

definition social_email :: "jstring \<Rightarrow> jstring \<Rightarrow> jstring \<Rightarrow> jstring list" where
  "social_email mainTopic targetAudience validAudience =
    [
      [287, 376, 8220, 167] @ js '' Email marketing mastery: '' @ mainTopic @ js '' strategies that drive engagement and conversions! Essential for '' @ validAudience @ js ''. #'' @ mainTopic @ js '' #EmailMarketing'',
      [287, 376, 8220, 168] @ js '' Discover email '' @ mainTopic @ js '' best practices that actually work! From subject lines to content optimization. #'' @ mainTopic @ js '' #Email'',
      [287, 376, 8220, 172] @ js '' Transform your email campaigns with '' @ mainTopic @ js '' techniques! Expert guidance for better performance. #'' @ mainTopic @ js '' #Campaigns'',
      [287, 376, 8220, 352] @ js '' Boost your email '' @ mainTopic @ js '' performance! Learn techniques that increase open rates and click-through rates. #'' @ mainTopic @ js '' #EmailROI'',
      [226, 353, 161] @ js '' Master email automation '' @ mainTopic @ js '' workflows! Streamline your email marketing for better results. #'' @ mainTopic @ js '' #Automation'',
      [287, 376, 175] @ js '' Optimize your email '' @ mainTopic @ js '' for maximum ROI! Data-driven strategies for modern email marketing. #'' @ mainTopic @ js '' #Optimization'',
      [287, 376, 8220, 710] @ js '' Email engagement secrets: '' @ mainTopic @ js '' strategies that get your emails opened and clicked! #'' @ mainTopic @ js '' #Engagement'',
      [287, 376, 8217, 338] @ js '' Email subject line mastery: '' @ mainTopic @ js '' techniques that boost open rates! #'' @ mainTopic @ js '' #SubjectLines'',
      [287, 376, 8220, 8249] @ js '' Email content optimization: '' @ mainTopic @ js '' best practices for higher conversions! #'' @ mainTopic @ js '' #Content'']"

definition social_social :: "jstring \<Rightarrow> jstring \<Rightarrow> jstring \<Rightarrow> jstring list" where
  "social_social mainTopic targetAudience validAudience =
    [
      [287, 376, 8220, 177] @ js '' Social media mastery: '' @ mainTopic @ js '' strategies that drive engagement and growth! Essential for '' @ validAudience @ js ''. #'' @ mainTopic @ js '' #SocialMedia'',
      [287, 376, 8220, 178] @ js '' Discover social media '' @ mainTopic @ js '' best practices that actually work! From content creation to audience engagement. #'' @ mainTopic @ js '' #Social'',
      [287, 376, 8220, 184] @ js '' Transform your social media presence with '' @ mainTopic @ js '' techniques! Proven strategies for growth. #'' @ mainTopic @ js '' #Growth'',
      [287, 376, 8220, 183] @ js '' Instagram '' @ mainTopic @ js '' strategies that get results! Platform-specific techniques for better engagement. #'' @ mainTopic @ js '' #Instagram'',
      [287, 376, 8220, 732] @ js '' Facebook '' @ mainTopic @ js '' guide: Best practices for maximum reach and engagement! #'' @ mainTopic @ js '' #Facebook'',
      [287, 376, 8217, 188] @ js '' LinkedIn '' @ mainTopic @ js '' strategies for professional networking! Tailored approaches for business growth. #'' @ mainTopic @ js '' #LinkedIn'',
      [287, 376, 8221, 165] @ js '' Boost your social media engagement with '' @ mainTopic @ js ''! Proven techniques that get your content shared. #'' @ mainTopic @ js '' #Engagement'',
      [287, 376, 8220, 710] @ js '' Social media growth: '' @ mainTopic @ js '' strategies that expand your reach! #'' @ mainTopic @ js '' #Growth'',
      [287, 376, 175] @ js '' Social media ROI: '' @ mainTopic @ js '' techniques that convert followers into customers! #'' @ mainTopic @ js '' #ROI'']"

definition social_landing :: "jstring \<Rightarrow> jstring \<Rightarrow> jstring \<Rightarrow> jstring list" where
  "social_landing mainTopic targetAudience validAudience =
    [
      [287, 376, 175] @ js '' Landing page mastery: '' @ mainTopic @ js '' optimization techniques that convert visitors into customers! #'' @ mainTopic @ js '' #LandingPage'',
      [287, 376, 8220, 8222] @ js '' Discover landing page '' @ mainTopic @ js '' best practices that drive conversions! From design to copy optimization. #'' @ mainTopic @ js '' #Landing'',
      [287, 376, 353, 8364] @ js '' Transform your landing page performance with '' @ mainTopic @ js '' strategies! Expert guidance for better conversions. #'' @ mainTopic @ js '' #Performance'',
      [287, 376, 8217, 176] @ js '' Boost your conversion rates with '' @ mainTopic @ js '' landing page techniques! Practical strategies for '' @ validAudience @ js ''. #'' @ mainTopic @ js '' #Conversions'',
      [287, 376, 8220, 352] @ js '' Landing page ROI: '' @ mainTopic @ js '' optimization strategies for maximum returns! #'' @ mainTopic @ js '' #ROI'',
      [287, 376, 168] @ js '' Landing page design: '' @ mainTopic @ js '' principles that improve user experience and conversions! #'' @ mainTopic @ js '' #Design'',
      [226, 353, 161] @ js '' Landing page performance: '' @ mainTopic @ js '' optimization techniques that work! #'' @ mainTopic @ js '' #Performance'',
      [287, 376, 8220, 710] @ js '' Landing page success: '' @ mainTopic @ js '' case studies and proven strategies! #'' @ mainTopic @ js '' #Success'',
      [287, 376, 175] @ js '' High-converting landing pages: '' @ mainTopic @ js '' strategies that get results! #'' @ mainTopic @ js '' #Results'']"

definition social_charitable :: "jstring \<Rightarrow> jstring \<Rightarrow> jstring \<Rightarrow> jstring list" where
  "social_charitable mainTopic targetAudience validAudience =
    [
      [287, 376, 8217] @ js '' New insights on '' @ mainTopic @ js ''! Discover the impact of charitable giving and how it's changing lives. #'' @ mainTopic @ js '' #CharitableGiving'',
      [287, 376, 8220, 352] @ js '' Just published: The latest statistics on '' @ mainTopic @ js '' and its impact on communities. Essential reading! #'' @ mainTopic @ js '' #Impact'',
      [287, 376, 175] @ js '' Understanding '' @ mainTopic @ js '': How charitable giving is making a difference in 2024. #'' @ mainTopic @ js '' #Philanthropy'',
      [287, 376, 338, 376] @ js '' The power of '' @ mainTopic @ js '': Real stories of how charitable giving transforms communities. #'' @ mainTopic @ js '' #Stories'',
      [287, 376, 8220, 710] @ js '' Discover the trends in '' @ mainTopic @ js '' and how they're shaping the future of philanthropy. #'' @ mainTopic @ js '' #Trends'',
      [287, 376, 8217, 161] @ js '' Learn about the significance of '' @ mainTopic @ js '' in today's society. Expert analysis and insights. #'' @ mainTopic @ js '' #Insights'',
      [287, 376, 8220, 353] @ js '' Everything you need to know about '' @ mainTopic @ js '': A comprehensive guide to charitable giving. #'' @ mainTopic @ js '' #Guide'',
      [287, 376, 8220] @ js '' Master the fundamentals of '' @ mainTopic @ js '' with our detailed analysis. From basics to advanced insights. #'' @ mainTopic @ js '' #Education'',
      [287, 376, 8221] @ js '' Explore the world of '' @ mainTopic @ js '' and understand its role in modern philanthropy. #'' @ mainTopic @ js '' #Philanthropy'']"

definition social_financial :: "jstring \<Rightarrow> jstring \<Rightarrow> jstring \<Rightarrow> jstring list" where
  "social_financial mainTopic targetAudience validAudience =
    [
      [287, 376, 8217, 176] @ js '' New analysis: The financial impact of '' @ mainTopic @ js '' on the economy. Expert insights for investors. #'' @ mainTopic @ js '' #Finance'',
      [287, 376, 8220, 352] @ js '' Just released: Economic analysis of '' @ mainTopic @ js '' and its market implications. #'' @ mainTopic @ js '' #Economics'',
      [287, 376, 175] @ js '' Understanding the financial landscape of '' @ mainTopic @ js '': Market trends and opportunities. #'' @ mainTopic @ js '' #Markets'',
      [287, 376, 8220, 710] @ js '' Discover the market dynamics of '' @ mainTopic @ js '' and investment opportunities. #'' @ mainTopic @ js '' #Investment'',
      [287, 376, 8217, 188] @ js '' Financial insights on '' @ mainTopic @ js '': How it affects markets and economic growth. #'' @ mainTopic @ js '' #Growth'',
      [287, 376, 8220, 8249] @ js '' Expert analysis of '' @ mainTopic @ js '' from a financial perspective. Market trends and forecasts. #'' @ mainTopic @ js '' #Analysis'']"

definition socialTemplates :: "jstring \<Rightarrow> jstring \<Rightarrow> jstring \<Rightarrow> (jstring \<times> jstring list) list" where
  "socialTemplates mainTopic targetAudience validAudience =
    [
      (js ''article'', social_article mainTopic targetAudience validAudience),
      (js ''blog'', social_blog mainTopic targetAudience validAudience),
      (js ''product'', social_product mainTopic targetAudience validAudience),
      (js ''service'', social_service mainTopic targetAudience validAudience),
      (js ''video'', social_video mainTopic targetAudience validAudience),
      (js ''email'', social_email mainTopic targetAudience validAudience),
      (js ''social'', social_social mainTopic targetAudience validAudience),
      (js ''landing'', social_landing mainTopic targetAudience validAudience),
      (js ''charitable'', social_charitable mainTopic targetAudience validAudience),
      (js ''financial'', social_financial mainTopic targetAudience validAudience)]"

definition socialRules_professional :: "rule list" where
  "socialRules_professional =
    [
      (False, [[287, 376, 8221, 165], [287, 376, 353, 8364], [226, 339, 168], [287, 376, 8240]], [287, 376, 8220, 352]),
      (False, [js ''Hot off the press''], js ''New publication''),
      (False, [js ''Just dropped''], js ''Recently published''),
      (False, [js ''Game-changing''], js ''Innovative''),
      (False, [js ''revolutionary''], js ''advanced''),
      (False, [js ''secrets''], js ''insights''),
      (False, [js ''ultimate guide''], js ''comprehensive guide''),
      (False, [js ''Don't miss this!''], js ''Essential reading.''),
      (False, [js ''Check it out!''], js ''Learn more.''),
      (False, [js ''Struggling''], js ''Facing challenges with''),
      (False, [js ''Ready to excel''], js ''Excel in''),
      (False, [js ''Boost your''], js ''Enhance your'')]"

definition socialRules_casual :: "rule list" where
  "socialRules_casual =
    [
      (False, [[287, 376, 8220, 352]], [287, 376, 8221, 165]),
      (True, [js ''Professional''], js ''Awesome''),
      (True, [js ''Expert''], js ''Pro''),
      (True, [js ''comprehensive''], js ''complete''),
      (True, [js ''strategies''], js ''tips''),
      (True, [js ''insights''], js ''secrets''),
      (False, [js ''New publication''], js ''Hot off the press''),
      (False, [js ''Recently published''], js ''Just dropped''),
      (False, [js ''Innovative''], js ''Game-changing''),
      (False, [js ''advanced''], js ''revolutionary''),
      (False, [js ''Facing challenges with''], js ''Struggling with''),
      (False, [js ''Excel in''], js ''Get good at''),
      (False, [js ''Enhance your''], js ''Boost your'')]"

definition socialRules_friendly :: "rule list" where
  "socialRules_friendly =
    [
      (True, [js ''Professional''], js ''Friendly''),
      (True, [js ''Expert''], js ''Helpful''),
      (True, [js ''secrets''], js ''tips''),
      (True, [js ''revolutionary''], js ''amazing''),
      (True, [js ''Game-changing''], js ''Helpful''),
      (False, [js ''Struggling''], js ''Having trouble with''),
      (False, [js ''Ready to excel''], js ''Ready to learn''),
      (False, [js ''Boost your''], js ''Improve your''),
      (False, [js ''Transform your''], js ''Improve your'')]"

definition socialRules_authoritative :: "rule list" where
  "socialRules_authoritative =
    [
      (True, [js ''tips''], js ''proven strategies''),
      (True, [js ''helpful''], js ''expert''),
      (True, [js ''secrets''], js ''critical insights''),
      (True, [js ''amazing''], js ''exceptional''),
      (True, [js ''awesome''], js ''professional''),
      (False, [js ''Having trouble with''], js ''Facing challenges with''),
      (False, [js ''Ready to learn''], js ''Ready to master''),
      (False, [js ''Improve your''], js ''Optimize your''),
      (False, [js ''Get good at''], js ''Master'')]"

definition socialRules :: "jstring \<Rightarrow> rule list" where
  "socialRules tone =
     (if tone = js ''professional'' then socialRules_professional
      else if tone = js ''casual'' then socialRules_casual
      else if tone = js ''friendly'' then socialRules_friendly
      else if tone = js ''authoritative'' then socialRules_authoritative
      else [])"


section \<open>The generators\<close>

text \<open>
  The request fields are strings, as the form sends them; \<open>ks\<close> is the outcome of the
  random rearrangement. Each generator has two stages: it selects and rearranges the
  interpolated templates and keeps the first five (three), then the \<open>switch\<close> on the tone
  rewrites them; a tone that is none of the four cases rewrites nothing.

  The sources list the server twice. The definitions follow the first listing. The second
  one has no content-type detection and only the buckets \<open>article\<close>, \<open>blog\<close>,
  \<open>product\<close> and \<open>service\<close>; its tone rules, its hashtag formatting and its request
  handler are the same.
\<close>

definition selectedTitles ::
    "jstring \<Rightarrow> jstring \<Rightarrow> jstring \<Rightarrow> nat list \<Rightarrow> error + jstring list" where
  "selectedTitles content contentType targetAudience ks =
     (let topics = extractKeyTopics content 3;
          mainTopic = orElse (ensureCompleteWord (at topics 0)) (js ''content'');
          secondaryTopic = orElse (ensureCompleteWord (at topics 1)) (js ''strategies'');
          thirdTopic = orElse (ensureCompleteWord (at topics 2)) (js ''success'');
          detected = detectContentType content contentType;
          allTemplates = titleTemplates mainTopic secondaryTopic targetAudience
      in case selectTemplates allTemplates detected contentType of
           Inl e \<Rightarrow> Inl e
         | Inr templates \<Rightarrow> Inr (take 5 (shuffle ks templates)))"

definition generateTitles ::
    "jstring \<Rightarrow> jstring \<Rightarrow> jstring \<Rightarrow> jstring \<Rightarrow> nat list \<Rightarrow> error + jstring list" where
  "generateTitles content contentType targetAudience tone ks =
     (case selectedTitles content contentType targetAudience ks of
        Inl e \<Rightarrow> Inl e
      | Inr templates \<Rightarrow> Inr (map (applyRules (titleRules tone)) templates))"

definition selectedDescriptions ::
    "jstring \<Rightarrow> jstring \<Rightarrow> jstring \<Rightarrow> nat list \<Rightarrow> error + jstring list" where
  "selectedDescriptions content contentType targetAudience ks =
     (let topics = extractKeyTopics content 2;
          mainTopic = orElse (ensureCompleteWord (at topics 0)) (js ''content'');
          secondaryTopic = orElse (ensureCompleteWord (at topics 1)) (js ''information'');
          detected = detectContentType content contentType;
          validAudience = validAudienceOf targetAudience;
          allTemplates = descriptionTemplates mainTopic secondaryTopic targetAudience validAudience
      in case selectTemplates allTemplates detected contentType of
           Inl e \<Rightarrow> Inl e
         | Inr templates \<Rightarrow> Inr (take 3 (shuffle ks templates)))"

definition generateDescriptions ::
    "jstring \<Rightarrow> jstring \<Rightarrow> jstring \<Rightarrow> jstring \<Rightarrow> nat list \<Rightarrow> error + jstring list" where
  "generateDescriptions content contentType targetAudience tone ks =
     (case selectedDescriptions content contentType targetAudience ks of
        Inl e \<Rightarrow> Inl e
      | Inr templates \<Rightarrow> Inr (map (applyRules (descriptionRules tone)) templates))"

definition selectedSocialCopy ::
    "jstring \<Rightarrow> jstring \<Rightarrow> jstring \<Rightarrow> nat list \<Rightarrow> error + jstring list" where
  "selectedSocialCopy content contentType targetAudience ks =
     (let topics = extractKeyTopics content 2;
          mainTopic = orElse (ensureCompleteWord (at topics 0)) (js ''content'');
          secondaryTopic = orElse (ensureCompleteWord (at topics 1)) (js ''strategies'');
          detected = detectContentType content contentType;
          validAudience = validAudienceOf targetAudience;
          allTemplates = socialTemplates mainTopic targetAudience validAudience
      in case selectTemplates allTemplates detected contentType of
           Inl e \<Rightarrow> Inl e
         | Inr templates \<Rightarrow> Inr (take 3 (shuffle ks templates)))"

definition generateSocialCopy ::
    "jstring \<Rightarrow> jstring \<Rightarrow> jstring \<Rightarrow> jstring \<Rightarrow> nat list \<Rightarrow> error + jstring list" where
  "generateSocialCopy content contentType targetAudience tone ks =
     (case selectedSocialCopy content contentType targetAudience ks of
        Inl e \<Rightarrow> Inl e
      | Inr templates \<Rightarrow>
          Inr (map formatHashtags (map (applyRules (socialRules tone)) templates)))"

section \<open>The endpoint \<open>/api/generate\<close>\<close>

record request =
  reqContentType :: jstring
  reqContent :: jstring
  reqTargetAudience :: jstring
  reqTone :: jstring

record result =
  titles :: "jstring list"
  descriptions :: "jstring list"
  socialCopy :: "jstring list"
  warnings :: "jstring list"

datatype httpError = Status500

text \<open>
  The fields \<open>contentType\<close>, \<open>content\<close>, \<open>targetAudience\<close> and \<open>tone\<close> of the request
  body carry the prefix \<open>req\<close> here. The handler builds the three lists in this order; an exception in any of them is caught
  and answered with status 500 and \<open>{ error: 'Failed to generate metadata' }\<close>. The three
  rearrangements draw their own random numbers.
\<close>

definition apiGenerate :: "request \<Rightarrow> nat list \<Rightarrow> nat list \<Rightarrow> nat list \<Rightarrow> httpError + result" where
  "apiGenerate req k1 k2 k3 =
     (case generateTitles (reqContent req) (reqContentType req) (reqTargetAudience req) (reqTone req) k1 of
        Inl e \<Rightarrow> Inl Status500
      | Inr ts \<Rightarrow>
     (case generateDescriptions (reqContent req) (reqContentType req) (reqTargetAudience req) (reqTone req) k2 of
        Inl e \<Rightarrow> Inl Status500
      | Inr ds \<Rightarrow>
     (case generateSocialCopy (reqContent req) (reqContentType req) (reqTargetAudience req) (reqTone req) k3 of
        Inl e \<Rightarrow> Inl Status500
      | Inr ss \<Rightarrow>
          Inr \<lparr>titles = ts, descriptions = ds, socialCopy = ss, warnings = []\<rparr>)))"

section \<open>Notions used in the statements\<close>

text \<open>The number of code units of a string that are not white space.\<close>

definition inked :: "jstring \<Rightarrow> nat" where
  "inked s = length (filter (\<lambda>c. \<not> isSpaceChar c) s)"

text \<open>The words \<open>extractKeyTopics\<close> pads its result with.\<close>

definition fillers :: "jstring list" where
  "fillers = [js ''content'', js ''information'', js ''strategies'', js ''success'']"

text \<open>
  The highest score, and the two readings of "the category with the highest score" when
  several categories reach it: the first of them in the order of the keys (the wording of
  the specification) and the last of them.
\<close>

definition bestScore :: "(jstring \<times> nat) list \<Rightarrow> nat" where
  "bestScore sc = foldr max (map (scoreOf sc) (map fst sc)) 0"

definition firstMaxType :: "jstring \<Rightarrow> jstring" where
  "firstMaxType content =
     (let sc = scores (toLowerCase content)
      in case filter (\<lambda>t. scoreOf sc t = bestScore sc) (map fst sc) of
           [] \<Rightarrow> [] | t # ts \<Rightarrow> t)"

definition lastMaxType :: "jstring \<Rightarrow> jstring" where
  "lastMaxType content =
     (let sc = scores (toLowerCase content)
      in case rev (filter (\<lambda>t. scoreOf sc t = bestScore sc) (map fst sc)) of
           [] \<Rightarrow> [] | t # ts \<Rightarrow> t)"

text \<open>
  Notions for stating what the compliance check returns, independent of the functions
  above: \<open>p\<close> occurs in \<open>s\<close> as a contiguous part; \<open>s\<close> begins with \<open>p\<close>; the words of
  a list written one after the other with \<open>', '\<close> between them.
\<close>

definition occursIn :: "jstring \<Rightarrow> jstring \<Rightarrow> bool" where
  "occursIn p s \<longleftrightarrow> (\<exists>before after. s = before @ p @ after)"

definition beginsWith :: "jstring \<Rightarrow> jstring \<Rightarrow> bool" where
  "beginsWith p s \<longleftrightarrow> (\<exists>rest. s = p @ rest)"

definition commaList :: "jstring list \<Rightarrow> jstring" where
  "commaList ws = (case ws of [] \<Rightarrow> [] | w # rest \<Rightarrow> w @ concat (map (\<lambda>x. js '', '' @ x) rest))"

text \<open>
  A lower-casing function that also lowers the capital letters of Latin-1, for an example
  of the compliance check on letters beyond ASCII.
\<close>

definition lowerLatin1 :: "jstring \<Rightarrow> jstring" where
  "lowerLatin1 s =
     map (\<lambda>c. if (65 \<le> c \<and> c \<le> 90) \<or> (192 \<le> c \<and> c \<le> 222 \<and> c \<noteq> 215) then c + 32 else c) s"

text \<open>Word lists for an example of the compliance check.\<close>

definition sampleWords :: prohibitedWords where
  "sampleWords = \<lparr>red_words = [js ''Guarantee'', js ''secret'', js ''risk-free''],
     yellow_words = [js ''best''], us_specific_terms = [js ''401k'']\<rparr>"

text \<open>
  The bucket of a content type in a template table. A template of the bucket, as it
  depends on the audience, either has a place for the audience or is the same text for
  every audience.
\<close>

definition bucketOf :: "(jstring \<times> jstring list) list \<Rightarrow> jstring \<Rightarrow> jstring list" where
  "bucketOf tbl k = (case map_of tbl k of Some b \<Rightarrow> b | None \<Rightarrow> [])"

text \<open>A request for an example of the endpoint.\<close>

definition sampleRequest :: request where
  "sampleRequest = \<lparr>reqContentType = js ''article'',
     reqContent = js ''Charitable giving and philanthropy continue to be major forces for good.'',
     reqTargetAudience = js ''professionals'', reqTone = js ''professional''\<rparr>"

section \<open>Properties of the string functions\<close>

lemma space32: "isSpaceChar 32"
  by (simp add: isSpaceChar_def)

lemma word_not_space: "isWordChar c \<Longrightarrow> \<not> isSpaceChar c"
  by (auto simp: isWordChar_def isSpaceChar_def)

lemma word_ascii: "isWordChar c \<Longrightarrow> c < 128"
  by (auto simp: isWordChar_def)

text \<open>The number of code units of a string that are not white space.\<close>

lemma inked_dropWhile: "inked (dropWhile P s) \<le> inked s"
  by (induction s) (auto simp: inked_def)

lemma inked_rev: "inked (rev s) = inked s"
  by (simp add: inked_def flip: rev_filter)

lemma inked_trim: "inked (trim s) \<le> inked s"
proof -
  have "inked (trim s) = inked (dropWhile isSpaceChar (rev (dropWhile isSpaceChar s)))"
    by (simp add: trim_def inked_rev)
  also have "\<dots> \<le> inked (rev (dropWhile isSpaceChar s))"
    by (rule inked_dropWhile)
  also have "\<dots> \<le> inked s"
    by (simp add: inked_rev inked_dropWhile)
  finally show ?thesis .
qed

lemma inked_collapse: "inked (collapseSpaces s) \<le> inked s"
proof (induction s rule: collapseSpaces.induct)
  case 1
  then show ?case by simp
next
  case (2 c cs)
  show ?case
  proof (cases "isSpaceChar c")
    case True
    with 2 have "inked (collapseSpaces (dropWhile isSpaceChar cs)) \<le> inked (dropWhile isSpaceChar cs)"
      by simp
    also have "\<dots> \<le> inked cs" by (rule inked_dropWhile)
    finally show ?thesis using True by (simp add: inked_def space32)
  next
    case False
    with 2 show ?thesis by (simp add: inked_def)
  qed
qed

lemma inked_strip: "inked (stripPunctuation s) = length (filter isWordChar s)"
  by (induction s) (auto simp: inked_def stripPunctuation_def space32 word_not_space)

lemma lowerUnit_words: "length (filter isWordChar (lowerUnit c)) \<le> 1"
  by (simp add: lowerUnit_def isWordChar_def)

lemma toLowerCase_words: "length (filter isWordChar (toLowerCase s)) \<le> length s"
proof (induction s)
  case Nil
  then show ?case by (simp add: toLowerCase_def)
next
  case (Cons c s)
  then show ?case using lowerUnit_words [of c] by (simp add: toLowerCase_def)
qed

lemma lowerUnit_space: "isSpaceChar c \<Longrightarrow> filter isWordChar (lowerUnit c) = []"
  by (auto simp: lowerUnit_def isWordChar_def isSpaceChar_def)

lemma toLowerCase_blank:
  "\<forall>c\<in>set s. isSpaceChar c \<Longrightarrow> filter isWordChar (toLowerCase s) = []"
  by (induction s) (simp_all add: toLowerCase_def lowerUnit_space)

lemma pieces_length: "t \<in> set (pieces cur s) \<Longrightarrow> length t \<le> length cur + inked s"
proof (induction cur s rule: pieces.induct)
  case (1 cur)
  then show ?case by simp
next
  case (2 cur c cs)
  show ?case
  proof (cases "isSpaceChar c")
    case True
    with 2(3) consider "t = cur" | "t \<in> set (pieces [] (dropWhile isSpaceChar cs))" by auto
    then show ?thesis
    proof cases
      case 1
      then show ?thesis by simp
    next
      case 2
      with "2.IH"(1) True have "length t \<le> inked (dropWhile isSpaceChar cs)" by simp
      also have "\<dots> \<le> inked cs" by (rule inked_dropWhile)
      finally show ?thesis using True by (simp add: inked_def)
    qed
  next
    case False
    with 2 show ?thesis by (simp add: inked_def)
  qed
qed

lemma pieces_units:
  "t \<in> set (pieces cur s) \<Longrightarrow> set t \<subseteq> set cur \<union> {c \<in> set s. \<not> isSpaceChar c}"
proof (induction cur s rule: pieces.induct)
  case (1 cur)
  then show ?case by simp
next
  case (2 cur c cs)
  show ?case
  proof (cases "isSpaceChar c")
    case True
    with 2(3) consider "t = cur" | "t \<in> set (pieces [] (dropWhile isSpaceChar cs))" by auto
    then show ?thesis
    proof cases
      case 1
      then show ?thesis by auto
    next
      case 2
      with "2.IH"(1) True
      have "set t \<subseteq> {c \<in> set (dropWhile isSpaceChar cs). \<not> isSpaceChar c}" by simp
      then show ?thesis by (auto dest: set_dropWhileD)
    qed
  next
    case False
    with 2 show ?thesis by auto
  qed
qed

lemma set_trim: "set (trim s) \<subseteq> set s"
  by (auto simp: trim_def dest!: set_dropWhileD)

lemma set_collapse: "set (collapseSpaces s) \<subseteq> insert 32 (set s)"
  by (induction s rule: collapseSpaces.induct) (auto dest: set_dropWhileD)

lemma set_strip: "c \<in> set (stripPunctuation s) \<Longrightarrow> isWordChar c \<or> isSpaceChar c"
  by (auto simp: stripPunctuation_def space32 split: if_splits)

lemma cleanContent_units:
  assumes "c \<in> set (cleanContent content)" and "\<not> isSpaceChar c"
  shows "isWordChar c"
proof -
  from assms(1) have "c \<in> set (collapseSpaces (stripPunctuation (toLowerCase content)))"
    unfolding cleanContent_def using set_trim by blast
  then have "c = 32 \<or> c \<in> set (stripPunctuation (toLowerCase content))"
    using set_collapse by blast
  with assms(2) show ?thesis using set_strip space32 by blast
qed

lemma cleanContent_inked:
  "inked (cleanContent content) \<le> length (filter isWordChar (toLowerCase content))"
proof -
  have "inked (cleanContent content) \<le> inked (collapseSpaces (stripPunctuation (toLowerCase content)))"
    unfolding cleanContent_def by (rule inked_trim)
  also have "\<dots> \<le> inked (stripPunctuation (toLowerCase content))"
    by (rule inked_collapse)
  finally show ?thesis by (simp add: inked_strip)
qed

section \<open>Properties of the topic extraction\<close>

lemma keptWords_kept: "w \<in> set (keptWords stop content) \<Longrightarrow> 3 < length w \<and> w \<notin> set stop"
  by (simp add: keptWords_def)

lemma keptWords_word: "w \<in> set (keptWords stop content) \<Longrightarrow> \<forall>c\<in>set w. isWordChar c"
proof
  fix c
  assume w: "w \<in> set (keptWords stop content)" and c: "c \<in> set w"
  from w have "w \<in> set (pieces [] (cleanContent content))"
    by (simp add: keptWords_def splitSpaces_def)
  from pieces_units [OF this] c
  have "c \<in> set (cleanContent content)" and "\<not> isSpaceChar c" by auto
  then show "isWordChar c" by (rule cleanContent_units)
qed

lemma keptWords_short:
  assumes "length (filter isWordChar (toLowerCase content)) \<le> 3"
  shows "keptWords stop content = []"
proof -
  have "length t \<le> 3" if "t \<in> set (splitSpaces (cleanContent content))" for t
  proof -
    from that have "length t \<le> inked (cleanContent content)"
      using pieces_length [of t "[]"] by (simp add: splitSpaces_def)
    with cleanContent_inked [of content] assms show ?thesis by linarith
  qed
  then show ?thesis
    unfolding keptWords_def by (fastforce simp: filter_empty_conv)
qed

lemma countWord_keys: "fst ` set (countWord obj w) \<subseteq> insert w (fst ` set obj)"
  by (auto simp: countWord_def split: option.splits if_splits)

lemma foldl_countWord_keys: "fst ` set (foldl countWord obj ws) \<subseteq> fst ` set obj \<union> set ws"
proof (induction ws arbitrary: obj)
  case Nil
  then show ?case by simp
next
  case (Cons w ws)
  have "fst ` set (foldl countWord (countWord obj w) ws) \<subseteq> fst ` set (countWord obj w) \<union> set ws"
    by (rule Cons.IH)
  with countWord_keys [of obj w] show ?case by simp blast
qed

lemma set_entries: "set (entries obj) = set obj"
  by (auto simp: entries_def)

lemma set_insertEntry: "set (insertEntry x ys) = insert x (set ys)"
  by (induction ys) auto

lemma set_foldl_insertEntry:
  "set (foldl (\<lambda>acc x. insertEntry x acc) acc xs) = set acc \<union> set xs"
  by (induction xs arbitrary: acc) (auto simp: set_insertEntry)

lemma set_sortByCount: "set (sortByCount xs) = set xs"
  by (simp add: sortByCount_def set_foldl_insertEntry)

lemma set_sliceTo: "set (sliceTo n xs) \<subseteq> set xs"
  by (auto simp: sliceTo_def dest: in_set_takeD)

lemma padTopics_length: "3 \<le> length (padTopics ts)"
proof -
  have "length ts = 0 \<or> length ts = 1 \<or> length ts = 2 \<or> 3 \<le> length ts" by arith
  then show ?thesis by (auto simp: padTopics_def)
qed

lemma padTopics_set: "set (padTopics ts) \<subseteq> set ts \<union> set fillers"
  by (auto simp: padTopics_def fillers_def)

lemma extractTopicsWith_length: "3 \<le> length (extractTopicsWith stop content n)"
  by (simp add: extractTopicsWith_def Let_def padTopics_length)

lemma extractTopicsWith_set:
  "set (extractTopicsWith stop content n) \<subseteq> set (keptWords stop content) \<union> set fillers"
proof -
  let ?obj = "foldl countWord [] (keptWords stop content)"
  have "set (map fst (sliceTo n (sortByCount (entries ?obj)))) \<subseteq> fst ` set ?obj"
    using set_sliceTo [of n "sortByCount (entries ?obj)"]
    by (auto simp: set_sortByCount set_entries)
  also have "\<dots> \<subseteq> set (keptWords stop content)"
    using foldl_countWord_keys [of "[]" "keptWords stop content"] by simp
  finally show ?thesis
    using padTopics_set [of "map fst (sliceTo n (sortByCount (entries ?obj)))"]
    unfolding extractTopicsWith_def Let_def by blast
qed

lemma fillers_long: "\<forall>t\<in>set fillers. 3 < length t"
  by (simp add: fillers_def)

lemma fillers_word: "\<forall>t\<in>set fillers. \<forall>c\<in>set t. isWordChar c"
  by (simp add: fillers_def isWordChar_def)

lemma fillers_not_common: "\<forall>t\<in>set fillers. t \<notin> set commonWords"
  by (simp add: fillers_def commonWords_def)

lemma extractTopicsWith_entries:
  assumes "t \<in> set (extractTopicsWith stop content n)" and "set stop \<subseteq> set commonWords"
  shows "3 < length t \<and> t \<notin> set stop \<and> (\<forall>c\<in>set t. isWordChar c)"
proof -
  from assms(1) extractTopicsWith_set
  consider "t \<in> set (keptWords stop content)" | "t \<in> set fillers" by blast
  then show ?thesis
  proof cases
    case 1
    then show ?thesis using keptWords_kept keptWords_word by blast
  next
    case 2
    then show ?thesis using fillers_long fillers_word fillers_not_common assms(2) by blast
  qed
qed

lemma extractTopicsWith_short:
  assumes "length (filter isWordChar (toLowerCase content)) \<le> 3"
  shows "extractTopicsWith stop content n = [js ''content'', js ''information'', js ''strategies'']"
  by (simp add: extractTopicsWith_def keptWords_short [OF assms] entries_def sortByCount_def
      sliceTo_def padTopics_def)

lemmas string_eval = toLowerCase_def lowerUnit_def stripPunctuation_def isWordChar_def
  isSpaceChar_def trim_def splitSpaces_def cleanContent_def startsWith_def endsWith_def

lemmas topics_eval = keptWords_def commonWords_def countWord_def inheritedKeys_def entries_def
  isArrayIndex_def digitsValue_def sortByCount_def sliceTo_def padTopics_def
  extractTopicsWith_def extractKeyTopics_def extractKeyTopicsOld_def

lemma extractKeyTopics_example:
  "extractKeyTopics (js ''Charitable giving and philanthropy continue to be major forces for good.'') 3
     = [js ''charitable'', js ''giving'', js ''philanthropy'']"
  by (simp add: string_eval topics_eval)

lemma extractKeyTopics_order_example:
  "extractKeyTopics (js ''2024 budget; 1999 budget, constructor __proto__'') 5
     = [js ''budget'', js ''1999'', js ''2024'', js ''constructor'']"
  by (simp add: string_eval topics_eval)

subsection \<open>Claim C2\<close>

text \<open>
  C2. For every input text and every requested topic count, \<open>extractKeyTopics\<close> returns a
  sequence of at least three entries, none of which is a word of the stop-word list and
  none of which has three code units or fewer; so the sequence is never empty. The same
  holds for the older listing of the function with its shorter stop-word list.
\<close>

theorem extractKeyTopics_entries:
  "3 \<le> length (extractKeyTopics content maxTopics) \<and>
   extractKeyTopics content maxTopics \<noteq> [] \<and>
   (\<forall>t\<in>set (extractKeyTopics content maxTopics). t \<notin> set commonWords \<and> 3 < length t) \<and>
   3 \<le> length (extractKeyTopicsOld content maxTopics) \<and>
   (\<forall>t\<in>set (extractKeyTopicsOld content maxTopics). t \<notin> set (take 73 commonWords) \<and> 3 < length t)"
proof -
  have len: "3 \<le> length (extractKeyTopics content maxTopics)"
    unfolding extractKeyTopics_def by (rule extractTopicsWith_length)
  then have ne: "extractKeyTopics content maxTopics \<noteq> []" by auto
  have new: "t \<notin> set commonWords \<and> 3 < length t"
    if "t \<in> set (extractKeyTopics content maxTopics)" for t
    using that extractTopicsWith_entries [of t commonWords content maxTopics]
    by (simp add: extractKeyTopics_def)
  have old: "t \<notin> set (take 73 commonWords) \<and> 3 < length t"
    if "t \<in> set (extractKeyTopicsOld content maxTopics)" for t
    using that extractTopicsWith_entries [of t "take 73 commonWords" content maxTopics]
      set_take_subset [of 73 commonWords]
    by (simp add: extractKeyTopicsOld_def)
  have "3 \<le> length (extractKeyTopicsOld content maxTopics)"
    unfolding extractKeyTopicsOld_def by (rule extractTopicsWith_length)
  with len ne new old show ?thesis by blast
qed

theorem extractKeyTopics_entries_witness:
  "extractKeyTopics (js ''Charitable giving and philanthropy continue to be major forces for good.'') 3
     = [js ''charitable'', js ''giving'', js ''philanthropy''] \<and>
   js ''philanthropy'' \<notin> set commonWords \<and> 3 < length (js ''philanthropy'')"
proof
  show "extractKeyTopics (js ''Charitable giving and philanthropy continue to be major forces for good.'') 3
     = [js ''charitable'', js ''giving'', js ''philanthropy'']"
    by (rule extractKeyTopics_example)
  show "js ''philanthropy'' \<notin> set commonWords \<and> 3 < length (js ''philanthropy'')"
    using extractKeyTopics_entries
      [of "js ''Charitable giving and philanthropy continue to be major forces for good.''" 3]
    unfolding extractKeyTopics_example by (meson list.set_intros)
qed

lemma lowerUnit_surrogate:
  "55296 \<le> c \<and> c \<le> 57343 \<Longrightarrow> filter isWordChar (lowerUnit c) = []"
  by (auto simp: lowerUnit_def isWordChar_def)

lemma toLowerCase_words_outside_surrogates:
  "length (filter isWordChar (toLowerCase s)) \<le> length (filter (\<lambda>c. c < 55296 \<or> 57343 < c) s)"
proof (induction s)
  case Nil
  then show ?case by (simp add: toLowerCase_def)
next
  case (Cons c s)
  show ?case
  proof (cases "c < 55296 \<or> 57343 < c")
    case True
    with Cons lowerUnit_words [of c] show ?thesis by (simp add: toLowerCase_def)
  next
    case False
    then have "filter isWordChar (lowerUnit c) = []" by (intro lowerUnit_surrogate) simp
    with Cons False show ?thesis by (simp add: toLowerCase_def)
  qed
qed

subsection \<open>Claim C8\<close>

text \<open>
  C8. For every input text that is empty, consists of white space only, or has fewer than
  four characters, \<open>extractKeyTopics\<close> returns exactly the default sequence
  \<open>['content', 'information', 'strategies']\<close>, whatever topic count is requested. "Fewer
  than four characters" is covered in both readings: fewer than four code units, and fewer
  than four code units outside the surrogate range (which a text of fewer than four code
  points has). The function is total on strings: it raises no error.
\<close>

theorem extractKeyTopics_short_input:
  assumes "content = [] \<or> (\<forall>c\<in>set content. isSpaceChar c) \<or> length content < 4 \<or>
           length (filter (\<lambda>c. c < 55296 \<or> 57343 < c) content) < 4"
  shows "extractKeyTopics content maxTopics = [js ''content'', js ''information'', js ''strategies'']"
proof -
  have "length (filter isWordChar (toLowerCase content)) \<le> 3"
    using assms toLowerCase_blank [of content] toLowerCase_words [of content]
      toLowerCase_words_outside_surrogates [of content]
    by fastforce
  then show ?thesis
    unfolding extractKeyTopics_def by (rule extractTopicsWith_short)
qed

theorem extractKeyTopics_short_input_witness:
  "extractKeyTopics (js ''AI!'') 5 = [js ''content'', js ''information'', js ''strategies''] \<and>
   extractKeyTopics (js ''   '') 5 = [js ''content'', js ''information'', js ''strategies''] \<and>
   extractKeyTopics [] 5 = [js ''content'', js ''information'', js ''strategies'']"
proof -
  have "length (js ''AI!'') < 4" by simp
  then have 1: "extractKeyTopics (js ''AI!'') 5 = [js ''content'', js ''information'', js ''strategies'']"
    by (intro extractKeyTopics_short_input) blast
  have "\<forall>c\<in>set (js ''   ''). isSpaceChar c" by (simp add: isSpaceChar_def)
  then have 2: "extractKeyTopics (js ''   '') 5 = [js ''content'', js ''information'', js ''strategies'']"
    by (intro extractKeyTopics_short_input) blast
  have 3: "extractKeyTopics [] 5 = [js ''content'', js ''information'', js ''strategies'']"
    by (intro extractKeyTopics_short_input) blast
  from 1 2 3 show ?thesis by blast
qed

subsection \<open>Claim C10\<close>

text \<open>
  C10. The generators pass \<open>topics[0]\<close>, \<open>topics[1]\<close> and (for titles) \<open>topics[2]\<close> of an
  \<open>extractKeyTopics\<close> result to \<open>ensureCompleteWord\<close>. Each of these is a defined string
  of more than three code units, so the branch of \<open>ensureCompleteWord\<close> that returns
  \<open>'content'\<close> for a missing or short word is not taken in those calls.
\<close>

theorem ensureCompleteWord_fallback_unreachable:
  assumes "i < 3"
  shows "\<exists>w. at (extractKeyTopics content maxTopics) i = Some w \<and> 3 < length w \<and>
             \<not> takesFallback (at (extractKeyTopics content maxTopics) i)"
proof -
  let ?ts = "extractKeyTopics content maxTopics"
  have "3 \<le> length ?ts"
    unfolding extractKeyTopics_def by (rule extractTopicsWith_length)
  with assms have i: "i < length ?ts" by simp
  then have "?ts ! i \<in> set ?ts" by simp
  then have "3 < length (?ts ! i)"
    using extractTopicsWith_entries [of "?ts ! i" commonWords content maxTopics]
    by (simp add: extractKeyTopics_def)
  with i show ?thesis by (auto simp: at_def takesFallback_def)
qed

theorem ensureCompleteWord_fallback_unreachable_witness:
  "(2::nat) < 3 \<and>
   (\<exists>w. at (extractKeyTopics (js ''AI!'') 3) 2 = Some w \<and> 3 < length w \<and>
        \<not> takesFallback (at (extractKeyTopics (js ''AI!'') 3) 2))"
proof -
  have h: "(2::nat) < 3" by simp
  from ensureCompleteWord_fallback_unreachable [OF h, of "js ''AI!''" 3] h
  show ?thesis by blast
qed

section \<open>Properties of the content-type detection\<close>

lemma foldr_max_append:
  "foldr max (xs @ ys) (0::nat) = max (foldr max xs 0) (foldr max ys 0)"
  by (induction xs) auto

lemma foldr_max_upper: "t \<in> set l \<Longrightarrow> f t \<le> foldr max (map f l) (0::nat)"
  by (induction l) auto

lemma foldr_max_attained: "l \<noteq> [] \<Longrightarrow> \<exists>t\<in>set l. f t = foldr max (map f l) (0::nat)"
proof (induction l)
  case Nil
  then show ?case by simp
next
  case (Cons a l)
  show ?case
  proof (cases "l = []")
    case True
    then show ?thesis by simp
  next
    case False
    with Cons obtain t where t: "t \<in> set l" "f t = foldr max (map f l) 0" by blast
    then have m: "foldr max (map f (a # l)) 0 = max (f a) (f t)" by simp
    show ?thesis
    proof (cases "f a \<le> f t")
      case True
      then have "f t = foldr max (map f (a # l)) 0" unfolding m by (simp add: max_def)
      with t(1) show ?thesis by (metis list.set_intros(2))
    next
      case False
      then have "f a = foldr max (map f (a # l)) 0" unfolding m by (simp add: max_def)
      then show ?thesis by (metis list.set_intros(1))
    qed
  qed
qed

text \<open>
  The reduction \<open>(a, b) => f(a) > f(b) ? a : b\<close> ends with the last element that has
  the highest value of \<open>f\<close>: on a tie it moves on to the later element.
\<close>

lemma foldl_keeps_last_max:
  fixes f :: "'a \<Rightarrow> nat"
  shows "foldl (\<lambda>a b. if f a > f b then a else b) x xs =
         last (filter (\<lambda>t. f t = foldr max (map f (x # xs)) 0) (x # xs))"
proof (induction xs rule: rev_induct)
  case Nil
  then show ?case by simp
next
  case (snoc y xs)
  let ?M = "foldr max (map f (x # xs)) 0"
  let ?r = "foldl (\<lambda>a b. if f a > f b then a else b) x xs"
  have M': "foldr max (map f (x # xs @ [y])) 0 = max ?M (f y)"
    using foldr_max_append [of "map f (x # xs)" "[f y]"] by simp
  obtain t where "t \<in> set (x # xs)" "f t = ?M"
    using foldr_max_attained [of "x # xs" f] by blast
  then have ne: "filter (\<lambda>t. f t = ?M) (x # xs) \<noteq> []"
    by (auto simp: filter_empty_conv simp del: foldr.simps list.map)
  have "?r \<in> set (filter (\<lambda>t. f t = ?M) (x # xs))"
    unfolding snoc.IH using ne by (rule last_in_set)
  then have r: "f ?r = ?M" unfolding set_filter by blast
  show ?case
  proof (cases "f ?r > f y")
    case True
    with r have "max ?M (f y) = ?M" "f y \<noteq> ?M" by auto
    then have "filter (\<lambda>t. f t = max ?M (f y)) (x # xs @ [y]) = filter (\<lambda>t. f t = ?M) (x # xs)"
      by (simp del: foldr.simps list.map)
    with True snoc.IH show ?thesis
      unfolding M' by (simp del: foldr.simps list.map)
  next
    case False
    with r have "max ?M (f y) = f y" by auto
    then have "last (filter (\<lambda>t. f t = max ?M (f y)) (x # xs @ [y])) = y"
      by (simp del: foldr.simps list.map)
    with False show ?thesis
      unfolding M' by (simp del: foldr.simps list.map)
  qed
qed

lemma scores_keys:
  "map fst (scores lc) =
     [js ''charitable'', js ''financial'', js ''business'', js ''technology'', js ''health'',
      js ''education'']"
  by (simp add: scores_def typeKeywords_def)

lemma detectedType_last_max: "detectedType content = lastMaxType content"
proof -
  let ?sc = "scores (toLowerCase content)"
  let ?x = "js ''charitable''"
  let ?xs = "[js ''financial'', js ''business'', js ''technology'', js ''health'', js ''education'']"
  have keys: "map fst ?sc = ?x # ?xs" by (rule scores_keys)
  let ?best = "filter (\<lambda>t. scoreOf ?sc t = bestScore ?sc) (map fst ?sc)"
  have "detectedType content = foldl (keepHigher ?sc) ?x ?xs"
    unfolding detectedType_def Let_def keys by simp
  also have "keepHigher ?sc = (\<lambda>a b. if scoreOf ?sc a > scoreOf ?sc b then a else b)"
    by (intro ext) (simp add: keepHigher_def)
  also have "foldl \<dots> ?x ?xs = last ?best"
    unfolding foldl_keeps_last_max bestScore_def keys ..
  also have "\<dots> = lastMaxType content"
  proof -
    obtain t where "t \<in> set (map fst ?sc)" "scoreOf ?sc t = bestScore ?sc"
      unfolding bestScore_def using foldr_max_attained [of "map fst ?sc" "scoreOf ?sc"] keys
      by (metis list.distinct(1))
    then have "?best \<noteq> []" by (auto simp: filter_empty_conv)
    then have "last ?best = hd (rev ?best)" by (simp add: hd_rev)
    moreover have "rev ?best \<noteq> []" using \<open>?best \<noteq> []\<close> by simp
    ultimately show ?thesis
      unfolding lastMaxType_def Let_def by (cases "rev ?best") auto
  qed
  finally show ?thesis .
qed

lemma detectedType_score: "scoreOf (scores (toLowerCase content)) (detectedType content)
    = bestScore (scores (toLowerCase content))"
proof -
  let ?sc = "scores (toLowerCase content)"
  let ?best = "filter (\<lambda>t. scoreOf ?sc t = bestScore ?sc) (map fst ?sc)"
  obtain t where "t \<in> set (map fst ?sc)" "scoreOf ?sc t = bestScore ?sc"
    unfolding bestScore_def
    using foldr_max_attained [of "map fst ?sc" "scoreOf ?sc"] scores_keys [of "toLowerCase content"]
    by (metis list.distinct(1))
  then have ne: "rev ?best \<noteq> []" by (auto simp: filter_empty_conv)
  then obtain b bs where b: "rev ?best = b # bs" by (cases "rev ?best") auto
  then have "b \<in> set ?best" by (metis list.set_intros(1) set_rev)
  then have "scoreOf ?sc b = bestScore ?sc" by simp
  moreover have "lastMaxType content = b"
    unfolding lastMaxType_def Let_def b by simp
  ultimately show ?thesis by (simp add: detectedType_last_max)
qed

lemma tie_scores:
  "scores (toLowerCase (js ''charity donation money finance'')) =
     [(js ''charitable'', 2), (js ''financial'', 2), (js ''business'', 0),
      (js ''technology'', 0), (js ''health'', 0), (js ''education'', 0)]"
  by (simp add: scores_def typeKeywords_def toLowerCase_def lowerUnit_def startsWith_def)

lemma tie_detected: "detectedType (js ''charity donation money finance'') = js ''financial''"
  unfolding detectedType_def Let_def tie_scores by (simp add: keepHigher_def scoreOf_def)

lemma tie_first: "firstMaxType (js ''charity donation money finance'') = js ''charitable''"
  unfolding firstMaxType_def Let_def tie_scores by (simp add: bestScore_def scoreOf_def)

subsection \<open>Claim C4\<close>

text \<open>
  C4, as stated: when two or more categories share the highest keyword score,
  \<open>detectContentType\<close> selects the first of them in the order of the categories. This
  fails: for the text "charity donation money finance" the categories \<open>charitable\<close> and
  \<open>financial\<close> both score 2, and the function returns \<open>financial\<close>.
\<close>

theorem detectContentType_tie_counterexample:
  "scores (toLowerCase (js ''charity donation money finance'')) =
     [(js ''charitable'', 2), (js ''financial'', 2), (js ''business'', 0),
      (js ''technology'', 0), (js ''health'', 0), (js ''education'', 0)] \<and>
   firstMaxType (js ''charity donation money finance'') = js ''charitable'' \<and>
   detectContentType (js ''charity donation money finance'') (js ''article'') = js ''financial'' \<and>
   detectContentType (js ''charity donation money finance'') (js ''article'')
     \<noteq> firstMaxType (js ''charity donation money finance'')"
proof -
  have "detectContentType (js ''charity donation money finance'') (js ''article'') = js ''financial''"
    unfolding detectContentType_def tie_detected tie_scores by (simp add: scoreOf_def)
  then show ?thesis
    using tie_scores tie_first by simp
qed

text \<open>
  C4, amended: the reduction \<open>scores[a] > scores[b] ? a : b\<close> moves on to the later
  category on a tie, so the category it ends with is the last one, in the order of the
  categories, among those with the highest score. \<open>detectContentType\<close> returns it when
  that score is at least 2, and the type the user selected otherwise.
\<close>

theorem detectContentType_tie_break:
  "detectedType content = lastMaxType content \<and>
   detectContentType content userSelectedType =
     (if 2 \<le> bestScore (scores (toLowerCase content)) then lastMaxType content
      else userSelectedType)"
proof -
  have s: "scoreOf (scores (toLowerCase content)) (detectedType content)
      = bestScore (scores (toLowerCase content))"
    by (rule detectedType_score)
  show ?thesis
    unfolding detectContentType_def s by (simp add: detectedType_last_max)
qed

theorem detectContentType_tie_break_witness:
  "lastMaxType (js ''charity donation money finance'') = js ''financial'' \<and>
   detectContentType (js ''charity donation money finance'') (js ''article'') = js ''financial''"
proof -
  have "(2::nat) \<le> bestScore (scores (toLowerCase (js ''charity donation money finance'')))"
    unfolding tie_scores by (simp add: bestScore_def scoreOf_def)
  with detectContentType_tie_break [of "js ''charity donation money finance''" "js ''article''"]
  show ?thesis unfolding tie_detected by metis
qed

section \<open>Properties of the compliance check\<close>

lemma startsWith_beginsWith: "startsWith s p \<longleftrightarrow> beginsWith p s"
proof
  assume "startsWith s p"
  then have "s = p @ drop (length p) s"
    unfolding startsWith_def by (metis append_take_drop_id)
  then show "beginsWith p s" unfolding beginsWith_def by blast
next
  assume "beginsWith p s"
  then show "startsWith s p" unfolding beginsWith_def startsWith_def by auto
qed

text \<open>\<open>includes\<close> is the occurrence as a contiguous part.\<close>

lemma includesStr_occursIn: "includesStr s p \<longleftrightarrow> occursIn p s"
proof (induction s)
  case Nil
  show ?case by (auto simp: occursIn_def)
next
  case (Cons c cs)
  have "occursIn p (c # cs) \<longleftrightarrow> beginsWith p (c # cs) \<or> occursIn p cs"
  proof
    assume "occursIn p (c # cs)"
    then obtain before after where s: "c # cs = before @ p @ after"
      unfolding occursIn_def by blast
    show "beginsWith p (c # cs) \<or> occursIn p cs"
    proof (cases before)
      case Nil
      with s show ?thesis unfolding beginsWith_def by auto
    next
      case (Cons b bs)
      with s have "cs = bs @ p @ after" by simp
      then show ?thesis unfolding occursIn_def by blast
    qed
  next
    assume "beginsWith p (c # cs) \<or> occursIn p cs"
    then show "occursIn p (c # cs)"
    proof
      assume "beginsWith p (c # cs)"
      then obtain rest where "c # cs = [] @ p @ rest" unfolding beginsWith_def by auto
      then show ?thesis unfolding occursIn_def by blast
    next
      assume "occursIn p cs"
      then obtain before after where "cs = before @ p @ after" unfolding occursIn_def by blast
      then have "c # cs = (c # before) @ p @ after" by simp
      then show ?thesis unfolding occursIn_def by blast
    qed
  qed
  with Cons show ?case by (simp add: startsWith_beginsWith)
qed

text \<open>\<open>join\<close> writes the words one after the other with the separator between them.\<close>

lemma join_separated:
  "join sep ws = (case ws of [] \<Rightarrow> [] | w # rest \<Rightarrow> w @ concat (map (\<lambda>x. sep @ x) rest))"
  by (induction sep ws rule: join.induct) simp_all

lemma join_commaList: "join (js '', '') ws = commaList ws"
  unfolding commaList_def by (rule join_separated)

lemma wordsFound_occurring:
  "wordsFound lc content ws = filter (\<lambda>w. occursIn (lc w) (lc content)) ws"
  by (simp add: wordsFound_def includesStr_occursIn)

lemma warningFor_commaList:
  "warningFor label found = (if found = [] then [] else [label @ commaList found])"
  by (simp add: warningFor_def join_commaList del: list.map)

lemma complianceCheck_shape:
  "complianceCheck lc pw content =
     (if filter (\<lambda>w. occursIn (lc w) (lc content)) (red_words pw) = [] then []
      else [js ''Red words found: '' @
            commaList (filter (\<lambda>w. occursIn (lc w) (lc content)) (red_words pw))]) @
     (if filter (\<lambda>w. occursIn (lc w) (lc content)) (yellow_words pw) = [] then []
      else [js ''Yellow words found: '' @
            commaList (filter (\<lambda>w. occursIn (lc w) (lc content)) (yellow_words pw))]) @
     (if filter (\<lambda>w. occursIn (lc w) (lc content)) (us_specific_terms pw) = [] then []
      else [js ''US-specific terms found: '' @
            commaList (filter (\<lambda>w. occursIn (lc w) (lc content)) (us_specific_terms pw))])"
  unfolding complianceCheck_def Let_def warningFor_commaList wordsFound_occurring ..

lemma red_label_only:
  "beginsWith (js ''Red words found:'') (js ''Red words found: '' @ x)"
  "\<not> beginsWith (js ''Red words found:'') (js ''Yellow words found: '' @ x)"
  "\<not> beginsWith (js ''Red words found:'') (js ''US-specific terms found: '' @ x)"
  by (simp_all add: beginsWith_def)

subsection \<open>Claim C3\<close>

text \<open>
  C3. Whatever the three word lists are and whatever the lower-casing function \<open>lc\<close> does:
  the compliance check returns at most three warnings, one for each list of which a word
  matches, in the order red words, yellow words, US-specific terms. A word matches when
  its lower-cased form occurs as a contiguous part of the lower-cased text; the warning of
  a list is its label followed by the matching words of the list, as they are listed and
  in their order, with \<open>', '\<close> between them. When the text contains a red word, exactly
  one warning begins with \<open>Red words found:\<close>; it is the first warning and it is
  \<open>Red words found: \<close> followed by the matching red words.
\<close>

theorem complianceCheck_warnings:
  "length (complianceCheck lc pw content) \<le> 3 \<and>
   complianceCheck lc pw content =
     (if filter (\<lambda>w. occursIn (lc w) (lc content)) (red_words pw) = [] then []
      else [js ''Red words found: '' @
            commaList (filter (\<lambda>w. occursIn (lc w) (lc content)) (red_words pw))]) @
     (if filter (\<lambda>w. occursIn (lc w) (lc content)) (yellow_words pw) = [] then []
      else [js ''Yellow words found: '' @
            commaList (filter (\<lambda>w. occursIn (lc w) (lc content)) (yellow_words pw))]) @
     (if filter (\<lambda>w. occursIn (lc w) (lc content)) (us_specific_terms pw) = [] then []
      else [js ''US-specific terms found: '' @
            commaList (filter (\<lambda>w. occursIn (lc w) (lc content)) (us_specific_terms pw))]) \<and>
   ((\<exists>w\<in>set (red_words pw). occursIn (lc w) (lc content)) \<longrightarrow>
      filter (beginsWith (js ''Red words found:'')) (complianceCheck lc pw content)
        = [js ''Red words found: '' @
           commaList (filter (\<lambda>w. occursIn (lc w) (lc content)) (red_words pw))] \<and>
      at (complianceCheck lc pw content) 0
        = Some (js ''Red words found: '' @
           commaList (filter (\<lambda>w. occursIn (lc w) (lc content)) (red_words pw))))"
proof (intro conjI impI)
  show "length (complianceCheck lc pw content) \<le> 3"
    unfolding complianceCheck_shape by simp
  show "complianceCheck lc pw content =
     (if filter (\<lambda>w. occursIn (lc w) (lc content)) (red_words pw) = [] then []
      else [js ''Red words found: '' @
            commaList (filter (\<lambda>w. occursIn (lc w) (lc content)) (red_words pw))]) @
     (if filter (\<lambda>w. occursIn (lc w) (lc content)) (yellow_words pw) = [] then []
      else [js ''Yellow words found: '' @
            commaList (filter (\<lambda>w. occursIn (lc w) (lc content)) (yellow_words pw))]) @
     (if filter (\<lambda>w. occursIn (lc w) (lc content)) (us_specific_terms pw) = [] then []
      else [js ''US-specific terms found: '' @
            commaList (filter (\<lambda>w. occursIn (lc w) (lc content)) (us_specific_terms pw))])"
    by (rule complianceCheck_shape)
next
  assume "\<exists>w\<in>set (red_words pw). occursIn (lc w) (lc content)"
  then have red: "filter (\<lambda>w. occursIn (lc w) (lc content)) (red_words pw) \<noteq> []"
    by (auto simp: filter_empty_conv)
  show "filter (beginsWith (js ''Red words found:'')) (complianceCheck lc pw content)
        = [js ''Red words found: '' @
           commaList (filter (\<lambda>w. occursIn (lc w) (lc content)) (red_words pw))]"
    unfolding complianceCheck_shape using red red_label_only
    by (simp del: list.map)
  show "at (complianceCheck lc pw content) 0
        = Some (js ''Red words found: '' @
           commaList (filter (\<lambda>w. occursIn (lc w) (lc content)) (red_words pw)))"
    unfolding complianceCheck_shape using red by (simp add: at_def del: list.map)
qed

lemma sample_found:
  "filter (\<lambda>w. occursIn (toLowerCase w) (toLowerCase (js ''We GUARANTEE Risk-Free returns, the best!'')))
     (red_words sampleWords) = [js ''Guarantee'', js ''risk-free'']"
  "filter (\<lambda>w. occursIn (toLowerCase w) (toLowerCase (js ''We GUARANTEE Risk-Free returns, the best!'')))
     (yellow_words sampleWords) = [js ''best'']"
  "filter (\<lambda>w. occursIn (toLowerCase w) (toLowerCase (js ''We GUARANTEE Risk-Free returns, the best!'')))
     (us_specific_terms sampleWords) = []"
  unfolding includesStr_occursIn [symmetric]
  by (simp_all add: sampleWords_def toLowerCase_def lowerUnit_def startsWith_def)

theorem complianceCheck_warnings_witness:
  "(\<exists>w\<in>set (red_words sampleWords).
      occursIn (toLowerCase w) (toLowerCase (js ''We GUARANTEE Risk-Free returns, the best!''))) \<and>
   complianceCheck toLowerCase sampleWords (js ''We GUARANTEE Risk-Free returns, the best!'')
     = [js ''Red words found: Guarantee, risk-free'', js ''Yellow words found: best''] \<and>
   filter (beginsWith (js ''Red words found:''))
     (complianceCheck toLowerCase sampleWords (js ''We GUARANTEE Risk-Free returns, the best!''))
       = [js ''Red words found: Guarantee, risk-free'']"
proof -
  let ?c = "js ''We GUARANTEE Risk-Free returns, the best!''"
  have "js ''Guarantee'' \<in> set (filter (\<lambda>w. occursIn (toLowerCase w) (toLowerCase ?c))
      (red_words sampleWords))"
    unfolding sample_found by simp
  then have red: "\<exists>w\<in>set (red_words sampleWords). occursIn (toLowerCase w) (toLowerCase ?c)"
    by auto
  note inst = complianceCheck_warnings [of toLowerCase sampleWords ?c, unfolded sample_found]
  have all: "complianceCheck toLowerCase sampleWords ?c
      = [js ''Red words found: Guarantee, risk-free'', js ''Yellow words found: best'']"
    using inst by (simp add: commaList_def)
  from inst red have "filter (beginsWith (js ''Red words found:''))
      (complianceCheck toLowerCase sampleWords ?c)
       = [js ''Red words found: '' @ commaList [js ''Guarantee'', js ''risk-free'']]"
    by blast
  then have "filter (beginsWith (js ''Red words found:''))
      (complianceCheck toLowerCase sampleWords ?c) = [js ''Red words found: Guarantee, risk-free'']"
    by (simp add: commaList_def)
  with red all show ?thesis by blast
qed

text \<open>
  The text \<open>CAF\<close>\<open>E\<close> with an acute accent on the last letter (code unit 201) and the red
  word \<open>caf\<close>\<open>e\<close> with the accent (code unit 233), under a lower-casing that lowers the
  accented letter: the word is found.
\<close>

lemma complianceCheck_accent_example:
  "complianceCheck lowerLatin1
     \<lparr>red_words = [[99, 97, 102, 233]], yellow_words = [], us_specific_terms = []\<rparr>
     [67, 65, 70, 201]
   = [js ''Red words found: '' @ [99, 97, 102, 233]]"
  by (simp add: complianceCheck_def wordsFound_def warningFor_def lowerLatin1_def startsWith_def)

section \<open>Properties of the rule chains\<close>

lemma matchesAt_exact:
  "matchesAt False p s \<longleftrightarrow> length p \<le> length s \<and> take (length p) s = p"
  by (induction False p s rule: matchesAt.induct) (auto simp: unitEq_def)

lemma find_alt:
  assumes "find (\<lambda>p. matchesAt ic p s) alts = Some p"
  shows "p \<in> set alts \<and> matchesAt ic p s"
  using assms by (auto simp: find_Some_iff)

lemma set_replaceAll: "set (replaceAll ic alts rep s) \<subseteq> set s \<union> set rep"
proof (induction ic alts rep s rule: replaceAll.induct)
  case (1 ic alts rep)
  then show ?case by simp
next
  case (2 ic alts rep c cs)
  show ?case
  proof (cases "find (\<lambda>p. matchesAt ic p (c # cs)) alts")
    case None
    with 2 show ?thesis by auto
  next
    case (Some p)
    with 2 have "set (replaceAll ic alts rep (drop (length p - 1) cs))
        \<subseteq> set (drop (length p - 1) cs) \<union> set rep" by simp
    also have "\<dots> \<subseteq> set cs \<union> set rep" using set_drop_subset by fastforce
    finally show ?thesis using Some by auto
  qed
qed

lemma replaceAll_not_empty:
  assumes "s \<noteq> []" and "rep \<noteq> []"
  shows "replaceAll ic alts rep s \<noteq> []"
  using assms by (cases s) (auto split: option.splits)

lemma replaceAll_removes_unit:
  assumes "c \<notin> set rep"
  shows "c \<notin> set (replaceAll False [[c]] rep s)"
proof (induction s rule: length_induct)
  case (1 s)
  show ?case
  proof (cases s)
    case Nil
    then show ?thesis by simp
  next
    case (Cons x xs)
    show ?thesis
    proof (cases "x = c")
      case True
      with 1 Cons assms show ?thesis by (simp add: unitEq_def)
    next
      case False
      with 1 Cons assms show ?thesis by (simp add: unitEq_def)
    qed
  qed
qed

lemma replaceAll_keeps_unit:
  assumes "\<forall>p\<in>set alts. p \<noteq> [] \<and> c \<notin> set p"
  shows "c \<in> set s \<Longrightarrow> c \<in> set (replaceAll False alts rep s)"
proof (induction s rule: length_induct)
  case (1 s)
  then obtain x xs where s: "s = x # xs" by (cases s) auto
  show ?case
  proof (cases "find (\<lambda>p. matchesAt False p (x # xs)) alts")
    case None
    with 1 s show ?thesis by auto
  next
    case (Some p)
    then have p: "p \<in> set alts" "matchesAt False p (x # xs)" using find_alt by blast+
    with assms have pne: "p \<noteq> []" and cp: "c \<notin> set p" by auto
    from p(2) have tk: "take (length p) (x # xs) = p" by (simp add: matchesAt_exact)
    have "set (x # xs) = set (take (length p) (x # xs)) \<union> set (drop (length p) (x # xs))"
      by (metis append_take_drop_id set_append)
    with 1(2) s cp tk have "c \<in> set (drop (length p) (x # xs))" by auto
    moreover from pne have "drop (length p) (x # xs) = drop (length p - 1) xs"
      by (cases p) auto
    ultimately have "c \<in> set (drop (length p - 1) xs)" by simp
    moreover have "length (drop (length p - 1) xs) < length s" using s by simp
    ultimately have "c \<in> set (replaceAll False alts rep (drop (length p - 1) xs))"
      using 1(1) by blast
    with Some s show ?thesis by simp
  qed
qed

lemma applyRules_Nil: "applyRules [] s = s"
  by (simp add: applyRules_def)

lemma applyRules_Cons: "applyRules ((ic, alts, rep) # rs) s = applyRules rs (replaceAll ic alts rep s)"
  by (simp add: applyRules_def applyRule_def)

lemma applyRules_lacks:
  assumes "\<forall>r\<in>set rs. c \<notin> set (snd (snd r))"
  shows "c \<notin> set s \<Longrightarrow> c \<notin> set (applyRules rs s)"
  using assms
proof (induction rs arbitrary: s)
  case Nil
  then show ?case by (simp add: applyRules_Nil)
next
  case (Cons r rs)
  obtain ic alts rep where r: "r = (ic, alts, rep)" by (cases r) auto
  with Cons.prems have "c \<notin> set (replaceAll ic alts rep s)"
    using set_replaceAll [of ic alts rep s] by auto
  with Cons r show ?case by (simp add: applyRules_Cons)
qed

lemma applyRules_all:
  "\<forall>r\<in>set rs. \<forall>c\<in>set (snd (snd r)). P c \<Longrightarrow> \<forall>c\<in>set s. P c \<Longrightarrow>
   \<forall>c\<in>set (applyRules rs s). P c"
proof (induction rs arbitrary: s)
  case Nil
  then show ?case unfolding applyRules_Nil by blast
next
  case (Cons r rs)
  obtain ic alts rep where r: "r = (ic, alts, rep)" by (cases r) auto
  from Cons.prems(1) have rep: "\<forall>c\<in>set rep. P c" unfolding r by (metis list.set_intros(1) snd_conv)
  from Cons.prems(1) have rest: "\<forall>r\<in>set rs. \<forall>c\<in>set (snd (snd r)). P c"
    by (meson list.set_intros(2))
  have "\<forall>c\<in>set (replaceAll ic alts rep s). P c"
    using set_replaceAll [of ic alts rep s] rep Cons.prems(2) by blast
  from Cons.IH [OF rest this] show ?case unfolding r applyRules_Cons .
qed

lemma applyRules_not_empty:
  assumes "\<forall>r\<in>set rs. snd (snd r) \<noteq> []"
  shows "s \<noteq> [] \<Longrightarrow> applyRules rs s \<noteq> []"
  using assms
proof (induction rs arbitrary: s)
  case Nil
  then show ?case by (simp add: applyRules_Nil)
next
  case (Cons r rs)
  obtain ic alts rep where r: "r = (ic, alts, rep)" by (cases r) auto
  with Cons.prems have "replaceAll ic alts rep s \<noteq> []"
    by (simp add: replaceAll_not_empty)
  with Cons r show ?case by (simp add: applyRules_Cons)
qed

lemma formatHashtags_not_empty: "s \<noteq> [] \<Longrightarrow> formatHashtags s \<noteq> []"
  by (cases s) (auto simp: formatTag_def)

section \<open>Properties of the selection\<close>

lemma mset_shuffle: "mset (shuffle ks xs) = mset xs"
proof (induction ks xs rule: shuffle.induct)
  case (1 ks)
  then show ?case by simp
next
  case (2 x xs)
  then show ?case by simp
next
  case (3 k ks x xs)
  let ?l = "x # xs"
  let ?i = "k mod Suc (length xs)"
  have i: "?i < length ?l" by simp
  have "mset (shuffle (k # ks) ?l) = {#?l ! ?i#} + mset (take ?i ?l @ drop (Suc ?i) ?l)"
    using 3 by simp
  also have "\<dots> = mset (take ?i ?l @ ?l ! ?i # drop (Suc ?i) ?l)" by simp
  also have "take ?i ?l @ ?l ! ?i # drop (Suc ?i) ?l = ?l"
    using i by (rule id_take_nth_drop [symmetric])
  finally show ?case .
qed

lemma length_shuffle: "length (shuffle ks xs) = length xs"
  using mset_shuffle [of ks xs] by (metis size_mset)

lemma set_shuffle: "set (shuffle ks xs) = set xs"
  using mset_shuffle [of ks xs] by (metis set_mset_mset)

text \<open>Every rearrangement of the array is the outcome of some draw.\<close>

lemma shuffle_reaches: "mset ys = mset xs \<Longrightarrow> \<exists>ks. shuffle ks xs = ys"
proof (induction ys arbitrary: xs)
  case Nil
  then show ?case by simp
next
  case (Cons y ys)
  then have "y \<in> set xs" by (metis list.set_intros(1) set_mset_mset)
  then obtain i where i: "i < length xs" "xs ! i = y" by (auto simp: in_set_conv_nth)
  then obtain x xs' where xs: "xs = x # xs'" by (cases xs) auto
  let ?rest = "take i xs @ drop (Suc i) xs"
  have "xs = take i xs @ y # drop (Suc i) xs"
    using i id_take_nth_drop by blast
  then have "mset xs = {#y#} + mset ?rest"
    by (metis add_mset_add_single mset.simps(2) mset_append union_mset_add_mset_right union_commute)
  with Cons.prems have "mset ys = mset ?rest" by simp
  with Cons.IH obtain ks where ks: "shuffle ks ?rest = ys" by blast
  have "i mod Suc (length xs') = i" using i xs by simp
  then have "shuffle (i # ks) xs = y # ys"
    using i ks xs by simp
  then show ?case by blast
qed

lemma keepHigher_fold_member: "foldl (keepHigher sc) x xs \<in> set (x # xs)"
  by (induction xs arbitrary: x) (auto simp: keepHigher_def)

lemma detectedType_key:
  "detectedType content \<in> set [js ''charitable'', js ''financial'', js ''business'',
     js ''technology'', js ''health'', js ''education'']"
proof -
  have "detectedType content = foldl (keepHigher (scores (toLowerCase content))) (js ''charitable'')
      [js ''financial'', js ''business'', js ''technology'', js ''health'', js ''education'']"
    unfolding detectedType_def Let_def scores_keys by simp
  then show ?thesis
    using keepHigher_fold_member by metis
qed

lemma detectContentType_cases:
  "detectContentType content userSelectedType = userSelectedType \<or>
   detectContentType content userSelectedType \<in> set [js ''charitable'', js ''financial'',
     js ''business'', js ''technology'', js ''health'', js ''education'']"
  using detectedType_key [of content] by (simp add: detectContentType_def)

lemma getProp_cases:
  "(\<exists>ts. getProp tbl k = Own ts \<and> (k, ts) \<in> set tbl) \<or>
   (getProp tbl k = Inherited \<and> k \<in> set inheritedKeys \<and> map_of tbl k = None) \<or>
   (getProp tbl k = Absent \<and> k \<notin> set inheritedKeys)"
  by (auto simp: getProp_def dest: map_of_SomeD split: option.splits)

lemma selectTemplates_found:
  assumes "detected \<notin> set inheritedKeys" and "ct \<notin> set inheritedKeys"
    and "map_of tbl (js ''article'') = Some art"
  shows "\<exists>ts. selectTemplates tbl detected ct = Inr ts \<and> ts \<in> snd ` set tbl"
proof -
  have art: "getProp tbl (js ''article'') = Own art" "(js ''article'', art) \<in> set tbl"
    using assms(3) by (auto simp: getProp_def dest: map_of_SomeD)
  consider ts where "getProp tbl detected = Own ts" "(detected, ts) \<in> set tbl"
    | "getProp tbl detected = Absent"
    using getProp_cases [of tbl detected] assms(1) by blast
  then show ?thesis
  proof cases
    case 1
    then show ?thesis by (force simp: selectTemplates_def)
  next
    case 2
    consider ts where "getProp tbl ct = Own ts" "(ct, ts) \<in> set tbl"
      | "getProp tbl ct = Absent"
      using getProp_cases [of tbl ct] assms(2) by blast
    then show ?thesis
    proof cases
      case 1
      with 2 show ?thesis by (force simp: selectTemplates_def)
    next
      case 2
      with \<open>getProp tbl detected = Absent\<close> art show ?thesis
        by (force simp: selectTemplates_def)
    qed
  qed
qed

lemma selectTemplates_inherited:
  assumes "ct \<in> set inheritedKeys" and "map_of tbl ct = None"
  shows "selectTemplates tbl ct ct = Inl TypeError"
  using assms by (simp add: selectTemplates_def getProp_def)

section \<open>Properties of the templates\<close>

lemma includesStr_empty: "includesStr s []"
  by (induction s) (simp_all add: startsWith_def)

lemma includesStr_self: "includesStr p p"
  by (cases p) (simp_all add: startsWith_def)

lemma includesStr_prefix: "includesStr (p @ b) p"
  by (cases p) (simp_all add: startsWith_def includesStr_empty)

lemma capitalize_ascii: "\<forall>c\<in>set m. c < 128 \<Longrightarrow> \<forall>c\<in>set (capitalize m). c < 128"
  by (cases m) (auto simp: capitalize_def upperUnit_def)

lemma includesStr_suffix: "includesStr b p \<Longrightarrow> includesStr (a @ b) p"
  by (induction a) simp_all

lemmas includes_simps = includesStr_empty includesStr_self includesStr_prefix includesStr_suffix

lemma titles_article_facts:
  "length (titles_article m s a) = 14"
  "\<forall>t\<in>set (titles_article m s a). 32 \<in> set t"
  "\<forall>t\<in>set (titles_article m s a). includesStr t (capitalize m)"
  by (simp_all add: titles_article_def includes_simps)

lemma titles_article_ascii:
  assumes "\<forall>c\<in>set m. c < 128" and "\<forall>c\<in>set s. c < 128" and "\<forall>c\<in>set a. c < 128"
  shows "\<forall>t\<in>set (titles_article m s a). \<forall>c\<in>set t. c < 128"
  using assms capitalize_ascii [of m] by (simp add: titles_article_def ball_Un)

lemma titles_blog_facts:
  "length (titles_blog m s a) = 14"
  "\<forall>t\<in>set (titles_blog m s a). 32 \<in> set t"
  "\<forall>t\<in>set (titles_blog m s a). includesStr t (capitalize m)"
  by (simp_all add: titles_blog_def includes_simps)

lemma titles_blog_ascii:
  assumes "\<forall>c\<in>set m. c < 128" and "\<forall>c\<in>set s. c < 128" and "\<forall>c\<in>set a. c < 128"
  shows "\<forall>t\<in>set (titles_blog m s a). \<forall>c\<in>set t. c < 128"
  using assms capitalize_ascii [of m] by (simp add: titles_blog_def ball_Un)

lemma titles_product_facts:
  "length (titles_product m s a) = 14"
  "\<forall>t\<in>set (titles_product m s a). 32 \<in> set t"
  "\<forall>t\<in>set (titles_product m s a). includesStr t (capitalize m)"
  by (simp_all add: titles_product_def includes_simps)

lemma titles_product_ascii:
  assumes "\<forall>c\<in>set m. c < 128" and "\<forall>c\<in>set s. c < 128" and "\<forall>c\<in>set a. c < 128"
  shows "\<forall>t\<in>set (titles_product m s a). \<forall>c\<in>set t. c < 128"
  using assms capitalize_ascii [of m] by (simp add: titles_product_def ball_Un)

lemma titles_service_facts:
  "length (titles_service m s a) = 14"
  "\<forall>t\<in>set (titles_service m s a). 32 \<in> set t"
  "\<forall>t\<in>set (titles_service m s a). includesStr t (capitalize m)"
  by (simp_all add: titles_service_def includes_simps)

lemma titles_service_ascii:
  assumes "\<forall>c\<in>set m. c < 128" and "\<forall>c\<in>set s. c < 128" and "\<forall>c\<in>set a. c < 128"
  shows "\<forall>t\<in>set (titles_service m s a). \<forall>c\<in>set t. c < 128"
  using assms capitalize_ascii [of m] by (simp add: titles_service_def ball_Un)

lemma titles_video_facts:
  "length (titles_video m s a) = 14"
  "\<forall>t\<in>set (titles_video m s a). 32 \<in> set t"
  "\<forall>t\<in>set (titles_video m s a). includesStr t (capitalize m)"
  by (simp_all add: titles_video_def includes_simps)

lemma titles_video_ascii:
  assumes "\<forall>c\<in>set m. c < 128" and "\<forall>c\<in>set s. c < 128" and "\<forall>c\<in>set a. c < 128"
  shows "\<forall>t\<in>set (titles_video m s a). \<forall>c\<in>set t. c < 128"
  using assms capitalize_ascii [of m] by (simp add: titles_video_def ball_Un)

lemma titles_email_facts:
  "length (titles_email m s a) = 14"
  "\<forall>t\<in>set (titles_email m s a). 32 \<in> set t"
  "\<forall>t\<in>set (titles_email m s a). includesStr t (capitalize m)"
  by (simp_all add: titles_email_def includes_simps)

lemma titles_email_ascii:
  assumes "\<forall>c\<in>set m. c < 128" and "\<forall>c\<in>set s. c < 128" and "\<forall>c\<in>set a. c < 128"
  shows "\<forall>t\<in>set (titles_email m s a). \<forall>c\<in>set t. c < 128"
  using assms capitalize_ascii [of m] by (simp add: titles_email_def ball_Un)

lemma titles_social_facts:
  "length (titles_social m s a) = 14"
  "\<forall>t\<in>set (titles_social m s a). 32 \<in> set t"
  "\<forall>t\<in>set (titles_social m s a). includesStr t (capitalize m)"
  by (simp_all add: titles_social_def includes_simps)

lemma titles_social_ascii:
  assumes "\<forall>c\<in>set m. c < 128" and "\<forall>c\<in>set s. c < 128" and "\<forall>c\<in>set a. c < 128"
  shows "\<forall>t\<in>set (titles_social m s a). \<forall>c\<in>set t. c < 128"
  using assms capitalize_ascii [of m] by (simp add: titles_social_def ball_Un)

lemma titles_landing_facts:
  "length (titles_landing m s a) = 14"
  "\<forall>t\<in>set (titles_landing m s a). 32 \<in> set t"
  "\<forall>t\<in>set (titles_landing m s a). includesStr t (capitalize m)"
  by (simp_all add: titles_landing_def includes_simps)

lemma titles_landing_ascii:
  assumes "\<forall>c\<in>set m. c < 128" and "\<forall>c\<in>set s. c < 128" and "\<forall>c\<in>set a. c < 128"
  shows "\<forall>t\<in>set (titles_landing m s a). \<forall>c\<in>set t. c < 128"
  using assms capitalize_ascii [of m] by (simp add: titles_landing_def ball_Un)

lemma titles_charitable_facts:
  "length (titles_charitable m s a) = 14"
  "\<forall>t\<in>set (titles_charitable m s a). 32 \<in> set t"
  "\<forall>t\<in>set (titles_charitable m s a). includesStr t (capitalize m)"
  by (simp_all add: titles_charitable_def includes_simps)

lemma titles_charitable_ascii:
  assumes "\<forall>c\<in>set m. c < 128" and "\<forall>c\<in>set s. c < 128" and "\<forall>c\<in>set a. c < 128"
  shows "\<forall>t\<in>set (titles_charitable m s a). \<forall>c\<in>set t. c < 128"
  using assms capitalize_ascii [of m] by (simp add: titles_charitable_def ball_Un)

lemma titles_financial_facts:
  "length (titles_financial m s a) = 14"
  "\<forall>t\<in>set (titles_financial m s a). 32 \<in> set t"
  "\<forall>t\<in>set (titles_financial m s a). includesStr t (capitalize m)"
  by (simp_all add: titles_financial_def includes_simps)

lemma titles_financial_ascii:
  assumes "\<forall>c\<in>set m. c < 128" and "\<forall>c\<in>set s. c < 128" and "\<forall>c\<in>set a. c < 128"
  shows "\<forall>t\<in>set (titles_financial m s a). \<forall>c\<in>set t. c < 128"
  using assms capitalize_ascii [of m] by (simp add: titles_financial_def ball_Un)

lemma titleTemplates_buckets:
  assumes "b \<in> snd ` set (titleTemplates m s a)"
  shows "length b = 14" and "\<forall>t\<in>set b. 32 \<in> set t"
    and "\<forall>t\<in>set b. includesStr t (capitalize m)"
  using assms unfolding titleTemplates_def
  by (auto simp: titles_article_facts titles_blog_facts titles_product_facts titles_service_facts titles_video_facts titles_email_facts titles_social_facts titles_landing_facts titles_charitable_facts titles_financial_facts)

lemma titleTemplates_ascii:
  assumes "b \<in> snd ` set (titleTemplates m s a)"
    and "\<forall>c\<in>set m. c < 128" and "\<forall>c\<in>set s. c < 128" and "\<forall>c\<in>set a. c < 128"
  shows "\<forall>t\<in>set b. \<forall>c\<in>set t. c < 128"
  using assms(1) titles_article_ascii [OF assms(2-4)] titles_blog_ascii [OF assms(2-4)] titles_product_ascii [OF assms(2-4)] titles_service_ascii [OF assms(2-4)] titles_video_ascii [OF assms(2-4)] titles_email_ascii [OF assms(2-4)] titles_social_ascii [OF assms(2-4)] titles_landing_ascii [OF assms(2-4)] titles_charitable_ascii [OF assms(2-4)] titles_financial_ascii [OF assms(2-4)]
  unfolding titleTemplates_def by auto

lemma titleTemplates_article:
  "map_of (titleTemplates m s a) (js ''article'') = Some (titles_article m s a)"
  by (simp add: titleTemplates_def)

lemma descriptions_article_facts:
  "length (descriptions_article m s a v) = 9"
  "[] \<notin> set (descriptions_article m s a v)"
  "\<forall>t\<in>set (descriptions_article m s a v). includesStr t m"
  by (simp_all add: descriptions_article_def includes_simps)

lemma descriptions_blog_facts:
  "length (descriptions_blog m s a v) = 9"
  "[] \<notin> set (descriptions_blog m s a v)"
  "\<forall>t\<in>set (descriptions_blog m s a v). includesStr t m"
  by (simp_all add: descriptions_blog_def includes_simps)

lemma descriptions_product_facts:
  "length (descriptions_product m s a v) = 9"
  "[] \<notin> set (descriptions_product m s a v)"
  "\<forall>t\<in>set (descriptions_product m s a v). includesStr t m"
  by (simp_all add: descriptions_product_def includes_simps)

lemma descriptions_service_facts:
  "length (descriptions_service m s a v) = 9"
  "[] \<notin> set (descriptions_service m s a v)"
  "\<forall>t\<in>set (descriptions_service m s a v). includesStr t m"
  by (simp_all add: descriptions_service_def includes_simps)

lemma descriptions_video_facts:
  "length (descriptions_video m s a v) = 6"
  "[] \<notin> set (descriptions_video m s a v)"
  "\<forall>t\<in>set (descriptions_video m s a v). includesStr t m"
  by (simp_all add: descriptions_video_def includes_simps)

lemma descriptions_email_facts:
  "length (descriptions_email m s a v) = 6"
  "[] \<notin> set (descriptions_email m s a v)"
  "\<forall>t\<in>set (descriptions_email m s a v). includesStr t m"
  by (simp_all add: descriptions_email_def includes_simps)

lemma descriptions_social_facts:
  "length (descriptions_social m s a v) = 6"
  "[] \<notin> set (descriptions_social m s a v)"
  "\<forall>t\<in>set (descriptions_social m s a v). includesStr t m"
  by (simp_all add: descriptions_social_def includes_simps)

lemma descriptions_landing_facts:
  "length (descriptions_landing m s a v) = 6"
  "[] \<notin> set (descriptions_landing m s a v)"
  "\<forall>t\<in>set (descriptions_landing m s a v). includesStr t m"
  by (simp_all add: descriptions_landing_def includes_simps)

lemma descriptions_charitable_facts:
  "length (descriptions_charitable m s a v) = 9"
  "[] \<notin> set (descriptions_charitable m s a v)"
  "\<forall>t\<in>set (descriptions_charitable m s a v). includesStr t m"
  by (simp_all add: descriptions_charitable_def includes_simps)

lemma descriptions_financial_facts:
  "length (descriptions_financial m s a v) = 6"
  "[] \<notin> set (descriptions_financial m s a v)"
  "\<forall>t\<in>set (descriptions_financial m s a v). includesStr t m"
  by (simp_all add: descriptions_financial_def includes_simps)

lemma descriptionTemplates_buckets:
  assumes "b \<in> snd ` set (descriptionTemplates m s a v)"
  shows "3 \<le> length b" and "[] \<notin> set b" and "\<forall>t\<in>set b. includesStr t m"
  using assms unfolding descriptionTemplates_def
  by (auto simp: descriptions_article_facts descriptions_blog_facts descriptions_product_facts descriptions_service_facts descriptions_video_facts descriptions_email_facts descriptions_social_facts descriptions_landing_facts descriptions_charitable_facts descriptions_financial_facts)

lemma descriptionTemplates_article:
  "map_of (descriptionTemplates m s a v) (js ''article'') = Some (descriptions_article m s a v)"
  by (simp add: descriptionTemplates_def)

lemma social_article_facts:
  "length (social_article m a v) = 9"
  "[] \<notin> set (social_article m a v)"
  "\<forall>t\<in>set (social_article m a v). includesStr t m"
  by (simp_all add: social_article_def includes_simps)

lemma social_blog_facts:
  "length (social_blog m a v) = 9"
  "[] \<notin> set (social_blog m a v)"
  "\<forall>t\<in>set (social_blog m a v). includesStr t m"
  by (simp_all add: social_blog_def includes_simps)

lemma social_product_facts:
  "length (social_product m a v) = 9"
  "[] \<notin> set (social_product m a v)"
  "\<forall>t\<in>set (social_product m a v). includesStr t m"
  by (simp_all add: social_product_def includes_simps)

lemma social_service_facts:
  "length (social_service m a v) = 9"
  "[] \<notin> set (social_service m a v)"
  "\<forall>t\<in>set (social_service m a v). includesStr t m"
  by (simp_all add: social_service_def includes_simps)

lemma social_video_facts:
  "length (social_video m a v) = 9"
  "[] \<notin> set (social_video m a v)"
  "\<forall>t\<in>set (social_video m a v). includesStr t m"
  by (simp_all add: social_video_def includes_simps)

lemma social_email_facts:
  "length (social_email m a v) = 9"
  "[] \<notin> set (social_email m a v)"
  "\<forall>t\<in>set (social_email m a v). includesStr t m"
  by (simp_all add: social_email_def includes_simps)

lemma social_social_facts:
  "length (social_social m a v) = 9"
  "[] \<notin> set (social_social m a v)"
  "\<forall>t\<in>set (social_social m a v). includesStr t m"
  by (simp_all add: social_social_def includes_simps)

lemma social_landing_facts:
  "length (social_landing m a v) = 9"
  "[] \<notin> set (social_landing m a v)"
  "\<forall>t\<in>set (social_landing m a v). includesStr t m"
  by (simp_all add: social_landing_def includes_simps)

lemma social_charitable_facts:
  "length (social_charitable m a v) = 9"
  "[] \<notin> set (social_charitable m a v)"
  "\<forall>t\<in>set (social_charitable m a v). includesStr t m"
  by (simp_all add: social_charitable_def includes_simps)

lemma social_financial_facts:
  "length (social_financial m a v) = 6"
  "[] \<notin> set (social_financial m a v)"
  "\<forall>t\<in>set (social_financial m a v). includesStr t m"
  by (simp_all add: social_financial_def includes_simps)

lemma socialTemplates_buckets:
  assumes "b \<in> snd ` set (socialTemplates m a v)"
  shows "3 \<le> length b" and "[] \<notin> set b" and "\<forall>t\<in>set b. includesStr t m"
  using assms unfolding socialTemplates_def
  by (auto simp: social_article_facts social_blog_facts social_product_facts social_service_facts social_video_facts social_email_facts social_social_facts social_landing_facts social_charitable_facts social_financial_facts)

lemma socialTemplates_article:
  "map_of (socialTemplates m a v) (js ''article'') = Some (social_article m a v)"
  by (simp add: socialTemplates_def)

section \<open>Properties of the generators\<close>

lemma applyRules_append: "applyRules (rs @ rs') s = applyRules rs' (applyRules rs s)"
  by (simp add: applyRules_def)

lemma applyRules_keeps_unit:
  "\<forall>r\<in>set rs. \<not> fst r \<and> (\<forall>p\<in>set (fst (snd r)). p \<noteq> [] \<and> c \<notin> set p) \<Longrightarrow> c \<in> set s \<Longrightarrow>
   c \<in> set (applyRules rs s)"
proof (induction rs arbitrary: s)
  case Nil
  then show ?case unfolding applyRules_Nil by blast
next
  case (Cons r rs)
  obtain ic alts rep where r: "r = (ic, alts, rep)" by (cases r) auto
  from Cons.prems(1) have ic: "ic = False" and alts: "\<forall>p\<in>set alts. p \<noteq> [] \<and> c \<notin> set p"
    unfolding r by auto
  from Cons.prems(1) have rest:
    "\<forall>r\<in>set rs. \<not> fst r \<and> (\<forall>p\<in>set (fst (snd r)). p \<noteq> [] \<and> c \<notin> set p)"
    by (meson list.set_intros(2))
  have "c \<in> set (replaceAll False alts rep s)"
    using alts Cons.prems(2) by (rule replaceAll_keeps_unit)
  from Cons.IH [OF rest this] show ?case unfolding r ic applyRules_Cons .
qed

lemma titleRules_professional_parts:
  "titleRules (js ''professional'') = take 2 titleRules_professional @ drop 2 titleRules_professional"
  "\<forall>r\<in>set (take 2 titleRules_professional).
     \<not> fst r \<and> (\<forall>p\<in>set (fst (snd r)). p \<noteq> [] \<and> 32 \<notin> set p)"
  "\<forall>r\<in>set (drop 2 titleRules_professional). snd (snd r) \<noteq> []"
  by (simp_all add: titleRules_def titleRules_professional_def)

lemma titleRules_casual_reps: "\<forall>r\<in>set titleRules_casual. snd (snd r) \<noteq> []"
  by (simp add: titleRules_casual_def)

lemma titleRules_friendly_reps: "\<forall>r\<in>set titleRules_friendly. snd (snd r) \<noteq> []"
  by (simp add: titleRules_friendly_def)

lemma titleRules_authoritative_reps: "\<forall>r\<in>set titleRules_authoritative. snd (snd r) \<noteq> []"
  by (simp add: titleRules_authoritative_def)

lemma titleRules_other_reps:
  "tone \<noteq> js ''professional'' \<Longrightarrow> \<forall>r\<in>set (titleRules tone). snd (snd r) \<noteq> []"
  using titleRules_casual_reps titleRules_friendly_reps titleRules_authoritative_reps
  unfolding titleRules_def by simp

lemma descriptionRules_professional_reps: "\<forall>r\<in>set descriptionRules_professional. snd (snd r) \<noteq> []"
  by (simp add: descriptionRules_professional_def)

lemma descriptionRules_casual_reps: "\<forall>r\<in>set descriptionRules_casual. snd (snd r) \<noteq> []"
  by (simp add: descriptionRules_casual_def)

lemma descriptionRules_friendly_reps: "\<forall>r\<in>set descriptionRules_friendly. snd (snd r) \<noteq> []"
  by (simp add: descriptionRules_friendly_def)

lemma descriptionRules_authoritative_reps: "\<forall>r\<in>set descriptionRules_authoritative. snd (snd r) \<noteq> []"
  by (simp add: descriptionRules_authoritative_def)

lemma descriptionRules_reps: "\<forall>r\<in>set (descriptionRules tone). snd (snd r) \<noteq> []"
  using descriptionRules_professional_reps descriptionRules_casual_reps
    descriptionRules_friendly_reps descriptionRules_authoritative_reps
  unfolding descriptionRules_def by simp

lemma socialRules_professional_reps: "\<forall>r\<in>set socialRules_professional. snd (snd r) \<noteq> []"
  by (simp add: socialRules_professional_def)

lemma socialRules_casual_reps: "\<forall>r\<in>set socialRules_casual. snd (snd r) \<noteq> []"
  by (simp add: socialRules_casual_def)

lemma socialRules_friendly_reps: "\<forall>r\<in>set socialRules_friendly. snd (snd r) \<noteq> []"
  by (simp add: socialRules_friendly_def)

lemma socialRules_authoritative_reps: "\<forall>r\<in>set socialRules_authoritative. snd (snd r) \<noteq> []"
  by (simp add: socialRules_authoritative_def)

lemma socialRules_reps: "\<forall>r\<in>set (socialRules tone). snd (snd r) \<noteq> []"
  using socialRules_professional_reps socialRules_casual_reps
    socialRules_friendly_reps socialRules_authoritative_reps
  unfolding socialRules_def by simp

lemma title_stays_not_empty:
  assumes "32 \<in> set t"
  shows "applyRules (titleRules tone) t \<noteq> []"
proof (cases "tone = js ''professional''")
  case True
  have "32 \<in> set (applyRules (take 2 titleRules_professional) t)"
    using titleRules_professional_parts(2) assms by (rule applyRules_keeps_unit)
  then have "applyRules (take 2 titleRules_professional) t \<noteq> []" by auto
  with titleRules_professional_parts(3)
  have "applyRules (drop 2 titleRules_professional) (applyRules (take 2 titleRules_professional) t) \<noteq> []"
    by (rule applyRules_not_empty)
  then show ?thesis
    unfolding True titleRules_professional_parts(1) applyRules_append .
next
  case False
  from assms have "t \<noteq> []" by auto
  with titleRules_other_reps [OF False] show ?thesis by (rule applyRules_not_empty)
qed

lemma titleRules_professional_bang:
  "titleRules (js ''professional'') = (False, [[33]], [46]) # tl titleRules_professional"
  "\<forall>r\<in>set (tl titleRules_professional). 33 \<notin> set (snd (snd r))"
  "\<forall>r\<in>set (titleRules (js ''professional'')). \<forall>c\<in>set (snd (snd r)). c < 128"
  by (simp_all add: titleRules_def titleRules_professional_def)

lemma professional_title_without_bang: "33 \<notin> set (applyRules (titleRules (js ''professional'')) t)"
proof -
  have "33 \<notin> set (replaceAll False [[33]] [46] t)"
    by (rule replaceAll_removes_unit) simp
  with titleRules_professional_bang(2)
  have "33 \<notin> set (applyRules (tl titleRules_professional) (replaceAll False [[33]] [46] t))"
    by (rule applyRules_lacks)
  then show ?thesis
    unfolding titleRules_professional_bang(1) applyRules_Cons .
qed

lemma unknown_tone_rules:
  assumes "tone \<notin> {js ''professional'', js ''casual'', js ''friendly'', js ''authoritative''}"
  shows "titleRules tone = []" and "descriptionRules tone = []" and "socialRules tone = []"
  using assms by (simp_all add: titleRules_def descriptionRules_def socialRules_def)

lemma topic_ascii:
  assumes "\<forall>c\<in>set d. c < 128"
  shows "\<forall>c\<in>set (orElse (ensureCompleteWord (at (extractKeyTopics content n) i)) d). c < 128"
proof -
  let ?w = "at (extractKeyTopics content n) i"
  have word: "\<forall>c\<in>set w. c < 128" if "?w = Some w" for w
  proof -
    from that have "w \<in> set (extractKeyTopics content n)"
      by (auto simp: at_def split: if_splits)
    then have "\<forall>c\<in>set w. isWordChar c"
      using extractTopicsWith_entries [of w commonWords content n] by (simp add: extractKeyTopics_def)
    then show ?thesis using word_ascii by blast
  qed
  have "\<forall>c\<in>set (ensureCompleteWord ?w). c < 128"
  proof (cases ?w)
    case None
    then show ?thesis by (simp add: ensureCompleteWord_def takesFallback_def)
  next
    case (Some w)
    from word [OF Some] have "\<forall>c\<in>set (take (length w - 3) w). c < 128"
      by (meson in_set_takeD)
    with word [OF Some] Some show ?thesis
      by (simp add: ensureCompleteWord_def replaceFinalFor_def ball_Un)
  qed
  with assms show ?thesis by (simp add: orElse_def)
qed

lemma bucket_names_not_inherited:
  "set inheritedKeys \<inter> set (map js [''article'', ''blog'', ''product'', ''service'', ''video'',
     ''email'', ''social'', ''landing'', ''charitable'', ''financial'', ''business'',
     ''technology'', ''health'', ''education'']) = {}"
  by (simp add: inheritedKeys_def)

lemma detect_keys_not_inherited:
  "k \<in> set [js ''charitable'', js ''financial'', js ''business'', js ''technology'',
     js ''health'', js ''education''] \<Longrightarrow> k \<notin> set inheritedKeys"
  by (auto simp: inheritedKeys_def)

lemma detected_not_inherited:
  assumes "contentType \<notin> set inheritedKeys"
  shows "detectContentType content contentType \<notin> set inheritedKeys"
proof -
  let ?d = "detectContentType content contentType"
  consider "?d = contentType"
    | "?d \<in> set [js ''charitable'', js ''financial'', js ''business'', js ''technology'',
         js ''health'', js ''education'']"
    using detectContentType_cases [of content contentType] by blast
  then show ?thesis
  proof cases
    case 1
    with assms show ?thesis by simp
  next
    case 2
    then show ?thesis by (rule detect_keys_not_inherited)
  qed
qed

lemma selectedTitles_found:
  assumes "contentType \<notin> set inheritedKeys"
  shows "\<exists>m s b. selectedTitles content contentType aud ks = Inr (take 5 (shuffle ks b)) \<and>
           b \<in> snd ` set (titleTemplates m s aud) \<and>
           (\<forall>c\<in>set m. c < 128) \<and> (\<forall>c\<in>set s. c < 128)"
proof -
  let ?m = "orElse (ensureCompleteWord (at (extractKeyTopics content 3) 0)) (js ''content'')"
  let ?s = "orElse (ensureCompleteWord (at (extractKeyTopics content 3) 1)) (js ''strategies'')"
  obtain b where b: "selectTemplates (titleTemplates ?m ?s aud)
      (detectContentType content contentType) contentType = Inr b"
      "b \<in> snd ` set (titleTemplates ?m ?s aud)"
    using selectTemplates_found [OF detected_not_inherited [OF assms] assms
        titleTemplates_article [of ?m ?s aud]]
    by blast
  have "\<forall>c\<in>set ?m. c < 128" by (rule topic_ascii) simp
  moreover have "\<forall>c\<in>set ?s. c < 128" by (rule topic_ascii) simp
  moreover have "selectedTitles content contentType aud ks = Inr (take 5 (shuffle ks b))"
    unfolding selectedTitles_def Let_def b(1) by simp
  ultimately show ?thesis using b(2) by blast
qed

lemma selectedDescriptions_found:
  assumes "contentType \<notin> set inheritedKeys"
  shows "\<exists>m s v b. selectedDescriptions content contentType aud ks = Inr (take 3 (shuffle ks b)) \<and>
           b \<in> snd ` set (descriptionTemplates m s aud v)"
proof -
  let ?m = "orElse (ensureCompleteWord (at (extractKeyTopics content 2) 0)) (js ''content'')"
  let ?s = "orElse (ensureCompleteWord (at (extractKeyTopics content 2) 1)) (js ''information'')"
  let ?v = "validAudienceOf aud"
  obtain b where b: "selectTemplates (descriptionTemplates ?m ?s aud ?v)
      (detectContentType content contentType) contentType = Inr b"
      "b \<in> snd ` set (descriptionTemplates ?m ?s aud ?v)"
    using selectTemplates_found [OF detected_not_inherited [OF assms] assms
        descriptionTemplates_article [of ?m ?s aud ?v]]
    by blast
  have "selectedDescriptions content contentType aud ks = Inr (take 3 (shuffle ks b))"
    unfolding selectedDescriptions_def Let_def b(1) by simp
  then show ?thesis using b(2) by blast
qed

lemma selectedSocialCopy_found:
  assumes "contentType \<notin> set inheritedKeys"
  shows "\<exists>m v b. selectedSocialCopy content contentType aud ks = Inr (take 3 (shuffle ks b)) \<and>
           b \<in> snd ` set (socialTemplates m aud v)"
proof -
  let ?m = "orElse (ensureCompleteWord (at (extractKeyTopics content 2) 0)) (js ''content'')"
  let ?v = "validAudienceOf aud"
  obtain b where b: "selectTemplates (socialTemplates ?m aud ?v)
      (detectContentType content contentType) contentType = Inr b"
      "b \<in> snd ` set (socialTemplates ?m aud ?v)"
    using selectTemplates_found [OF detected_not_inherited [OF assms] assms
        socialTemplates_article [of ?m aud ?v]]
    by blast
  have "selectedSocialCopy content contentType aud ks = Inr (take 3 (shuffle ks b))"
    unfolding selectedSocialCopy_def Let_def b(1) by simp
  then show ?thesis using b(2) by blast
qed

lemma set_take_shuffle: "set (take n (shuffle ks b)) \<subseteq> set b"
  using set_take_subset [of n "shuffle ks b"] by (simp add: set_shuffle)

text \<open>
  For a content type that is not a name inherited from \<open>Object.prototype\<close>, whatever the
  text, the audience, the tone and the outcome of the rearrangement: five titles, three
  descriptions and three social posts, none of them empty.
\<close>

lemma generateTitles_full:
  assumes "contentType \<notin> set inheritedKeys"
  shows "\<exists>ts. generateTitles content contentType aud tone ks = Inr ts \<and> length ts = 5 \<and>
           [] \<notin> set ts"
proof -
  from selectedTitles_found [OF assms, of content aud ks]
  obtain m s b where b: "selectedTitles content contentType aud ks = Inr (take 5 (shuffle ks b))"
      "b \<in> snd ` set (titleTemplates m s aud)" by blast
  let ?ts = "map (applyRules (titleRules tone)) (take 5 (shuffle ks b))"
  have gen: "generateTitles content contentType aud tone ks = Inr ?ts"
    unfolding generateTitles_def b(1) by simp
  have len: "length ?ts = 5"
    using titleTemplates_buckets(1) [OF b(2)] by (simp add: length_shuffle)
  have "applyRules (titleRules tone) t \<noteq> []" if "t \<in> set (take 5 (shuffle ks b))" for t
  proof -
    from that have "t \<in> set b" using set_take_shuffle [of 5 ks b] by (rule subsetD [rotated])
    then have "32 \<in> set t" using titleTemplates_buckets(2) [OF b(2)] by blast
    then show ?thesis by (rule title_stays_not_empty)
  qed
  then have "[] \<notin> set ?ts" by (metis (no_types, lifting) imageE list.set_map)
  with gen len show ?thesis by blast
qed

lemma generateDescriptions_full:
  assumes "contentType \<notin> set inheritedKeys"
  shows "\<exists>ts. generateDescriptions content contentType aud tone ks = Inr ts \<and> length ts = 3 \<and>
           [] \<notin> set ts"
proof -
  from selectedDescriptions_found [OF assms, of content aud ks]
  obtain m s v b where b:
      "selectedDescriptions content contentType aud ks = Inr (take 3 (shuffle ks b))"
      "b \<in> snd ` set (descriptionTemplates m s aud v)" by blast
  let ?ts = "map (applyRules (descriptionRules tone)) (take 3 (shuffle ks b))"
  have gen: "generateDescriptions content contentType aud tone ks = Inr ?ts"
    unfolding generateDescriptions_def b(1) by simp
  have len: "length ?ts = 3"
    using descriptionTemplates_buckets(1) [OF b(2)] by (simp add: length_shuffle)
  have "applyRules (descriptionRules tone) t \<noteq> []" if "t \<in> set (take 3 (shuffle ks b))" for t
  proof -
    from that have "t \<in> set b" using set_take_shuffle [of 3 ks b] by (rule subsetD [rotated])
    then have "t \<noteq> []" using descriptionTemplates_buckets(2) [OF b(2)] by blast
    with descriptionRules_reps show ?thesis by (rule applyRules_not_empty)
  qed
  then have "[] \<notin> set ?ts" by (metis (no_types, lifting) imageE list.set_map)
  with gen len show ?thesis by blast
qed

lemma generateSocialCopy_full:
  assumes "contentType \<notin> set inheritedKeys"
  shows "\<exists>ts. generateSocialCopy content contentType aud tone ks = Inr ts \<and> length ts = 3 \<and>
           [] \<notin> set ts"
proof -
  from selectedSocialCopy_found [OF assms, of content aud ks]
  obtain m v b where b:
      "selectedSocialCopy content contentType aud ks = Inr (take 3 (shuffle ks b))"
      "b \<in> snd ` set (socialTemplates m aud v)" by blast
  let ?f = "\<lambda>t. formatHashtags (applyRules (socialRules tone) t)"
  let ?ts = "map ?f (take 3 (shuffle ks b))"
  have gen: "generateSocialCopy content contentType aud tone ks = Inr ?ts"
    unfolding generateSocialCopy_def b(1) by simp
  have len: "length ?ts = 3"
    using socialTemplates_buckets(1) [OF b(2)] by (simp add: length_shuffle)
  have "?f t \<noteq> []" if "t \<in> set (take 3 (shuffle ks b))" for t
  proof -
    from that have "t \<in> set b" using set_take_shuffle [of 3 ks b] by (rule subsetD [rotated])
    then have "t \<noteq> []" using socialTemplates_buckets(2) [OF b(2)] by blast
    with socialRules_reps have "applyRules (socialRules tone) t \<noteq> []"
      by (rule applyRules_not_empty)
    then show ?thesis by (rule formatHashtags_not_empty)
  qed
  then have "[] \<notin> set ?ts" by (metis (no_types, lifting) imageE list.set_map)
  with gen len show ?thesis by blast
qed

section \<open>Worked examples\<close>

lemma blank_topics:
  "extractKeyTopics [] n = [js ''content'', js ''information'', js ''strategies'']"
  unfolding extractKeyTopics_def by (rule extractTopicsWith_short) (simp add: toLowerCase_def)

lemma blank_scores:
  "scores (toLowerCase []) =
     [(js ''charitable'', 0), (js ''financial'', 0), (js ''business'', 0),
      (js ''technology'', 0), (js ''health'', 0), (js ''education'', 0)]"
  by (simp add: scores_def typeKeywords_def toLowerCase_def)

lemma blank_detect: "detectContentType [] u = u"
  unfolding detectContentType_def detectedType_def Let_def blank_scores
  by (simp add: keepHigher_def scoreOf_def)

lemma blank_topic_words:
  "orElse (ensureCompleteWord (at [js ''content'', js ''information'', js ''strategies''] 0)) d = js ''content''"
  "orElse (ensureCompleteWord (at [js ''content'', js ''information'', js ''strategies''] 1)) d = js ''information''"
  "orElse (ensureCompleteWord (at [js ''content'', js ''information'', js ''strategies''] 2)) d = js ''strategies''"
  by (simp_all add: orElse_def ensureCompleteWord_def takesFallback_def at_def endsWith_def)

lemma article_selected:
  "selectTemplates (titleTemplates m s a) (js ''article'') (js ''article'') = Inr (titles_article m s a)"
  "selectTemplates (descriptionTemplates m s a v) (js ''article'') (js ''article'')
     = Inr (descriptions_article m s a v)"
  "selectTemplates (socialTemplates m a v) (js ''article'') (js ''article'') = Inr (social_article m a v)"
  by (simp_all add: selectTemplates_def getProp_def titleTemplates_def descriptionTemplates_def
      socialTemplates_def)

lemma blank_selectedTitles:
  "selectedTitles [] (js ''article'') (js ''managers'') [] =
     Inr [js ''The Complete Guide to Content'',
      js ''The Ultimate Content Guide for managers'',
      js ''Content: What Every managers Needs to Know'',
      js ''How to Master Content in 2024'',
      js ''The Definitive Guide to Content'']"
  unfolding selectedTitles_def Let_def blank_topics blank_detect blank_topic_words article_selected
  by (simp add: titles_article_def capitalize_def upperUnit_def)

lemma blank_professional_titles:
  "generateTitles [] (js ''article'') (js ''managers'') (js ''professional'') [] =
     Inr [js ''The Comprehensive Guide to Content'',
      js ''The Definitive Content Guide for managers'',
      js ''Content: What Every managers Needs to Know'',
      js ''How to Excel in Content in 2024'',
      js ''The Definitive Guide to Content'']"
  unfolding generateTitles_def blank_selectedTitles
  by (simp add: titleRules_def titleRules_professional_def applyRules_def applyRule_def unitEq_def)

lemma blank_selectedSocialCopy:
  "selectedSocialCopy [] (js ''article'') (js ''managers'') [] =
     Inr [[287, 376, 8220, 353] @ js '' Just published: The ultimate guide to content! Whether you're a beginner or expert, this comprehensive article has something for everyone. #content #ContentMarketing'',
      [287, 376, 175] @ js '' Want to master content? Our latest article breaks down everything you need to know, from basics to advanced strategies. Check it out! #content'',
      [287, 376, 8217, 161] @ js '' New insights on content! Discover proven strategies and expert tips that will transform your approach. Don't miss this! #content #Tips'']"
  unfolding selectedSocialCopy_def Let_def blank_topics blank_detect blank_topic_words article_selected
  by (simp add: social_article_def validAudienceOf_def trim_def isSpaceChar_def)

lemma blank_plain_socialCopy:
  "generateSocialCopy [] (js ''article'') (js ''managers'') (js ''plain'') [] =
     Inr [[287, 376, 8220, 353] @ js '' Just published: The ultimate guide to content! Whether you're a beginner or expert, this comprehensive article has something for everyone. #Content #ContentMarketing'',
      [287, 376, 175] @ js '' Want to master content? Our latest article breaks down everything you need to know, from basics to advanced strategies. Check it out! #Content'',
      [287, 376, 8217, 161] @ js '' New insights on content! Discover proven strategies and expert tips that will transform your approach. Don't miss this! #Content #Tips'']"
  unfolding generateSocialCopy_def blank_selectedSocialCopy
  by (simp add: socialRules_def applyRules_def formatTag_def capitalize_def upperUnit_def
      isWordChar_def isUpper_def spaceBeforeCapitals_def trim_def isSpaceChar_def titleWord_def
      toLowerCase_def lowerUnit_def)

section \<open>The claims about the generators\<close>

lemma table_keys:
  "fst ` set (titleTemplates m s a) \<subseteq> set (map js [''article'', ''blog'', ''product'', ''service'', ''video'',
     ''email'', ''social'', ''landing'', ''charitable'', ''financial'', ''business'',
     ''technology'', ''health'', ''education''])"
  "fst ` set (descriptionTemplates m s a v) \<subseteq> set (map js [''article'', ''blog'', ''product'', ''service'', ''video'',
     ''email'', ''social'', ''landing'', ''charitable'', ''financial'', ''business'',
     ''technology'', ''health'', ''education''])"
  "fst ` set (socialTemplates m a v) \<subseteq> set (map js [''article'', ''blog'', ''product'', ''service'', ''video'',
     ''email'', ''social'', ''landing'', ''charitable'', ''financial'', ''business'',
     ''technology'', ''health'', ''education''])"
  by (simp_all add: titleTemplates_def descriptionTemplates_def socialTemplates_def)

lemma inherited_not_in_tables:
  assumes "k \<in> set inheritedKeys"
  shows "map_of (titleTemplates m s a) k = None"
    and "map_of (descriptionTemplates m s a v) k = None"
    and "map_of (socialTemplates m a' v') k = None"
proof -
  have k: "k \<notin> set (map js [''article'', ''blog'', ''product'', ''service'', ''video'',
     ''email'', ''social'', ''landing'', ''charitable'', ''financial'', ''business'',
     ''technology'', ''health'', ''education''])"
  proof
    assume "k \<in> set (map js [''article'', ''blog'', ''product'', ''service'', ''video'',
     ''email'', ''social'', ''landing'', ''charitable'', ''financial'', ''business'',
     ''technology'', ''health'', ''education''])"
    with assms have "k \<in> set inheritedKeys \<inter> set (map js [''article'', ''blog'', ''product'', ''service'', ''video'',
     ''email'', ''social'', ''landing'', ''charitable'', ''financial'', ''business'',
     ''technology'', ''health'', ''education''])"
      by (rule IntI)
    then show False unfolding bucket_names_not_inherited by (rule emptyE)
  qed
  have "k \<notin> fst ` set (titleTemplates m s a)"
    using table_keys(1) [of m s a] k by (rule contra_subsetD)
  then show "map_of (titleTemplates m s a) k = None"
    by (rule map_of_eq_None_iff [THEN iffD2])
  have "k \<notin> fst ` set (descriptionTemplates m s a v)"
    using table_keys(2) [of m s a v] k by (rule contra_subsetD)
  then show "map_of (descriptionTemplates m s a v) k = None"
    by (rule map_of_eq_None_iff [THEN iffD2])
  have "k \<notin> fst ` set (socialTemplates m a' v')"
    using table_keys(3) [of m a' v'] k by (rule contra_subsetD)
  then show "map_of (socialTemplates m a' v') k = None"
    by (rule map_of_eq_None_iff [THEN iffD2])
qed

text \<open>
  A content type that is a name inherited from \<open>Object.prototype\<close>, on a text whose
  detection does not replace it: each generator throws.
\<close>

lemma generators_throw:
  assumes "contentType \<in> set inheritedKeys"
    and "detectContentType content contentType = contentType"
  shows "generateTitles content contentType aud tone ks = Inl TypeError"
    and "generateDescriptions content contentType aud tone ks = Inl TypeError"
    and "generateSocialCopy content contentType aud tone ks = Inl TypeError"
  unfolding generateTitles_def selectedTitles_def generateDescriptions_def
    selectedDescriptions_def generateSocialCopy_def selectedSocialCopy_def Let_def assms(2)
  by (simp_all add: selectTemplates_inherited [OF assms(1)] inherited_not_in_tables [OF assms(1)])

lemma report_scores:
  "scores (toLowerCase (js ''Quarterly report'')) =
     [(js ''charitable'', 0), (js ''financial'', 0), (js ''business'', 0),
      (js ''technology'', 0), (js ''health'', 0), (js ''education'', 0)]"
  by (simp add: scores_def typeKeywords_def toLowerCase_def lowerUnit_def startsWith_def)

lemma report_detect: "detectContentType (js ''Quarterly report'') u = u"
  unfolding detectContentType_def detectedType_def Let_def report_scores
  by (simp add: keepHigher_def scoreOf_def)

lemma constructor_inherited: "js ''constructor'' \<in> set inheritedKeys"
  by (simp add: inheritedKeys_def)

lemma article_not_inherited: "js ''article'' \<notin> set inheritedKeys"
  by (simp add: inheritedKeys_def)

subsection \<open>Claim C1\<close>

text \<open>
  C1 says that for every content type \<open>generateTitles\<close> returns five non-empty strings
  and \<open>generateDescriptions\<close> and \<open>generateSocialCopy\<close> three each. For a content type
  that is not a property name inherited from \<open>Object.prototype\<close> this holds, for every
  text, audience, tone and outcome of the rearrangement (every bucket has at least as many
  templates as are taken, and every rearrangement is the outcome of some draw):
\<close>

lemma generators_full:
  assumes "contentType \<notin> set inheritedKeys"
  shows "\<exists>ts ds ss.
           generateTitles content contentType aud tone k1 = Inr ts \<and> length ts = 5 \<and>
           [] \<notin> set ts \<and>
           generateDescriptions content contentType aud tone k2 = Inr ds \<and> length ds = 3 \<and>
           [] \<notin> set ds \<and>
           generateSocialCopy content contentType aud tone k3 = Inr ss \<and> length ss = 3 \<and>
           [] \<notin> set ss"
  using generateTitles_full [OF assms, of content aud tone k1]
    generateDescriptions_full [OF assms, of content aud tone k2]
    generateSocialCopy_full [OF assms, of content aud tone k3]
  by blast

text \<open>
  C1, at the content type \<open>constructor\<close>: \<open>allTemplates['constructor']\<close> is the
  inherited function \<open>Object\<close>, which is truthy, so the fallback to the article bucket is
  not reached and \<open>templates.sort\<close> is not a function. Each generator throws a
  \<open>TypeError\<close> and the endpoint answers with status 500 instead of the lists.
\<close>

theorem generators_fail_on_constructor:
  "generateTitles (js ''Quarterly report'') (js ''constructor'') (js ''managers'')
     (js ''professional'') [] = Inl TypeError \<and>
   generateDescriptions (js ''Quarterly report'') (js ''constructor'') (js ''managers'')
     (js ''professional'') [] = Inl TypeError \<and>
   generateSocialCopy (js ''Quarterly report'') (js ''constructor'') (js ''managers'')
     (js ''professional'') [] = Inl TypeError \<and>
   apiGenerate \<lparr>reqContentType = js ''constructor'', reqContent = js ''Quarterly report'',
       reqTargetAudience = js ''managers'', reqTone = js ''professional''\<rparr> [] [] []
     = Inl Status500"
  using generators_throw [OF constructor_inherited report_detect]
  by (simp add: apiGenerate_def)

subsection \<open>Claim C9\<close>

text \<open>
  C9. Whenever the generation endpoint answers with a result, the \<open>warnings\<close> field of
  the result is the empty list: the generation never produces compliance warnings. (When
  a generator throws, the answer is the error with status 500, which has no \<open>warnings\<close>
  field at all.)
\<close>

theorem apiGenerate_no_warnings:
  "apiGenerate req k1 k2 k3 = Inr r \<Longrightarrow> warnings r = []"
  by (auto simp: apiGenerate_def split: sum.splits)

theorem apiGenerate_no_warnings_witness:
  "\<exists>r. apiGenerate sampleRequest [] [] [] = Inr r \<and> warnings r = [] \<and> length (titles r) = 5"
proof -
  let ?c = "js ''Charitable giving and philanthropy continue to be major forces for good.''"
  obtain ts ds ss where
    g: "generateTitles ?c (js ''article'') (js ''professionals'') (js ''professional'') [] = Inr ts"
      "length ts = 5"
      "generateDescriptions ?c (js ''article'') (js ''professionals'') (js ''professional'') [] = Inr ds"
      "generateSocialCopy ?c (js ''article'') (js ''professionals'') (js ''professional'') [] = Inr ss"
    using generators_full [OF article_not_inherited, of ?c "js ''professionals''"
        "js ''professional''" "[]" "[]" "[]"]
    by blast
  let ?r = "\<lparr>titles = ts, descriptions = ds, socialCopy = ss, warnings = []\<rparr>"
  have r: "apiGenerate sampleRequest [] [] [] = Inr ?r"
    unfolding apiGenerate_def sampleRequest_def by (simp add: g del: list.map)
  from apiGenerate_no_warnings [OF r] r g(2) show ?thesis
    by (intro exI [of _ ?r]) simp
qed

subsection \<open>Claim C6\<close>

text \<open>
  C6. With the tone \<open>professional\<close>, no string that \<open>generateTitles\<close> returns contains the
  character \<open>!\<close> (code unit 33), whatever the text, the content type, the audience and
  the outcome of the rearrangement. For the content type \<open>article\<close> and the audience
  \<open>managers\<close> it returns five titles, and every code unit of them is an ASCII character
  other than \<open>!\<close>: they contain no emoji.
\<close>

theorem professional_titles_plain:
  "(generateTitles content contentType aud (js ''professional'') ks = Inr ts \<longrightarrow>
      (\<forall>t\<in>set ts. 33 \<notin> set t)) \<and>
   (\<exists>us. generateTitles content (js ''article'') (js ''managers'') (js ''professional'') ks = Inr us \<and>
      length us = 5 \<and> (\<forall>t\<in>set us. 33 \<notin> set t \<and> (\<forall>c\<in>set t. c < 128)))"
proof (intro conjI impI)
  assume "generateTitles content contentType aud (js ''professional'') ks = Inr ts"
  then obtain sel where "ts = map (applyRules (titleRules (js ''professional''))) sel"
    unfolding generateTitles_def by (auto split: sum.splits)
  then show "\<forall>t\<in>set ts. 33 \<notin> set t"
    using professional_title_without_bang by auto
next
  let ?P = "js ''professional''"
  from selectedTitles_found [OF article_not_inherited, of content "js ''managers''" ks]
  obtain m s b where b:
      "selectedTitles content (js ''article'') (js ''managers'') ks = Inr (take 5 (shuffle ks b))"
      "b \<in> snd ` set (titleTemplates m s (js ''managers''))"
      "\<forall>c\<in>set m. c < 128" "\<forall>c\<in>set s. c < 128" by blast
  let ?us = "map (applyRules (titleRules ?P)) (take 5 (shuffle ks b))"
  have gen: "generateTitles content (js ''article'') (js ''managers'') ?P ks = Inr ?us"
    unfolding generateTitles_def b(1) by simp
  have len: "length ?us = 5"
    using titleTemplates_buckets(1) [OF b(2)] by (simp add: length_shuffle)
  have aud: "\<forall>c\<in>set (js ''managers''). c < 128" by simp
  have plain: "\<forall>t\<in>set b. \<forall>c\<in>set t. c < 128"
    using b(2) b(3) b(4) aud by (rule titleTemplates_ascii)
  have "33 \<notin> set u \<and> (\<forall>c\<in>set u. c < 128)" if "u \<in> set ?us" for u
  proof -
    from that obtain t where t: "t \<in> set (take 5 (shuffle ks b))"
      "u = applyRules (titleRules ?P) t" by auto
    from t(1) have "t \<in> set b" using set_take_shuffle [of 5 ks b] by (rule subsetD [rotated])
    with plain have "\<forall>c\<in>set t. c < 128" by blast
    with titleRules_professional_bang(3) have "\<forall>c\<in>set u. c < 128"
      unfolding t(2) by (rule applyRules_all)
    then show ?thesis unfolding t(2) using professional_title_without_bang by blast
  qed
  with gen len show "\<exists>us. generateTitles content (js ''article'') (js ''managers'') ?P ks = Inr us \<and>
      length us = 5 \<and> (\<forall>t\<in>set us. 33 \<notin> set t \<and> (\<forall>c\<in>set t. c < 128))"
    by blast
qed

theorem professional_titles_plain_witness:
  "generateTitles [] (js ''article'') (js ''managers'') (js ''professional'') [] =
     Inr [js ''The Comprehensive Guide to Content'',
      js ''The Definitive Content Guide for managers'',
      js ''Content: What Every managers Needs to Know'',
      js ''How to Excel in Content in 2024'',
      js ''The Definitive Guide to Content''] \<and>
   33 \<notin> set (js ''The Comprehensive Guide to Content'')"
proof -
  note ex = blank_professional_titles
  from professional_titles_plain [of "[]" "js ''article''" "js ''managers''" "[]", THEN conjunct1, rule_format, OF ex]
  have "33 \<notin> set (js ''The Comprehensive Guide to Content'')"
    by (meson list.set_intros(1))
  with ex show ?thesis by blast
qed

subsection \<open>Claim C7\<close>

text \<open>
  C7, as stated: for a tone outside the four known ones the three generators return the
  selected interpolated templates unchanged. For \<open>generateSocialCopy\<close> this fails: the
  hashtag formatting runs behind the \<open>switch\<close> for every tone, and it rewrites
  \<open>#content\<close> to \<open>#Content\<close>.
\<close>

theorem unknown_tone_social_counterexample:
  "generateSocialCopy [] (js ''article'') (js ''managers'') (js ''plain'') []
     \<noteq> selectedSocialCopy [] (js ''article'') (js ''managers'') []"
  unfolding blank_plain_socialCopy blank_selectedSocialCopy by simp

text \<open>
  C7, amended: for a tone outside the four known ones no tone rule is applied.
  \<open>generateTitles\<close> and \<open>generateDescriptions\<close> return the selected interpolated templates
  unchanged; \<open>generateSocialCopy\<close> returns them with the hashtag formatting applied and
  nothing else.
\<close>

theorem unknown_tone_passes_through:
  assumes "tone \<notin> {js ''professional'', js ''casual'', js ''friendly'', js ''authoritative''}"
  shows "generateTitles content contentType aud tone ks
           = selectedTitles content contentType aud ks \<and>
         generateDescriptions content contentType aud tone ks
           = selectedDescriptions content contentType aud ks \<and>
         generateSocialCopy content contentType aud tone ks
           = (case selectedSocialCopy content contentType aud ks of
                Inl e \<Rightarrow> Inl e | Inr templates \<Rightarrow> Inr (map formatHashtags templates))"
proof -
  have id: "map (applyRules []) xs = xs" for xs
    by (induction xs) (simp_all add: applyRules_Nil)
  show ?thesis
    unfolding generateTitles_def generateDescriptions_def generateSocialCopy_def
      unknown_tone_rules [OF assms] id
    by (simp split: sum.splits)
qed

theorem unknown_tone_passes_through_witness:
  "js ''plain'' \<notin> {js ''professional'', js ''casual'', js ''friendly'', js ''authoritative''} \<and>
   generateTitles [] (js ''article'') (js ''managers'') (js ''plain'') []
     = selectedTitles [] (js ''article'') (js ''managers'') [] \<and>
   generateSocialCopy [] (js ''article'') (js ''managers'') (js ''plain'') []
     = (case selectedSocialCopy [] (js ''article'') (js ''managers'') [] of
          Inl e \<Rightarrow> Inl e | Inr templates \<Rightarrow> Inr (map formatHashtags templates))"
proof -
  have h: "js ''plain'' \<notin> {js ''professional'', js ''casual'', js ''friendly'', js ''authoritative''}"
    by simp
  from unknown_tone_passes_through [OF h, of "[]" "js ''article''" "js ''managers''" "[]"] h
  show ?thesis by blast
qed

subsection \<open>Claim C5\<close>

text \<open>
  Where the audience stands in the templates: every template of a bucket either contains
  the audience it is interpolated with, or is the same text whatever the audience is.
\<close>

lemma titles_article_audience:
  "list_all2 (\<lambda>t t'. includesStr t a \<or> t = t') (titles_article m s a) (titles_article m s a')"
  by (simp add: titles_article_def includes_simps)

lemma titles_blog_audience:
  "list_all2 (\<lambda>t t'. includesStr t a \<or> t = t') (titles_blog m s a) (titles_blog m s a')"
  by (simp add: titles_blog_def includes_simps)

lemma titles_product_audience:
  "list_all2 (\<lambda>t t'. includesStr t a \<or> t = t') (titles_product m s a) (titles_product m s a')"
  by (simp add: titles_product_def includes_simps)

lemma titles_service_audience:
  "list_all2 (\<lambda>t t'. includesStr t a \<or> t = t') (titles_service m s a) (titles_service m s a')"
  by (simp add: titles_service_def includes_simps)

lemma titles_video_audience:
  "list_all2 (\<lambda>t t'. includesStr t a \<or> t = t') (titles_video m s a) (titles_video m s a')"
  by (simp add: titles_video_def includes_simps)

lemma titles_email_audience:
  "list_all2 (\<lambda>t t'. includesStr t a \<or> t = t') (titles_email m s a) (titles_email m s a')"
  by (simp add: titles_email_def includes_simps)

lemma titles_social_audience:
  "list_all2 (\<lambda>t t'. includesStr t a \<or> t = t') (titles_social m s a) (titles_social m s a')"
  by (simp add: titles_social_def includes_simps)

lemma titles_landing_audience:
  "list_all2 (\<lambda>t t'. includesStr t a \<or> t = t') (titles_landing m s a) (titles_landing m s a')"
  by (simp add: titles_landing_def includes_simps)

lemma titles_charitable_audience:
  "list_all2 (\<lambda>t t'. includesStr t a \<or> t = t') (titles_charitable m s a) (titles_charitable m s a')"
  by (simp add: titles_charitable_def includes_simps)

lemma titles_financial_audience:
  "list_all2 (\<lambda>t t'. includesStr t a \<or> t = t') (titles_financial m s a) (titles_financial m s a')"
  by (simp add: titles_financial_def includes_simps)

lemma titleTemplates_audience:
  "list_all2 (\<lambda>t t'. includesStr t a \<or> t = t')
     (bucketOf (titleTemplates m s a) k) (bucketOf (titleTemplates m s a') k)"
  by (simp add: bucketOf_def titleTemplates_def titles_article_audience titles_blog_audience titles_product_audience titles_service_audience titles_video_audience titles_email_audience titles_social_audience titles_landing_audience titles_charitable_audience titles_financial_audience)

lemma descriptions_article_audience:
  "list_all2 (\<lambda>t t'. includesStr t a \<or> includesStr t v \<or> t = t')
     (descriptions_article m s a v) (descriptions_article m s a' v')"
  by (simp add: descriptions_article_def includes_simps)

lemma descriptions_blog_audience:
  "list_all2 (\<lambda>t t'. includesStr t a \<or> includesStr t v \<or> t = t')
     (descriptions_blog m s a v) (descriptions_blog m s a' v')"
  by (simp add: descriptions_blog_def includes_simps)

lemma descriptions_product_audience:
  "list_all2 (\<lambda>t t'. includesStr t a \<or> includesStr t v \<or> t = t')
     (descriptions_product m s a v) (descriptions_product m s a' v')"
  by (simp add: descriptions_product_def includes_simps)

lemma descriptions_service_audience:
  "list_all2 (\<lambda>t t'. includesStr t a \<or> includesStr t v \<or> t = t')
     (descriptions_service m s a v) (descriptions_service m s a' v')"
  by (simp add: descriptions_service_def includes_simps)

lemma descriptions_video_audience:
  "list_all2 (\<lambda>t t'. includesStr t a \<or> includesStr t v \<or> t = t')
     (descriptions_video m s a v) (descriptions_video m s a' v')"
  by (simp add: descriptions_video_def includes_simps)

lemma descriptions_email_audience:
  "list_all2 (\<lambda>t t'. includesStr t a \<or> includesStr t v \<or> t = t')
     (descriptions_email m s a v) (descriptions_email m s a' v')"
  by (simp add: descriptions_email_def includes_simps)

lemma descriptions_social_audience:
  "list_all2 (\<lambda>t t'. includesStr t a \<or> includesStr t v \<or> t = t')
     (descriptions_social m s a v) (descriptions_social m s a' v')"
  by (simp add: descriptions_social_def includes_simps)

lemma descriptions_landing_audience:
  "list_all2 (\<lambda>t t'. includesStr t a \<or> includesStr t v \<or> t = t')
     (descriptions_landing m s a v) (descriptions_landing m s a' v')"
  by (simp add: descriptions_landing_def includes_simps)

lemma descriptions_charitable_audience:
  "list_all2 (\<lambda>t t'. includesStr t a \<or> includesStr t v \<or> t = t')
     (descriptions_charitable m s a v) (descriptions_charitable m s a' v')"
  by (simp add: descriptions_charitable_def includes_simps)

lemma descriptions_financial_audience:
  "list_all2 (\<lambda>t t'. includesStr t a \<or> includesStr t v \<or> t = t')
     (descriptions_financial m s a v) (descriptions_financial m s a' v')"
  by (simp add: descriptions_financial_def includes_simps)

lemma descriptionTemplates_audience:
  "list_all2 (\<lambda>t t'. includesStr t a \<or> includesStr t v \<or> t = t')
     (bucketOf (descriptionTemplates m s a v) k) (bucketOf (descriptionTemplates m s a' v') k)"
  by (simp add: bucketOf_def descriptionTemplates_def descriptions_article_audience descriptions_blog_audience descriptions_product_audience descriptions_service_audience descriptions_video_audience descriptions_email_audience descriptions_social_audience descriptions_landing_audience descriptions_charitable_audience descriptions_financial_audience)

lemma social_article_audience:
  "list_all2 (\<lambda>t t'. includesStr t a \<or> includesStr t v \<or> t = t')
     (social_article m a v) (social_article m a' v')"
  by (simp add: social_article_def includes_simps)

lemma social_blog_audience:
  "list_all2 (\<lambda>t t'. includesStr t a \<or> includesStr t v \<or> t = t')
     (social_blog m a v) (social_blog m a' v')"
  by (simp add: social_blog_def includes_simps)

lemma social_product_audience:
  "list_all2 (\<lambda>t t'. includesStr t a \<or> includesStr t v \<or> t = t')
     (social_product m a v) (social_product m a' v')"
  by (simp add: social_product_def includes_simps)

lemma social_service_audience:
  "list_all2 (\<lambda>t t'. includesStr t a \<or> includesStr t v \<or> t = t')
     (social_service m a v) (social_service m a' v')"
  by (simp add: social_service_def includes_simps)

lemma social_video_audience:
  "list_all2 (\<lambda>t t'. includesStr t a \<or> includesStr t v \<or> t = t')
     (social_video m a v) (social_video m a' v')"
  by (simp add: social_video_def includes_simps)

lemma social_email_audience:
  "list_all2 (\<lambda>t t'. includesStr t a \<or> includesStr t v \<or> t = t')
     (social_email m a v) (social_email m a' v')"
  by (simp add: social_email_def includes_simps)

lemma social_social_audience:
  "list_all2 (\<lambda>t t'. includesStr t a \<or> includesStr t v \<or> t = t')
     (social_social m a v) (social_social m a' v')"
  by (simp add: social_social_def includes_simps)

lemma social_landing_audience:
  "list_all2 (\<lambda>t t'. includesStr t a \<or> includesStr t v \<or> t = t')
     (social_landing m a v) (social_landing m a' v')"
  by (simp add: social_landing_def includes_simps)

lemma social_charitable_audience:
  "list_all2 (\<lambda>t t'. includesStr t a \<or> includesStr t v \<or> t = t')
     (social_charitable m a v) (social_charitable m a' v')"
  by (simp add: social_charitable_def includes_simps)

lemma social_financial_audience:
  "list_all2 (\<lambda>t t'. includesStr t a \<or> includesStr t v \<or> t = t')
     (social_financial m a v) (social_financial m a' v')"
  by (simp add: social_financial_def includes_simps)

lemma socialTemplates_audience:
  "list_all2 (\<lambda>t t'. includesStr t a \<or> includesStr t v \<or> t = t')
     (bucketOf (socialTemplates m a v) k) (bucketOf (socialTemplates m a' v') k)"
  by (simp add: bucketOf_def socialTemplates_def social_article_audience social_blog_audience social_product_audience social_service_audience social_video_audience social_email_audience social_social_audience social_landing_audience social_charitable_audience social_financial_audience)

lemma bucketOf_member:
  assumes "t \<in> set (bucketOf tbl k)"
  shows "\<exists>b\<in>snd ` set tbl. t \<in> set b"
proof (cases "map_of tbl k")
  case None
  with assms show ?thesis by (simp add: bucketOf_def)
next
  case (Some b)
  then have "(k, b) \<in> set tbl" by (rule map_of_SomeD)
  then have "b \<in> snd ` set tbl" by force
  moreover from assms Some have "t \<in> set b" by (simp add: bucketOf_def)
  ultimately show ?thesis by blast
qed

text \<open>
  C5, as stated: every template of a bucket, interpolated with the main topic \<open>finance\<close>
  and the audience \<open>managers\<close>, contains both words verbatim. This fails: the first
  article title is "The Complete Guide to Finance", which contains neither \<open>finance\<close>
  (the title templates capitalise the topic) nor \<open>managers\<close> (the template has no place
  for the audience); the second article description contains no \<open>managers\<close> either.
\<close>

theorem interpolation_counterexample:
  "bucketOf (titleTemplates (js ''finance'') (js ''strategies'') (js ''managers'')) (js ''article'') ! 0
     = js ''The Complete Guide to Finance'' \<and>
   \<not> occursIn (js ''finance'') (js ''The Complete Guide to Finance'') \<and>
   \<not> occursIn (js ''managers'') (js ''The Complete Guide to Finance'') \<and>
   bucketOf (descriptionTemplates (js ''finance'') (js ''strategies'') (js ''managers'')
       (js ''managers'')) (js ''article'') ! 1
     = js ''Learn the essential strategies for mastering finance. From beginner basics to advanced techniques, this comprehensive guide covers it all.'' \<and>
   \<not> occursIn (js ''managers'') (js ''Learn the essential strategies for mastering finance. From beginner basics to advanced techniques, this comprehensive guide covers it all.'')"
  unfolding includesStr_occursIn [symmetric]
  by (simp add: bucketOf_def titleTemplates_def descriptionTemplates_def titles_article_def
      descriptions_article_def capitalize_def upperUnit_def startsWith_def)

text \<open>
  C5, amended: for every main topic and audience (so for \<open>finance\<close> and \<open>managers\<close>),
  every template of every bucket contains the interpolated main topic as a contiguous
  part, with no truncation or escaping: the title templates with its first letter in upper
  case (\<open>Finance\<close> for \<open>finance\<close>), the description and social-copy templates verbatim.
  The audience is contained verbatim in every template that has a place for it: each
  template of each bucket either contains the audience (the audience as sent, or the
  trimmed audience \<open>validAudience\<close>, which for \<open>managers\<close> is \<open>managers\<close> itself) or is the
  same text whatever the audience is.
\<close>

theorem interpolation_contains_topic:
  "(\<forall>k. \<forall>t\<in>set (bucketOf (titleTemplates mainTopic secondaryTopic aud) k).
      occursIn (capitalize mainTopic) t) \<and>
   (\<forall>k. \<forall>t\<in>set (bucketOf (descriptionTemplates mainTopic secondaryTopic aud validAudience) k).
      occursIn mainTopic t) \<and>
   (\<forall>k. \<forall>t\<in>set (bucketOf (socialTemplates mainTopic aud validAudience) k).
      occursIn mainTopic t) \<and>
   (\<forall>k aud'. list_all2 (\<lambda>t t'. occursIn aud t \<or> t = t')
      (bucketOf (titleTemplates mainTopic secondaryTopic aud) k)
      (bucketOf (titleTemplates mainTopic secondaryTopic aud') k)) \<and>
   (\<forall>k aud' validAudience'.
      list_all2 (\<lambda>t t'. occursIn aud t \<or> occursIn validAudience t \<or> t = t')
      (bucketOf (descriptionTemplates mainTopic secondaryTopic aud validAudience) k)
      (bucketOf (descriptionTemplates mainTopic secondaryTopic aud' validAudience') k)) \<and>
   (\<forall>k aud' validAudience'.
      list_all2 (\<lambda>t t'. occursIn aud t \<or> occursIn validAudience t \<or> t = t')
      (bucketOf (socialTemplates mainTopic aud validAudience) k)
      (bucketOf (socialTemplates mainTopic aud' validAudience') k)) \<and>
   capitalize (js ''finance'') = js ''Finance'' \<and>
   validAudienceOf (js ''managers'') = js ''managers''"
proof (intro conjI allI ballI)
  fix k t
  assume "t \<in> set (bucketOf (titleTemplates mainTopic secondaryTopic aud) k)"
  then obtain b where "b \<in> snd ` set (titleTemplates mainTopic secondaryTopic aud)" "t \<in> set b"
    using bucketOf_member by blast
  then show "occursIn (capitalize mainTopic) t"
    using titleTemplates_buckets(3) [of b mainTopic secondaryTopic aud]
    unfolding includesStr_occursIn by blast
next
  fix k t
  assume "t \<in> set (bucketOf (descriptionTemplates mainTopic secondaryTopic aud validAudience) k)"
  then obtain b where
    "b \<in> snd ` set (descriptionTemplates mainTopic secondaryTopic aud validAudience)" "t \<in> set b"
    using bucketOf_member by blast
  then show "occursIn mainTopic t"
    using descriptionTemplates_buckets(3) [of b mainTopic secondaryTopic aud validAudience]
    unfolding includesStr_occursIn by blast
next
  fix k t
  assume "t \<in> set (bucketOf (socialTemplates mainTopic aud validAudience) k)"
  then obtain b where
    "b \<in> snd ` set (socialTemplates mainTopic aud validAudience)" "t \<in> set b"
    using bucketOf_member by blast
  then show "occursIn mainTopic t"
    using socialTemplates_buckets(3) [of b mainTopic aud validAudience]
    unfolding includesStr_occursIn by blast
next
  fix k aud'
  show "list_all2 (\<lambda>t t'. occursIn aud t \<or> t = t')
      (bucketOf (titleTemplates mainTopic secondaryTopic aud) k)
      (bucketOf (titleTemplates mainTopic secondaryTopic aud') k)"
    using titleTemplates_audience [of aud mainTopic secondaryTopic k aud']
    unfolding includesStr_occursIn .
next
  fix k aud' validAudience'
  show "list_all2 (\<lambda>t t'. occursIn aud t \<or> occursIn validAudience t \<or> t = t')
      (bucketOf (descriptionTemplates mainTopic secondaryTopic aud validAudience) k)
      (bucketOf (descriptionTemplates mainTopic secondaryTopic aud' validAudience') k)"
    using descriptionTemplates_audience [of aud validAudience mainTopic secondaryTopic k aud' validAudience']
    unfolding includesStr_occursIn .
next
  fix k aud' validAudience'
  show "list_all2 (\<lambda>t t'. occursIn aud t \<or> occursIn validAudience t \<or> t = t')
      (bucketOf (socialTemplates mainTopic aud validAudience) k)
      (bucketOf (socialTemplates mainTopic aud' validAudience') k)"
    using socialTemplates_audience [of aud validAudience mainTopic k aud' validAudience']
    unfolding includesStr_occursIn .
next
  show "capitalize (js ''finance'') = js ''Finance''"
    by (simp add: capitalize_def upperUnit_def)
  show "validAudienceOf (js ''managers'') = js ''managers''"
    by (simp add: validAudienceOf_def trim_def isSpaceChar_def)
qed

lemma finance_article_titles:
  "bucketOf (titleTemplates (js ''finance'') (js ''strategies'') a) (js ''article'') ! 1
     = js ''The Ultimate Finance Guide for '' @ a"
  "1 < length (bucketOf (titleTemplates (js ''finance'') (js ''strategies'') a) (js ''article''))"
  by (simp_all add: bucketOf_def titleTemplates_def titles_article_def capitalize_def upperUnit_def)

lemma finance_article_descriptions:
  "bucketOf (descriptionTemplates (js ''finance'') (js ''strategies'') a v) (js ''article'') ! 3
     = js ''Struggling with finance? This comprehensive guide breaks down complex concepts into simple, actionable steps for '' @ v @ js ''.''"
  "3 < length (bucketOf (descriptionTemplates (js ''finance'') (js ''strategies'') a v) (js ''article''))"
  by (simp_all add: bucketOf_def descriptionTemplates_def descriptions_article_def)

theorem interpolation_contains_topic_witness:
  "occursIn (js ''Finance'') (js ''The Ultimate Finance Guide for managers'') \<and>
   occursIn (js ''managers'') (js ''The Ultimate Finance Guide for managers'') \<and>
   occursIn (js ''finance'') (js ''Struggling with finance? This comprehensive guide breaks down complex concepts into simple, actionable steps for managers.'') \<and>
   occursIn (js ''managers'') (js ''Struggling with finance? This comprehensive guide breaks down complex concepts into simple, actionable steps for managers.'')"
proof -
  let ?T = "\<lambda>a. bucketOf (titleTemplates (js ''finance'') (js ''strategies'') a) (js ''article'')"
  let ?D = "\<lambda>a v. bucketOf (descriptionTemplates (js ''finance'') (js ''strategies'') a v) (js ''article'')"
  note inst = interpolation_contains_topic
    [of "js ''finance''" "js ''strategies''" "js ''managers''" "js ''managers''"]
  have t1: "?T (js ''managers'') ! 1 = js ''The Ultimate Finance Guide for managers''"
    unfolding finance_article_titles by simp
  have t1': "?T (js ''x'') ! 1 \<noteq> js ''The Ultimate Finance Guide for managers''"
    unfolding finance_article_titles by simp
  have d3: "?D (js ''managers'') (js ''managers'') ! 3 = js ''Struggling with finance? This comprehensive guide breaks down complex concepts into simple, actionable steps for managers.''"
    unfolding finance_article_descriptions by simp
  have d3': "?D (js ''x'') (js ''x'') ! 3 \<noteq> js ''Struggling with finance? This comprehensive guide breaks down complex concepts into simple, actionable steps for managers.''"
    unfolding finance_article_descriptions by simp
  have tin: "?T (js ''managers'') ! 1 \<in> set (?T (js ''managers''))"
    using finance_article_titles(2) [of "js ''managers''"] by (rule nth_mem)
  have din: "?D (js ''managers'') (js ''managers'') ! 3 \<in> set (?D (js ''managers'') (js ''managers''))"
    using finance_article_descriptions(2) [of "js ''managers''" "js ''managers''"] by (rule nth_mem)
  from inst tin have "occursIn (capitalize (js ''finance'')) (?T (js ''managers'') ! 1)" by blast
  moreover from inst have "capitalize (js ''finance'') = js ''Finance''" by blast
  ultimately have a: "occursIn (js ''Finance'') (js ''The Ultimate Finance Guide for managers'')"
    unfolding t1 by simp
  from inst have "list_all2 (\<lambda>t t'. occursIn (js ''managers'') t \<or> t = t')
      (?T (js ''managers'')) (?T (js ''x''))" by blast
  from list_all2_nthD [OF this finance_article_titles(2) [of "js ''managers''"]] t1'
  have b: "occursIn (js ''managers'') (js ''The Ultimate Finance Guide for managers'')"
    unfolding t1 by metis
  from inst din have c: "occursIn (js ''finance'') (js ''Struggling with finance? This comprehensive guide breaks down complex concepts into simple, actionable steps for managers.'')"
    unfolding d3 by blast
  from inst have "list_all2 (\<lambda>t t'. occursIn (js ''managers'') t \<or> occursIn (js ''managers'') t \<or> t = t')
      (?D (js ''managers'') (js ''managers'')) (?D (js ''x'') (js ''x''))" by blast
  from list_all2_nthD [OF this finance_article_descriptions(2) [of "js ''managers''" "js ''managers''"]] d3'
  have d: "occursIn (js ''managers'') (js ''Struggling with finance? This comprehensive guide breaks down complex concepts into simple, actionable steps for managers.'')"
    unfolding d3 by metis
  from a b c d show ?thesis by blast
qed

end
